(* ===== verification/Prelude.thy ===== *)
theory Prelude
  imports Complex_Main "HOL-Library.Multiset"
begin

text \<open>
  Shared vocabulary of the development: the part of the JavaScript value model that the
  backend's code depends on. Numbers are \<open>'a jsnum\<close>: a finite value or \<open>NaN\<close>; the
  code's integers (train numbers, \<open>HHMM\<close> sort keys, metre positions) never leave the
  range where an IEEE double is exact, so the finite values are \<open>int\<close> or \<open>real\<close>
  rather than floating point. \<open>undefined\<close> in an arithmetic or relational context is
  converted to \<open>NaN\<close> (ECMAScript ToNumber), \<open>null\<close> to \<open>0\<close>; \<open>jsnum_of_json\<close>
  writes this conversion out for the JSON values the mileage table holds. The relational
  operators of JavaScript are \<open>js_lt\<close>, \<open>js_le\<close>: false as soon as one side is
  \<open>NaN\<close>. The HOL order on \<open>jsnum\<close> (the \<open>linorder\<close> instance) is a different thing:
  it is the order lodash's \<open>compareAscending\<close> sorts by, numbers ascending and \<open>NaN\<close>
  after every number.
\<close>

named_theorems js_simps "evaluation rules of the JavaScript value model"

section \<open>Numbers\<close>

datatype 'a jsnum = JNum 'a | NaN

instantiation jsnum :: (linorder) linorder
begin

fun less_eq_jsnum :: "'a jsnum \<Rightarrow> 'a jsnum \<Rightarrow> bool" where
  "less_eq_jsnum (JNum a) (JNum b) = (a \<le> b)"
| "less_eq_jsnum x NaN = True"
| "less_eq_jsnum NaN (JNum b) = False"

fun less_jsnum :: "'a jsnum \<Rightarrow> 'a jsnum \<Rightarrow> bool" where
  "less_jsnum (JNum a) (JNum b) = (a < b)"
| "less_jsnum (JNum a) NaN = True"
| "less_jsnum NaN y = False"

instance
proof
  fix x y z :: "'a jsnum"
  show "(x < y) = (x \<le> y \<and> \<not> y \<le> x)"
    by (cases x; cases y) auto
  show "x \<le> x"
    by (cases x) auto
  show "x \<le> y \<Longrightarrow> y \<le> z \<Longrightarrow> x \<le> z"
    by (cases x; cases y; cases z) auto
  show "x \<le> y \<Longrightarrow> y \<le> x \<Longrightarrow> x = y"
    by (cases x; cases y) auto
  show "x \<le> y \<or> y \<le> x"
    by (cases x; cases y) auto
qed

end

text \<open>JavaScript's \<open><\<close>, \<open><=\<close> and binary \<open>-\<close> on numbers.\<close>

fun js_lt :: "'a::linorder jsnum \<Rightarrow> 'a jsnum \<Rightarrow> bool" where
  "js_lt (JNum a) (JNum b) = (a < b)"
| "js_lt _ _ = False"

fun js_le :: "'a::linorder jsnum \<Rightarrow> 'a jsnum \<Rightarrow> bool" where
  "js_le (JNum a) (JNum b) = (a \<le> b)"
| "js_le _ _ = False"

fun js_sub :: "'a::minus jsnum \<Rightarrow> 'a jsnum \<Rightarrow> 'a jsnum" where
  "js_sub (JNum a) (JNum b) = JNum (a - b)"
| "js_sub _ _ = NaN"

text \<open>
  JavaScript's \<open>%\<close> truncates: the result takes the sign of the dividend
  (\<open>-3 % 2 = -1\<close>), unlike HOL's \<open>mod\<close>; a zero divisor gives \<open>NaN\<close>.
\<close>

fun js_rem :: "int jsnum \<Rightarrow> int jsnum \<Rightarrow> int jsnum" where
  "js_rem (JNum a) (JNum b) = (if b = 0 then NaN else JNum (sgn a * (\<bar>a\<bar> mod \<bar>b\<bar>)))"
| "js_rem _ _ = NaN"

text \<open>Values of a JSON document read with \<open>JSON.parse\<close>: a number or \<open>null\<close>.\<close>

datatype json_num = JNull | JVal real

text \<open>ToNumber of a property read: \<open>None\<close> is \<open>undefined\<close>.\<close>

fun jsnum_of_json :: "json_num option \<Rightarrow> real jsnum" where
  "jsnum_of_json None = NaN"
| "jsnum_of_json (Some JNull) = JNum 0"
| "jsnum_of_json (Some (JVal r)) = JNum r"

section \<open>Arrays\<close>

text \<open>\<open>xs[i]\<close>: \<open>undefined\<close> (\<open>None\<close>) out of range, never an exception.\<close>

definition js_at :: "'a list \<Rightarrow> nat \<Rightarrow> 'a option" where
  "js_at xs i = (if i < length xs then Some (xs ! i) else None)"

text \<open>
  \<open>xs.findIndex(p)\<close>: the first index whose element satisfies the callback
  \<open>(element, index) => ...\<close>, or \<open>-1\<close>.
\<close>

definition js_findIndex :: "('a \<Rightarrow> nat \<Rightarrow> bool) \<Rightarrow> 'a list \<Rightarrow> int" where
  "js_findIndex p xs =
     (case find (\<lambda>i. p (xs ! i) i) [0..<length xs] of None \<Rightarrow> -1 | Some i \<Rightarrow> int i)"

text \<open>
  \<open>xs.slice(s, e)\<close> and \<open>xs.splice(s, n)\<close> (the array that is left): negative positions
  count from the end, every position is clamped to the array.
\<close>

definition js_rel_index :: "nat \<Rightarrow> int \<Rightarrow> nat" where
  "js_rel_index n k = (if k < 0 then nat (max (int n + k) 0) else nat (min k (int n)))"

definition js_slice :: "'a list \<Rightarrow> int \<Rightarrow> int \<Rightarrow> 'a list" where
  "js_slice xs s e =
     (let a = js_rel_index (length xs) s; b = js_rel_index (length xs) e
      in take (b - a) (drop a xs))"

definition js_splice_delete :: "'a list \<Rightarrow> int \<Rightarrow> nat \<Rightarrow> 'a list" where
  "js_splice_delete xs s n =
     (let a = js_rel_index (length xs) s; c = min n (length xs - a)
      in take a xs @ drop (a + c) xs)"

section \<open>Objects\<close>

text \<open>
  \<open>obj[k]\<close> on a plain object \<open>{}\<close> used as a dictionary: its own property, else a
  property inherited from \<open>Object.prototype\<close> (a function, or the prototype itself for
  \<open>__proto__\<close>), else \<open>undefined\<close>.
\<close>

datatype 'a js_prop = Own 'a | Inherited string | Undefined

definition object_prototype_keys :: "string list" where
  "object_prototype_keys =
     [''constructor'', ''__proto__'', ''hasOwnProperty'', ''isPrototypeOf'',
      ''propertyIsEnumerable'', ''toLocaleString'', ''toString'', ''valueOf'',
      ''__defineGetter__'', ''__defineSetter__'', ''__lookupGetter__'', ''__lookupSetter__'']"

definition js_obj_get :: "(string \<rightharpoonup> 'a) \<Rightarrow> string \<Rightarrow> 'a js_prop" where
  "js_obj_get obj k =
     (case obj k of
        Some v \<Rightarrow> Own v
      | None \<Rightarrow> if k \<in> set object_prototype_keys then Inherited k else Undefined)"

text \<open>Exceptions and rejected promises.\<close>

datatype js_error = TypeError | Rejected string

section \<open>Generic facts the components share\<close>

lemma js_at_Cons_0 [simp, js_simps]: "js_at (x # xs) 0 = Some x"
  by (simp add: js_at_def)

lemma js_at_Cons_Suc [simp, js_simps]: "js_at (x # xs) (Suc i) = js_at xs i"
  by (simp add: js_at_def)

lemma js_at_Nil [simp, js_simps]: "js_at [] i = None"
  by (simp add: js_at_def)

lemma js_at_None_iff [simp]: "js_at xs i = None \<longleftrightarrow> length xs \<le> i"
  by (simp add: js_at_def)

lemma js_at_numeral [js_simps]:
  "js_at (x # xs) (numeral n) = js_at xs (pred_numeral n)"
  by (simp add: numeral_eq_Suc)


lemma js_rem_two_zero_iff [simp]: "js_rem (JNum n) (JNum 2) = JNum 0 \<longleftrightarrow> even n"
proof -
  have "sgn n * (\<bar>n\<bar> mod 2) = 0 \<longleftrightarrow> \<bar>n\<bar> mod 2 = 0 \<or> n = 0"
    by (auto simp: sgn_0_0)
  also have "\<dots> \<longleftrightarrow> even n"
    by (auto simp: even_iff_mod_2_eq_zero [symmetric])
  finally show ?thesis by simp
qed

lemma js_lt_JNum_iff: "js_lt x (JNum b) \<longleftrightarrow> (\<exists>a. x = JNum a \<and> a < b)"
  by (cases x) auto

lemma js_lt_NaN [simp]: "\<not> js_lt x NaN" "\<not> js_lt NaN x"
  by (cases x; simp)+

lemma js_le_NaN [simp]: "\<not> js_le x NaN" "\<not> js_le NaN x"
  by (cases x; simp)+

lemma NaN_greatest [simp]: "x \<le> (NaN :: 'a::linorder jsnum)"
  by (cases x) auto

lemma filter_map_snd: "filter P (map snd xs) = map snd (filter (P \<circ> snd) xs)"
  by (induction xs) auto

lemma find_Some_iff_first:
  "find P xs = Some x \<longleftrightarrow> (\<exists>i<length xs. xs ! i = x \<and> P x \<and> (\<forall>j<i. \<not> P (xs ! j)))"
  by (rule find_Some_iff [THEN trans]) auto

lemma js_findIndex_cases:
  "js_findIndex p xs = -1 \<and> (\<forall>i<length xs. \<not> p (xs ! i) i) \<or>
   (\<exists>i<length xs. js_findIndex p xs = int i \<and> p (xs ! i) i \<and> (\<forall>j<i. \<not> p (xs ! j) j))"
proof (cases "find (\<lambda>i. p (xs ! i) i) [0..<length xs]")
  case None
  then have "\<forall>i<length xs. \<not> p (xs ! i) i"
    by (auto simp: find_None_iff)
  with None show ?thesis by (simp add: js_findIndex_def)
next
  case (Some i)
  then have "i < length xs \<and> p (xs ! i) i \<and> (\<forall>j<i. \<not> p (xs ! j) j)"
    by (auto simp: find_Some_iff_first)
  with Some show ?thesis by (auto simp: js_findIndex_def)
qed

lemma js_slice_from_1:
  "js_slice xs 1 (int i + 1) = take (min i (length xs - 1)) (drop 1 xs)"
  "js_slice xs 1 0 = []"
  by (auto simp: js_slice_def js_rel_index_def nat_add_distrib min_def)

lemma js_splice_delete_1:
  "n \<le> length xs - 1 \<Longrightarrow> js_splice_delete xs 1 n = take 1 xs @ drop (Suc n) xs"
  by (auto simp: js_splice_delete_def js_rel_index_def min_def)

end
