(* ===== verification/JsString.thy ===== *)
theory JsString
  imports Prelude
begin

text \<open>
  The ECMAScript string primitives the backend calls: \<open>Number.parseInt\<close> (train numbers,
  \<open>HHMM\<close> sort keys, metre positions of the speed-limit feed), \<open>String.prototype.split\<close>
  on one character, \<open>String.prototype.toLowerCase\<close>, and the conversion of a value to
  text inside a template literal. Strings are byte strings (\<open>char list\<close>): only ASCII
  whitespace and ASCII letters are treated specially, which is exact for the keys and
  times these functions see (see the header of \<open>Spec2Isabelle\<close>).
\<close>

section \<open>Number.parseInt\<close>

definition is_js_space :: "char \<Rightarrow> bool" where
  "is_js_space c \<longleftrightarrow> c \<in> set [CHR '' '', CHR 0x09, CHR 0x0A, CHR 0x0B, CHR 0x0C, CHR 0x0D]"

text \<open>The value of a digit in any radix up to 36: \<open>0-9\<close>, then \<open>a-z\<close> or \<open>A-Z\<close>.\<close>

definition digit_value :: "char \<Rightarrow> nat option" where
  "digit_value c = (let n = (of_char c :: nat) in
     if 48 \<le> n \<and> n \<le> 57 then Some (n - 48)
     else if 97 \<le> n \<and> n \<le> 122 then Some (n - 87)
     else if 65 \<le> n \<and> n \<le> 90 then Some (n - 55) else None)"

definition is_radix_digit :: "nat \<Rightarrow> char \<Rightarrow> bool" where
  "is_radix_digit r c \<longleftrightarrow> (case digit_value c of Some d \<Rightarrow> d < r | None \<Rightarrow> False)"

fun digits_value :: "nat \<Rightarrow> nat \<Rightarrow> string \<Rightarrow> nat" where
  "digits_value r acc [] = acc"
| "digits_value r acc (c # cs) =
     digits_value r (acc * r + (case digit_value c of Some d \<Rightarrow> d | None \<Rightarrow> 0)) cs"

text \<open>
  ECMAScript \<open>parseInt(string)\<close> with no radix: strip leading white space, read an
  optional sign, switch to radix 16 after a \<open>0x\<close>/\<open>0X\<close> prefix, then read the longest
  prefix of digits; no digit at all is \<open>NaN\<close>, anything after the digits is ignored.
\<close>

definition js_parseInt :: "string \<Rightarrow> int jsnum" where
  "js_parseInt s =
     (let s1 = dropWhile is_js_space s;
          neg = (take 1 s1 = ''-'');
          s2 = (if take 1 s1 = ''-'' \<or> take 1 s1 = ''+'' then drop 1 s1 else s1);
          hex = (take 2 s2 = ''0x'' \<or> take 2 s2 = ''0X'');
          r = (if hex then 16 else 10);
          s3 = (if hex then drop 2 s2 else s2);
          ds = takeWhile (is_radix_digit r) s3
      in if ds = [] then NaN
         else JNum ((if neg then -1 else 1) * int (digits_value r 0 ds)))"

text \<open>\<open>String(n)\<close> for an integer \<open>n\<close>: its decimal digits, with a minus sign.\<close>

fun nat_digits :: "nat \<Rightarrow> string" where
  "nat_digits n =
     (if n < 10 then [''0123456789'' ! n]
      else nat_digits (n div 10) @ [''0123456789'' ! (n mod 10)])"

declare nat_digits.simps [simp del]

definition js_int_to_string :: "int \<Rightarrow> string" where
  "js_int_to_string n =
     (if n < 0 then CHR ''-'' # nat_digits (nat (- n)) else nat_digits (nat n))"

section \<open>split, toLowerCase, template literals\<close>

text \<open>\<open>s.split(c)\<close> for a one-character separator: the pieces between separators.\<close>

fun js_split :: "char \<Rightarrow> string \<Rightarrow> string list" where
  "js_split c [] = [[]]"
| "js_split c (x # xs) =
     (if x = c then [] # js_split c xs
      else (case js_split c xs of [] \<Rightarrow> [[x]] | p # ps \<Rightarrow> (x # p) # ps))"

definition is_ascii_upper :: "char \<Rightarrow> bool" where
  "is_ascii_upper c \<longleftrightarrow> 65 \<le> (of_char c :: nat) \<and> (of_char c :: nat) \<le> 90"

text \<open>Lower-casing sets bit 5 of an upper-case ASCII letter.\<close>

fun lower_char :: "char \<Rightarrow> char" where
  "lower_char (Char b0 b1 b2 b3 b4 b5 b6 b7) =
     (if is_ascii_upper (Char b0 b1 b2 b3 b4 b5 b6 b7) then Char b0 b1 b2 b3 b4 True b6 b7
      else Char b0 b1 b2 b3 b4 b5 b6 b7)"

definition js_toLowerCase :: "string \<Rightarrow> string" where
  "js_toLowerCase s = map lower_char s"

text \<open>A value interpolated into a template literal: \<open>undefined\<close> prints as its name.\<close>

fun js_template_str :: "string option \<Rightarrow> string" where
  "js_template_str None = ''undefined''"
| "js_template_str (Some s) = s"

lemmas js_string_defs [js_simps] =
  js_parseInt_def is_radix_digit_def digit_value_def is_js_space_def
  js_toLowerCase_def is_ascii_upper_def

section \<open>Digits\<close>

lemma digits_value_append:
  "digits_value r acc (xs @ ys) = digits_value r (digits_value r acc xs) ys"
  by (induction xs arbitrary: acc) auto

lemma decimal_char_value:
  assumes "d < 10"
  shows "digit_value (''0123456789'' ! d) = Some d"
proof -
  have "d \<in> {0,1,2,3,4,5,6,7,8,9}" using assms by auto
  then show ?thesis by (auto simp: digit_value_def)
qed

lemma decimal_char_digit: "d < 10 \<Longrightarrow> is_radix_digit 10 (''0123456789'' ! d)"
  by (simp add: is_radix_digit_def decimal_char_value)

lemma nat_digits_digits: "c \<in> set (nat_digits n) \<Longrightarrow> is_radix_digit 10 c"
proof (induction n rule: nat_digits.induct)
  case (1 n)
  then show ?case
    by (cases "n < 10") (auto simp: nat_digits.simps [of n] decimal_char_digit)
qed

lemma nat_digits_value: "digits_value 10 0 (nat_digits n) = n"
proof (induction n rule: nat_digits.induct)
  case (1 n)
  show ?case
  proof (cases "n < 10")
    case True
    then show ?thesis by (simp add: nat_digits.simps [of n] decimal_char_value)
  next
    case False
    then have "digits_value 10 0 (nat_digits n) = (n div 10) * 10 + n mod 10"
      using "1.IH" by (simp add: nat_digits.simps [of n] digits_value_append decimal_char_value)
    then show ?thesis by simp
  qed
qed

lemma nat_digits_not_Nil: "nat_digits n \<noteq> []"
  by (subst nat_digits.simps) simp

lemma digit_not_special:
  assumes "is_radix_digit 10 c"
  shows "\<not> is_js_space c" "c \<noteq> CHR ''-''" "c \<noteq> CHR ''+''" "c \<noteq> CHR ''x''" "c \<noteq> CHR ''X''"
  using assms by (auto simp: is_radix_digit_def digit_value_def is_js_space_def Let_def)

text \<open>
  A string of decimal digits parses to its value: no white space to skip, no sign, no
  \<open>0x\<close> prefix (the second character is a digit, not \<open>x\<close>), and every character is read.
\<close>

lemma parseInt_no_prefix:
  assumes sp: "dropWhile is_js_space s = s"
    and sg: "take 1 s \<noteq> ''-''" "take 1 s \<noteq> ''+''"
    and hx: "take 2 s \<noteq> ''0x''" "take 2 s \<noteq> ''0X''"
  shows "js_parseInt s = (if takeWhile (is_radix_digit 10) s = [] then NaN
                          else JNum (int (digits_value 10 0 (takeWhile (is_radix_digit 10) s))))"
  by (simp only: js_parseInt_def Let_def sp sg hx if_False simp_thms) simp

lemma parseInt_minus:
  assumes hx: "take 2 s \<noteq> ''0x''" "take 2 s \<noteq> ''0X''"
  shows "js_parseInt (CHR ''-'' # s) = (if takeWhile (is_radix_digit 10) s = [] then NaN
           else JNum (- int (digits_value 10 0 (takeWhile (is_radix_digit 10) s))))"
proof -
  have sp: "dropWhile is_js_space (CHR ''-'' # s) = CHR ''-'' # s"
    by (simp add: is_js_space_def)
  have sg: "take 1 (CHR ''-'' # s) = ''-''" "drop 1 (CHR ''-'' # s) = s"
    by simp_all
  show ?thesis
    by (simp only: js_parseInt_def Let_def sp sg hx if_False if_True simp_thms) simp
qed

text \<open>
  A string of decimal digits parses to its value: no white space to skip, no sign, no
  \<open>0x\<close> prefix (the second character is a digit, not \<open>x\<close>), and every character is read.
\<close>

lemma parse_decimal_digits:
  assumes ne: "ds \<noteq> []" and dig: "\<forall>c\<in>set ds. is_radix_digit 10 c"
  shows "js_parseInt ds = JNum (int (digits_value 10 0 ds))"
    and "js_parseInt (CHR ''-'' # ds) = JNum (- int (digits_value 10 0 ds))"
proof -
  obtain c cs where ds: "ds = c # cs" using ne by (cases ds) auto
  have c: "is_radix_digit 10 c" using dig ds by simp
  have hx: "take 2 ds \<noteq> ''0x''" "take 2 ds \<noteq> ''0X''"
    using dig by (cases cs; auto simp: ds dest: digit_not_special)+
  have sg: "take 1 ds \<noteq> ''-''" "take 1 ds \<noteq> ''+''"
    using digit_not_special [OF c] by (simp_all add: ds)
  have sp: "dropWhile is_js_space ds = ds"
    using digit_not_special [OF c] by (simp add: ds)
  have tw: "takeWhile (is_radix_digit 10) ds = ds"
    using dig by (simp add: takeWhile_eq_all_conv)
  show "js_parseInt ds = JNum (int (digits_value 10 0 ds))"
    using parseInt_no_prefix [OF sp sg hx] tw ne by simp
  show "js_parseInt (CHR ''-'' # ds) = JNum (- int (digits_value 10 0 ds))"
    using parseInt_minus [OF hx] tw ne by simp
qed

section \<open>split and toLowerCase\<close>

lemma js_split_no_sep: "c \<notin> set s \<Longrightarrow> js_split c s = [s]"
  by (induction s) auto

lemma js_split_sep:
  "c \<notin> set a \<Longrightarrow> js_split c (a @ c # b) = a # js_split c b"
proof (induction a)
  case Nil
  then show ?case by simp
next
  case (Cons x a)
  then show ?case by auto
qed

lemma js_split_not_Nil [simp]: "js_split c s \<noteq> []"
  by (induction s) (auto split: list.splits)

lemma lower_char_of_char:
  "(of_char (lower_char c) :: nat) = (if is_ascii_upper c then of_char c + 32 else of_char c)"
  by (cases c) (auto simp: is_ascii_upper_def)

lemma lower_char_idem [simp]: "lower_char (lower_char c) = lower_char c"
  by (cases c) (auto simp: is_ascii_upper_def)

lemma js_toLowerCase_idem [simp]: "js_toLowerCase (js_toLowerCase s) = js_toLowerCase s"
  by (simp add: js_toLowerCase_def comp_def)

end
