(* ===== verification/Chronology.thy ===== *)
theory Chronology
  imports JsString
begin

text \<open>
  The midnight-rollover repair of \<open>getTrainTimetable\<close> (\<open>src/backend/src/sql/train.ts\<close>,
  lines 35-53) and the \<open>HHMM\<close> sort key of line 69. The repair is written over the
  key it reads from a row (\<open>row.hourSort\<close> in the code), so that it can be studied
  both with the key the design intends (the \<open>HHMM\<close> value of the scheduled arrival,
  \<open>hour_sort\<close>) and with the one the code actually reads (see \<open>Assembler\<close>).
  \<open>data[1].hourSort\<close> on a one-row or empty result is a property read on
  \<open>undefined\<close>: a \<open>TypeError\<close>, the \<open>Inl\<close> branch.
\<close>

section \<open>The sort key\<close>

text \<open>
  Line 69: \<open>scheduled_arrival_hour ? parseInt(`${h.split(':')[0]}${h.split(':')[1]}`) : 0\<close>;
  \<open>null\<close> (\<open>None\<close>) and the empty string are falsy.
\<close>

definition hour_sort :: "string option \<Rightarrow> int jsnum" where
  "hour_sort h =
     (case h of
        None \<Rightarrow> JNum 0
      | Some s \<Rightarrow>
          (if s = [] then JNum 0
           else (let parts = js_split CHR '':'' s
                 in js_parseInt (js_template_str (js_at parts 0) @ js_template_str (js_at parts 1)))))"

section \<open>The repair\<close>

text \<open>The \<open>findIndex\<close> callback of lines 42-48: a jump of more than 1000 to the next row.\<close>

definition is_rollover_boundary :: "('r \<Rightarrow> int jsnum) \<Rightarrow> 'r list \<Rightarrow> 'r \<Rightarrow> nat \<Rightarrow> bool" where
  "is_rollover_boundary key data row i =
     (case js_at data (Suc i) of
        None \<Rightarrow> False
      | Some nxt \<Rightarrow> js_lt (JNum 1000) (js_sub (key nxt) (key row)))"

text \<open>The guard of line 41.\<close>

definition crosses_midnight :: "('r \<Rightarrow> int jsnum) \<Rightarrow> 'r \<Rightarrow> 'r \<Rightarrow> bool" where
  "crosses_midnight key second lst \<longleftrightarrow>
     js_le (key second) (JNum 30) \<and> js_lt (JNum 2300) (key lst)"

text \<open>Lines 41-53.\<close>

definition rollover_repair :: "('r \<Rightarrow> int jsnum) \<Rightarrow> 'r list \<Rightarrow> js_error + 'r list" where
  "rollover_repair key data =
     (case js_at data 1 of
        None \<Rightarrow> Inl TypeError
      | Some second \<Rightarrow>
          (if crosses_midnight key second (data ! (length data - 1)) then
             (let b = js_findIndex (is_rollover_boundary key data) data;
                  rowsToMove = js_slice data 1 (b + 1);
                  rest = js_splice_delete data 1 (length rowsToMove)
              in Inr (rest @ rowsToMove))
           else Inr data))"

section \<open>Abstract specification\<close>

text \<open>
  What the repair promises: the rows \<open>1..b\<close> before the first rollover boundary \<open>b\<close>
  move behind the rest, in their order; with no boundary (or \<open>b = 0\<close>) nothing moves.
\<close>

definition first_boundary :: "('r \<Rightarrow> int jsnum) \<Rightarrow> 'r list \<Rightarrow> nat" where
  "first_boundary key data =
     (case find (\<lambda>i. is_rollover_boundary key data (data ! i) i) [0..<length data] of
        None \<Rightarrow> 0
      | Some i \<Rightarrow> i)"

definition move_block :: "nat \<Rightarrow> 'r list \<Rightarrow> 'r list" where
  "move_block b data = take 1 data @ drop (Suc b) data @ take b (drop 1 data)"

text \<open>A scheduled time written \<open>HH:MM\<close>, as the timetable rows hold it.\<close>

definition hhmm_text :: "nat \<Rightarrow> nat \<Rightarrow> string" where
  "hhmm_text h m =
     [''0123456789'' ! (h div 10), ''0123456789'' ! (h mod 10), CHR '':'',
      ''0123456789'' ! (m div 10), ''0123456789'' ! (m mod 10)]"

lemmas chronology_defs [js_simps] =
  rollover_repair_def crosses_midnight_def is_rollover_boundary_def hour_sort_def
  js_findIndex_def js_slice_def js_splice_delete_def js_rel_index_def

section \<open>Properties\<close>

lemma move_block_0 [simp]: "move_block 0 data = data"
  by (simp add: move_block_def)

lemma mset_move_block:
  "b < length data \<Longrightarrow> mset (move_block b data) = mset data"
proof -
  let ?L = "drop 1 data"
  have "mset (move_block b data) = mset (take 1 data) + (mset (take b ?L) + mset (drop b ?L))"
    by (simp add: move_block_def add_ac)
  also have "mset (take b ?L) + mset (drop b ?L) = mset ?L"
    by (metis append_take_drop_id mset_append)
  also have "mset (take 1 data) + mset ?L = mset data"
    by (simp flip: mset_append)
  finally show ?thesis .
qed

lemma first_boundary_facts:
  "first_boundary key data = 0 \<or>
   (Suc (first_boundary key data) < length data \<and>
    is_rollover_boundary key data (data ! first_boundary key data) (first_boundary key data))"
proof (cases "find (\<lambda>i. is_rollover_boundary key data (data ! i) i) [0..<length data]")
  case None
  then show ?thesis by (simp add: first_boundary_def)
next
  case (Some i)
  then have "i < length data" "is_rollover_boundary key data (data ! i) i"
    by (auto simp: find_Some_iff)
  moreover from this(2) have "Suc i < length data"
    by (simp add: is_rollover_boundary_def js_at_def split: if_splits)
  ultimately show ?thesis
    using Some by (simp add: first_boundary_def)
qed

lemma findIndex_boundary:
  "js_findIndex (is_rollover_boundary key data) data = -1 \<and> first_boundary key data = 0 \<or>
   js_findIndex (is_rollover_boundary key data) data = int (first_boundary key data)"
  by (simp add: js_findIndex_def first_boundary_def split: option.splits)

text \<open>The code refines the specification: on two rows or more it is \<open>move_block\<close>.\<close>

lemma rollover_repair_eq_move_block:
  assumes "2 \<le> length data"
  shows "rollover_repair key data =
           Inr (if crosses_midnight key (data ! 1) (last data)
                then move_block (first_boundary key data) data else data)"
proof -
  let ?b = "first_boundary key data"
  have second: "js_at data 1 = Some (data ! 1)" and lst: "data ! (length data - 1) = last data"
    using assms by (simp add: js_at_def, cases data, auto simp: last_conv_nth)
  have bl: "?b < length data"
    using first_boundary_facts [of key data] assms by auto
  have move: "js_splice_delete data 1
                 (length (js_slice data 1 (js_findIndex (is_rollover_boundary key data) data + 1))) @
               js_slice data 1 (js_findIndex (is_rollover_boundary key data) data + 1) =
               move_block ?b data"
    using findIndex_boundary [of key data]
  proof
    assume "js_findIndex (is_rollover_boundary key data) data = -1 \<and> ?b = 0"
    then show ?thesis
      by (cases data) (simp_all add: js_slice_from_1 js_splice_delete_1)
  next
    assume "js_findIndex (is_rollover_boundary key data) data = int ?b"
    with bl show ?thesis
      by (simp add: js_slice_from_1 js_splice_delete_1 move_block_def min_def)
  qed
  show ?thesis
    using second lst move by (simp add: rollover_repair_def Let_def)
qed

lemma length_move_block [simp]:
  "b < length data \<Longrightarrow> length (move_block b data) = length data"
  by (simp add: move_block_def)

lemma move_block_second:
  "Suc b < length data \<Longrightarrow> move_block b data ! Suc 0 = data ! Suc b"
  by (cases data) (simp_all add: move_block_def nth_append)

lemma take1_move_block: "take (Suc 0) (move_block b data) = take (Suc 0) data"
  by (cases data) (simp_all add: move_block_def)

lemma boundary_values:
  "is_rollover_boundary key data row i \<Longrightarrow>
   \<exists>x y. key (data ! Suc i) = JNum x \<and> key row = JNum y \<and> 1000 < x - y"
  by (cases "key (data ! Suc i)"; cases "key row")
     (auto simp: is_rollover_boundary_def js_at_def split: if_splits)

lemma rollover_repair_short:
  "length data < 2 \<Longrightarrow> rollover_repair key data = Inl TypeError"
  by (simp add: rollover_repair_def js_at_def)

lemma rollover_repair_Inr_two: "rollover_repair key data = Inr d \<Longrightarrow> 2 \<le> length data"
  using rollover_repair_short [of data key] by (cases "length data < 2") auto

text \<open>C5: the rollover repair returns a result exactly on two rows or more, and the result is
  the specification move_block of the first rollover boundary when the midnight guard holds,
  the rows unchanged otherwise.\<close>

theorem rollover_repair_refines:
  "rollover_repair key data = Inr d \<longleftrightarrow>
     2 \<le> length data \<and>
     d = (if crosses_midnight key (data ! 1) (last data)
          then move_block (first_boundary key data) data else data)"
  using rollover_repair_Inr_two [of key data d] rollover_repair_eq_move_block [of data key]
  by auto

text \<open>C11: a repaired sequence is a permutation of the input that keeps the first row.\<close>

theorem rollover_repair_perm:
  assumes "rollover_repair key data = Inr d"
  shows "mset d = mset data \<and> take 1 d = take 1 data \<and> 2 \<le> length data"
proof -
  have two: "2 \<le> length data"
    using assms by (rule rollover_repair_Inr_two)
  have "first_boundary key data < length data"
    using first_boundary_facts [of key data] two by auto
  with assms two show ?thesis
    by (auto simp: rollover_repair_eq_move_block mset_move_block take1_move_block split: if_splits)
qed

text \<open>C12: on non-negative keys, repairing a repaired sequence changes nothing.\<close>

theorem rollover_repair_idem:
  assumes nonneg: "\<forall>r\<in>set data. \<forall>k. key r = JNum k \<longrightarrow> 0 \<le> k"
    and run: "rollover_repair key data = Inr d"
  shows "rollover_repair key d = Inr d"
proof -
  let ?b = "first_boundary key data"
  have two: "2 \<le> length data"
    using run by (rule rollover_repair_Inr_two)
  show ?thesis
  proof (cases "crosses_midnight key (data ! 1) (last data) \<and> ?b \<noteq> 0")
    case False
    then have "d = data"
      using run two by (auto simp: rollover_repair_eq_move_block)
    with run show ?thesis by simp
  next
    case True
    then have bnd: "Suc ?b < length data" "is_rollover_boundary key data (data ! ?b) ?b"
      using first_boundary_facts [of key data] by auto
    then obtain x y where xy: "key (data ! Suc ?b) = JNum x" "key (data ! ?b) = JNum y" "1000 < x - y"
      using boundary_values [OF bnd(2)] by blast
    have "0 \<le> y"
      using nonneg xy(2) bnd(1) by (metis Suc_lessD nth_mem)
    with xy have big: "\<not> js_le (key (data ! Suc ?b)) (JNum 30)"
      by simp
    have d: "d = move_block ?b data"
      using run two True by (simp add: rollover_repair_eq_move_block)
    have "2 \<le> length d" "d ! 1 = data ! Suc ?b"
      using d two bnd(1) by (simp_all add: move_block_second)
    then show ?thesis
      using big by (simp add: rollover_repair_eq_move_block crosses_midnight_def)
  qed
qed

text \<open>An \<open>HH:MM\<close> time gives the key \<open>100 * HH + MM\<close>, between 0 and 9999.\<close>

lemma decimal_char_not_colon: "d < 10 \<Longrightarrow> ''0123456789'' ! d \<noteq> CHR '':''"
proof -
  assume "d < 10"
  then have "d \<in> {0,1,2,3,4,5,6,7,8,9}" by auto
  then show ?thesis by auto
qed

lemma hhmm_split:
  assumes "h < 100" "m < 100"
  shows "js_split CHR '':'' (hhmm_text h m) =
     [[''0123456789'' ! (h div 10), ''0123456789'' ! (h mod 10)],
      [''0123456789'' ! (m div 10), ''0123456789'' ! (m mod 10)]]"
proof -
  have "h div 10 < 10" "h mod 10 < 10" "m div 10 < 10" "m mod 10 < 10"
    using assms by simp_all
  then show ?thesis
    by (simp add: hhmm_text_def decimal_char_not_colon)
qed

lemma hour_sort_hhmm_value:
  assumes "h < 100" "m < 100"
  shows "hour_sort (Some (hhmm_text h m)) = JNum (int (100 * h + m))"
proof -
  let ?ds = "[''0123456789'' ! (h div 10), ''0123456789'' ! (h mod 10),
              ''0123456789'' ! (m div 10), ''0123456789'' ! (m mod 10)]"
  have lt: "h div 10 < 10" "h mod 10 < 10" "m div 10 < 10" "m mod 10 < 10"
    using assms by simp_all
  have dig: "\<forall>c\<in>set ?ds. is_radix_digit 10 c"
    using lt by (simp add: decimal_char_digit)
  have "digits_value 10 0 ?ds = ((h div 10 * 10 + h mod 10) * 10 + m div 10) * 10 + m mod 10"
    using lt by (simp add: decimal_char_value)
  also have "\<dots> = 100 * h + m"
    by simp
  finally have val: "digits_value 10 0 ?ds = 100 * h + m" .
  have "hour_sort (Some (hhmm_text h m)) = js_parseInt ?ds"
  proof -
    have "hhmm_text h m \<noteq> []" by (simp add: hhmm_text_def)
    with assms show ?thesis by (simp add: hour_sort_def hhmm_split)
  qed
  also have "\<dots> = JNum (int (100 * h + m))"
    using parse_decimal_digits(1) [OF _ dig] val by simp
  finally show ?thesis .
qed

text \<open>C13: a scheduled time HH:MM gets the sort key 100 * HH + MM, between 0 and 9999.\<close>

theorem hour_sort_hhmm:
  assumes "h < 100" "m < 100"
  shows "hour_sort (Some (hhmm_text h m)) = JNum (int (100 * h + m)) \<and> int (100 * h + m) \<le> 9999"
  using hour_sort_hhmm_value [OF assms] assms by simp

end
