(* ===== verification/Lodash.thy ===== *)
theory Lodash
  imports Prelude "HOL-Library.Product_Lexorder"
begin

text \<open>
  The two lodash collection functions the timetable code relies on. \<open>_.groupBy\<close> builds
  an object from keys to arrays, appending in input order; it is \<open>lodash_groupBy\<close>, a
  left fold into a map, and \<open>groupBy_lookup\<close> shows that a key's group is the input
  filtered to that key. \<open>_.sortBy\<close> pairs every element with its criterion and its
  position (\<open>baseSortBy\<close> with \<open>compareMultiple\<close>: the criterion first, the position
  on ties), sorts the pairs and drops the decoration; the sort is a merge sort,
  \<open>msort_key\<close>. \<open>sortBy_eq_sort_key\<close> proves the whole routine equal to HOL's stable
  insertion sort \<open>sort_key\<close>, so every library fact on \<open>sort_key\<close> (sortedness,
  stability, permutation) holds of it.
\<close>

section \<open>groupBy\<close>

definition group_step :: "('a \<Rightarrow> 'k) \<Rightarrow> ('k \<rightharpoonup> 'a list) \<Rightarrow> 'a \<Rightarrow> ('k \<rightharpoonup> 'a list)" where
  "group_step key m x =
     m(key x \<mapsto> (case m (key x) of None \<Rightarrow> [x] | Some g \<Rightarrow> g @ [x]))"

definition lodash_groupBy :: "('a \<Rightarrow> 'k) \<Rightarrow> 'a list \<Rightarrow> ('k \<rightharpoonup> 'a list)" where
  "lodash_groupBy key xs = foldl (group_step key) Map.empty xs"

section \<open>sortBy\<close>

fun merge_key :: "('a \<Rightarrow> 'k::linorder) \<Rightarrow> 'a list \<Rightarrow> 'a list \<Rightarrow> 'a list" where
  "merge_key f [] ys = ys"
| "merge_key f xs [] = xs"
| "merge_key f (x # xs) (y # ys) =
     (if f x \<le> f y then x # merge_key f xs (y # ys) else y # merge_key f (x # xs) ys)"

fun msort_key :: "('a \<Rightarrow> 'k::linorder) \<Rightarrow> 'a list \<Rightarrow> 'a list" where
  "msort_key f xs =
     (let n = length xs in
      if n \<le> 1 then xs
      else merge_key f (msort_key f (take (n div 2) xs)) (msort_key f (drop (n div 2) xs)))"

declare msort_key.simps [simp del]

text \<open>\<open>baseMap\<close> with a running index: each element with its criterion and position.\<close>

primrec decorate :: "('a \<Rightarrow> 'k) \<Rightarrow> nat \<Rightarrow> 'a list \<Rightarrow> (('k \<times> nat) \<times> 'a) list" where
  "decorate f n [] = []"
| "decorate f n (x # xs) = ((f x, n), x) # decorate f (Suc n) xs"

definition lodash_sortBy :: "('a \<Rightarrow> 'k::linorder) \<Rightarrow> 'a list \<Rightarrow> 'a list" where
  "lodash_sortBy f xs = map snd (msort_key fst (decorate f 0 xs))"

subsection \<open>groupBy is filtering\<close>

lemma foldl_group_step:
  "foldl (group_step key) m xs k =
     (case m k of
        None \<Rightarrow> (if filter (\<lambda>x. key x = k) xs = [] then None else Some (filter (\<lambda>x. key x = k) xs))
      | Some g \<Rightarrow> Some (g @ filter (\<lambda>x. key x = k) xs))"
  by (induction xs arbitrary: m) (auto simp: group_step_def split: option.splits)

text \<open>The group of a key built by groupBy is the input filtered to that key, in order.\<close>

lemma groupBy_lookup:
  "lodash_groupBy key xs k =
     (if filter (\<lambda>x. key x = k) xs = [] then None else Some (filter (\<lambda>x. key x = k) xs))"
  by (simp add: lodash_groupBy_def foldl_group_step)

subsection \<open>The merge sort sorts\<close>

lemma mset_merge_key [simp]: "mset (merge_key f xs ys) = mset xs + mset ys"
  by (induction f xs ys rule: merge_key.induct) auto

lemma set_merge_key [simp]: "set (merge_key f xs ys) = set xs \<union> set ys"
  by (metis mset_merge_key set_mset_mset set_mset_union)

lemma sorted_merge_key:
  "sorted (map f (merge_key f xs ys)) \<longleftrightarrow> sorted (map f xs) \<and> sorted (map f ys)"
  by (induction f xs ys rule: merge_key.induct) auto

lemma mset_msort_key [simp]: "mset (msort_key f xs) = mset xs"
proof (induction f xs rule: msort_key.induct)
  case (1 f xs)
  show ?case
  proof (cases "length xs \<le> 1")
    case True
    then show ?thesis by (simp add: msort_key.simps [of f xs])
  next
    case False
    then have "mset (msort_key f xs) =
        mset (take (length xs div 2) xs) + mset (drop (length xs div 2) xs)"
      using "1.IH" by (simp add: msort_key.simps [of f xs] Let_def)
    also have "\<dots> = mset xs"
      by (simp flip: mset_append)
    finally show ?thesis .
  qed
qed

lemma sorted_msort_key: "sorted (map f (msort_key f xs))"
proof (induction f xs rule: msort_key.induct)
  case (1 f xs)
  show ?case
  proof (cases "length xs \<le> 1")
    case True
    then have "length (map f xs) \<le> 1" by simp
    then have "sorted (map f xs)" by (rule sorted01)
    with True show ?thesis by (simp add: msort_key.simps [of f xs])
  next
    case False
    with "1.IH" show ?thesis by (simp add: msort_key.simps [of f xs] Let_def sorted_merge_key)
  qed
qed

subsection \<open>The decoration\<close>

lemma map_snd_decorate [simp]: "map snd (decorate f n xs) = xs"
  by (induction xs arbitrary: n) auto

lemma mset_snd_decorate: "image_mset snd (mset (decorate f n xs)) = mset xs"
  by (metis map_snd_decorate mset_map)

lemma decorate_member:
  "d \<in> set (decorate f n xs) \<Longrightarrow> fst (fst d) = f (snd d) \<and> n \<le> snd (fst d)"
  by (induction xs arbitrary: n) fastforce+

lemma decorate_index_unique:
  "d \<in> set (decorate f n xs) \<Longrightarrow> e \<in> set (decorate f n xs) \<Longrightarrow>
   snd (fst d) = snd (fst e) \<Longrightarrow> d = e"
proof (induction xs arbitrary: n)
  case Nil
  then show ?case by simp
next
  case (Cons x xs)
  then show ?case
    by (auto dest: decorate_member)
qed

lemma inj_on_fst_decorate: "inj_on fst (set (decorate f n xs))"
proof (rule inj_onI)
  fix d e
  assume "d \<in> set (decorate f n xs)" "e \<in> set (decorate f n xs)" "fst d = fst e"
  then show "d = e" by (intro decorate_index_unique [of d f n xs e]) simp_all
qed

text \<open>Inside one criterion class the positions increase: the decoration is sorted there.\<close>

lemma sorted_decorate_class:
  "sorted (map fst (filter (\<lambda>d. f (snd d) = c) (decorate f n xs)))"
proof (induction xs arbitrary: n)
  case Nil
  then show ?case by simp
next
  case (Cons x xs)
  have "\<forall>d\<in>set (filter (\<lambda>d. f (snd d) = c) (decorate f (Suc n) xs)).
          (c, n) \<le> fst d"
    by (auto dest!: decorate_member simp: less_eq_prod_def)
  with Cons.IH show ?case by auto
qed

lemma sorted_fst_lex: "sorted (ps :: ('a::linorder \<times> 'b::linorder) list) \<Longrightarrow> sorted (map fst ps)"
  by (induction ps) (auto simp: less_eq_prod_def)

subsection \<open>sortBy is the stable sort\<close>

lemma msort_decorate_eq_sort_key:
  "msort_key fst (decorate f n xs) = sort_key fst (decorate f n xs)"
  by (rule sort_key_inj_key_eq [symmetric]) (simp_all add: inj_on_fst_decorate sorted_msort_key)

lemma map_snd_sort_decorate:
  "map snd (sort_key fst (decorate f n xs)) = sort_key f xs"
proof (rule properties_for_sort_key [symmetric])
  let ?S = "sort_key fst (decorate f n xs)"
  show "mset (map snd ?S) = mset xs"
    by (simp add: mset_snd_decorate)
  have crit: "map f (map snd ?S) = map fst (map fst ?S)"
    by (auto dest: decorate_member)
  show "sorted (map f (map snd ?S))"
    unfolding crit by (rule sorted_fst_lex) simp
  fix k
  let ?P = "\<lambda>y. f k = f y"
  have "filter ?P (map snd ?S) = map snd (sort_key fst (filter (?P \<circ> snd) (decorate f n xs)))"
    by (simp add: filter_map_snd filter_sort)
  also have "sort_key fst (filter (?P \<circ> snd) (decorate f n xs)) = filter (?P \<circ> snd) (decorate f n xs)"
    using sorted_decorate_class [of f "f k" n xs]
    by (intro sort_key_id_if_sorted) (simp add: comp_def eq_commute)
  also have "map snd (filter (?P \<circ> snd) (decorate f n xs)) = filter ?P xs"
    by (simp flip: filter_map_snd)
  finally show "filter ?P (map snd ?S) = filter ?P xs" .
qed

lemmas sortBy_unfold = lodash_sortBy_def msort_decorate_eq_sort_key map_snd_sort_decorate

text \<open>Lodash sortBy, as a merge sort of elements decorated with criterion and position,
  is the stable sort by the criterion.\<close>

lemma sortBy_eq_sort_key: "lodash_sortBy f xs = sort_key f xs"
  by (simp add: sortBy_unfold)

end
