(* ===== verification/Overlay.thy ===== *)
theory Overlay
  imports Lodash JsString
begin

text \<open>
  The speed-limit overlay of \<open>getTrainTimetable\<close> (\<open>src/backend/src/sql/train.ts\<close>):
  the speed-limit records as the module loads them (lines 7-13: metre positions parsed
  and divided by 1000), grouped by line (line 15, \<open>_.groupBy\<close>), the direction of a
  train from the parity of its number (line 55), and, for each row, the limits whose
  start lies strictly between this station and the next one in the direction of travel
  (lines 59-66). The mileage table (\<open>src/mileage.json\<close>, line 6) maps a line and a
  station to a JSON number or \<open>null\<close>; a missing line or station reads \<open>undefined\<close>.
\<close>

section \<open>Data\<close>

text \<open>A record of the speed-limit feed, positions in metres as their text.\<close>

record speed_api =
  api_lineNo :: string
  api_track :: string
  api_axisStart :: string
  api_axisEnd :: string
  api_speed :: int

text \<open>The record after line 8-12: positions in kilometres, \<open>NaN\<close> if unparsable.\<close>

record speed_limit =
  lineNo :: string
  track :: string
  axisStart :: "real jsnum"
  axisEnd :: "real jsnum"
  speed :: int

type_synonym mileage_table = "string \<rightharpoonup> (string \<rightharpoonup> json_num)"

text \<open>
  The columns of \<open>trains_timetable_row\<close> that survive the final \<open>_.omit\<close> (line 72); the
  omitted ones extend this record in \<open>Assembler\<close>.
\<close>

record row_kept =
  train_number :: string
  scheduled_arrival_hour :: "string option"
  station :: string
  layover :: "string option"
  scheduled_departure_hour :: "string option"
  train_type :: "string option"
  line :: string
  cacheDate :: "string option"
  stop_type :: "string option"

section \<open>Operations\<close>

text \<open>\<open>Number.parseInt(s) / 1000\<close>.\<close>

fun per_mille :: "int jsnum \<Rightarrow> real jsnum" where
  "per_mille (JNum n) = JNum (real_of_int n / 1000)"
| "per_mille NaN = NaN"

text \<open>Lines 8-12.\<close>

definition convert_speed :: "speed_api \<Rightarrow> speed_limit" where
  "convert_speed d =
     \<lparr>lineNo = api_lineNo d, track = api_track d,
      axisStart = per_mille (js_parseInt (api_axisStart d)),
      axisEnd = per_mille (js_parseInt (api_axisEnd d)),
      speed = api_speed d\<rparr>"

text \<open>Line 15: \<open>_.groupBy(allSpeeds, "lineNo")\<close>.\<close>

definition speeds_by_line :: "speed_api list \<Rightarrow> (string \<rightharpoonup> speed_limit list)" where
  "speeds_by_line api = lodash_groupBy lineNo (map convert_speed api)"

text \<open>\<open>stationsMileage[line]?.[station]\<close>.\<close>

definition mileage_at :: "mileage_table \<Rightarrow> string \<Rightarrow> string \<Rightarrow> json_num option" where
  "mileage_at m l s = (case m l of None \<Rightarrow> None | Some t \<Rightarrow> t s)"

text \<open>Line 55: \<open>Number.parseInt(trainNumber) % 2 === 0\<close>.\<close>

definition is_northbound :: "string \<Rightarrow> bool" where
  "is_northbound trainNumber \<longleftrightarrow> js_rem (js_parseInt trainNumber) (JNum 2) = JNum 0"

text \<open>The track code a train's direction selects (line 62).\<close>

definition direction_track :: "bool \<Rightarrow> string" where
  "direction_track north = (if north then ''N'' else ''P'')"

text \<open>The second filter of line 62, lines 63-65.\<close>

definition limit_applies :: "bool \<Rightarrow> json_num option \<Rightarrow> json_num option \<Rightarrow> speed_limit \<Rightarrow> bool" where
  "limit_applies north cur nxt sl \<longleftrightarrow>
     (if cur = Some JNull \<or> nxt = Some JNull then False
      else if north
        then js_lt (axisStart sl) (jsnum_of_json cur) \<and> js_lt (jsnum_of_json nxt) (axisStart sl)
        else js_lt (jsnum_of_json cur) (axisStart sl) \<and> js_lt (axisStart sl) (jsnum_of_json nxt))"

text \<open>Lines 60-61: the next row's position, looked up on the current row's line.\<close>

definition next_station_km ::
  "mileage_table \<Rightarrow> 'r row_kept_scheme list \<Rightarrow> nat \<Rightarrow> 'r row_kept_scheme \<Rightarrow> json_num option" where
  "next_station_km m data index row =
     (case js_at data (Suc index) of
        None \<Rightarrow> None
      | Some n \<Rightarrow> (if station n \<noteq> [] then mileage_at m (line row) (station n) else None))"

text \<open>Lines 59-66, for the row at \<open>index\<close> of \<open>data\<close>.\<close>

definition speed_limits_to_next ::
  "mileage_table \<Rightarrow> (string \<rightharpoonup> speed_limit list) \<Rightarrow> bool \<Rightarrow> 'r row_kept_scheme list \<Rightarrow> nat
   \<Rightarrow> 'r row_kept_scheme \<Rightarrow> speed_limit list" where
  "speed_limits_to_next m allSpeeds north data index row =
     (let cur = mileage_at m (line row) (station row);
          nxt = next_station_km m data index row
      in case allSpeeds (line row) of
           None \<Rightarrow> []
         | Some sls \<Rightarrow>
             filter (limit_applies north cur nxt)
               (filter (\<lambda>sl. track sl = direction_track north) sls))"

text \<open>A known position is a JSON number; \<open>null\<close> and \<open>undefined\<close> are unknown.\<close>

definition known_km :: "json_num option \<Rightarrow> bool" where
  "known_km v \<longleftrightarrow> (\<exists>r. v = Some (JVal r))"

lemmas overlay_defs [js_simps] =
  speed_limits_to_next_def next_station_km_def limit_applies_def direction_track_def is_northbound_def
  mileage_at_def speeds_by_line_def convert_speed_def

section \<open>Properties\<close>

text \<open>C10: a train is northbound exactly when its number parses to an even integer.\<close>

theorem northbound_parity:
  "is_northbound s \<longleftrightarrow> (\<exists>n. js_parseInt s = JNum n \<and> even n)"
  by (cases "js_parseInt s") (auto simp: is_northbound_def sgn_0_0)

lemma jsnum_of_json_JNum:
  "jsnum_of_json v = JNum x \<Longrightarrow> v = Some JNull \<or> v = Some (JVal x)"
  by (cases v rule: jsnum_of_json.cases) auto

lemma js_lt_both_JNum: "js_lt x y \<Longrightarrow> \<exists>a b. x = JNum a \<and> y = JNum b"
  by (cases x; cases y) auto

lemma limit_applies_known_km:
  assumes "limit_applies north cur nxt sl"
  shows "known_km cur \<and> known_km nxt"
proof -
  have nn: "cur \<noteq> Some JNull" "nxt \<noteq> Some JNull"
    using assms by (auto simp: limit_applies_def split: if_splits)
  have "\<exists>c. jsnum_of_json cur = JNum c" "\<exists>n. jsnum_of_json nxt = JNum n"
    using assms nn by (auto simp: limit_applies_def split: if_splits dest!: js_lt_both_JNum)
  with nn show ?thesis
    by (auto simp: known_km_def dest!: jsnum_of_json_JNum)
qed

lemma limit_applies_unknown:
  "\<not> known_km cur \<or> \<not> known_km nxt \<Longrightarrow> \<not> limit_applies north cur nxt sl"
  using limit_applies_known_km by blast

lemma limit_applies_known:
  "limit_applies north (Some (JVal c)) (Some (JVal n)) sl \<longleftrightarrow>
     (\<exists>a. axisStart sl = JNum a \<and> (if north then n < a \<and> a < c else c < a \<and> a < n))"
  by (cases "axisStart sl") (auto simp: limit_applies_def)

text \<open>C9: when the position of either end of a segment is unknown, no speed limit is attached.\<close>

theorem overlay_unknown_geometry:
  assumes "\<not> known_km (mileage_at m (line row) (station row)) \<or>
           \<not> known_km (next_station_km m data index row)"
  shows "speed_limits_to_next m allSpeeds north data index row = []"
  using assms limit_applies_unknown
  by (auto simp: speed_limits_to_next_def Let_def filter_empty_conv split: option.splits)

text \<open>C8: with both positions known, the overlay attaches exactly the limits of the line, on
  the direction's track, whose start lies strictly inside the segment in the direction of travel.\<close>

theorem overlay_selects:
  assumes "mileage_at m (line row) (station row) = Some (JVal c)"
    and "next_station_km m data index row = Some (JVal n)"
  shows "speed_limits_to_next m (speeds_by_line api) north data index row =
    filter (\<lambda>sl. lineNo sl = line row \<and> track sl = direction_track north \<and>
                 (\<exists>a. axisStart sl = JNum a \<and> (if north then n < a \<and> a < c else c < a \<and> a < n)))
      (map convert_speed api)"
proof -
  let ?L = "filter (\<lambda>sl. lineNo sl = line row) (map convert_speed api)"
  have "speed_limits_to_next m (speeds_by_line api) north data index row =
        filter (limit_applies north (Some (JVal c)) (Some (JVal n)))
          (filter (\<lambda>sl. track sl = direction_track north) ?L)"
    using assms
    by (auto simp: speed_limits_to_next_def speeds_by_line_def lodash_groupBy_def foldl_group_step Let_def filter_empty_conv)
  also have "\<dots> = filter (\<lambda>sl. lineNo sl = line row \<and> track sl = direction_track north \<and>
                 (\<exists>a. axisStart sl = JNum a \<and> (if north then n < a \<and> a < c else c < a \<and> a < n)))
      (map convert_speed api)"
    by (simp add: limit_applies_known conj_ac)
  finally show ?thesis .
qed

end
