(* ===== verification/Assembler.thy ===== *)
theory Assembler
  imports Chronology Overlay
begin

text \<open>
  \<open>getTrainTimetable\<close> (\<open>src/backend/src/sql/train.ts\<close>, lines 14-78) put together: wait
  for the speed-limit feed loaded at module start (line 7, no fallback), query the rows of
  the train (lines 16-33), run the rollover repair (lines 41-53), attach to every row its
  sort key, its kilometre position and the limits to the next station, drop the columns
  named in \<open>_.omit\<close> (lines 57-73), and sort by the key (line 77). The query and the
  feed are inputs: a result, or the reason their promise rejected.

  The rows of the query have no \<open>hourSort\<close> column: the key is computed at line 69,
  after the repair. The repair therefore reads \<open>row.hourSort\<close> as \<open>undefined\<close>, i.e.
  \<open>NaN\<close> in its comparisons (\<open>code_row_key\<close>); \<open>Spec2Isabelle\<close> draws the
  consequences.
\<close>

section \<open>Data\<close>

text \<open>A row of \<open>trains_timetable_row\<close> as selected at lines 17-31.\<close>

record timetable_row = row_kept +
  scheduled_arrival :: "string option"
  real_arrival :: "string option"
  real_arrival_hour :: "string option"
  real_departure :: "string option"
  real_departure_hour :: "string option"

text \<open>A row of the result: the kept columns and the three computed fields.\<close>

record timetable_entry = row_kept +
  hourSort :: "int jsnum"
  km :: "json_num option"
  speedLimitsToNextStation :: "speed_limit list"

section \<open>Operations\<close>

text \<open>What \<open>row.hourSort\<close> reads on a row of the query (lines 41 and 44).\<close>

definition code_row_key :: "timetable_row \<Rightarrow> int jsnum" where
  "code_row_key row = NaN"

text \<open>Lines 57-73: one row of the result, the \<open>index\<close>-th of the repaired rows.\<close>

definition enrich_row ::
  "mileage_table \<Rightarrow> (string \<rightharpoonup> speed_limit list) \<Rightarrow> bool \<Rightarrow> timetable_row list \<Rightarrow> nat
   \<Rightarrow> timetable_row \<Rightarrow> timetable_entry" where
  "enrich_row m allSpeeds north data index row =
     row_kept.extend (row_kept.truncate row)
       (timetable_entry.fields
          (hour_sort (scheduled_arrival_hour row))
          (mileage_at m (line row) (station row))
          (speed_limits_to_next m allSpeeds north data index row))"

text \<open>Lines 57-77 after the repair: enrich every row, then \<open>_.sortBy(..., 'hourSort')\<close>.\<close>

definition assemble ::
  "mileage_table \<Rightarrow> (string \<rightharpoonup> speed_limit list) \<Rightarrow> bool \<Rightarrow> timetable_row list
   \<Rightarrow> timetable_entry list" where
  "assemble m allSpeeds north data =
     lodash_sortBy hourSort
       (map (\<lambda>(i, row). enrich_row m allSpeeds north data i row) (enumerate 0 data))"

text \<open>Lines 14-78.\<close>

definition get_train_timetable ::
  "mileage_table \<Rightarrow> js_error + speed_api list \<Rightarrow> (string \<Rightarrow> js_error + timetable_row list)
   \<Rightarrow> string \<Rightarrow> js_error + timetable_entry list" where
  "get_train_timetable m speedFeed query trainNumber =
     (case speedFeed of
        Inl e \<Rightarrow> Inl e
      | Inr api \<Rightarrow>
          (let allSpeeds = speeds_by_line api in
           case query trainNumber of
             Inl e \<Rightarrow> Inl e
           | Inr data \<Rightarrow>
               (case rollover_repair code_row_key data of
                  Inl e \<Rightarrow> Inl e
                | Inr data' \<Rightarrow> Inr (assemble m allSpeeds (is_northbound trainNumber) data'))))"

lemmas assembler_defs [js_simps] =
  get_train_timetable_def assemble_def enrich_row_def code_row_key_def

section \<open>Properties\<close>

lemma enrich_row_simps [simp]:
  "hourSort (enrich_row m sp north data i row) = hour_sort (scheduled_arrival_hour row)"
  "km (enrich_row m sp north data i row) = mileage_at m (line row) (station row)"
  "speedLimitsToNextStation (enrich_row m sp north data i row) =
     speed_limits_to_next m sp north data i row"
  "station (enrich_row m sp north data i row) = station row"
  "line (enrich_row m sp north data i row) = line row"
  "scheduled_arrival_hour (enrich_row m sp north data i row) = scheduled_arrival_hour row"
  by (simp_all add: enrich_row_def row_kept.defs timetable_entry.defs)

text \<open>With the key the code reads, the repair never moves a row.\<close>

lemma code_key_never_crosses: "\<not> crosses_midnight code_row_key a b"
  by (simp add: crosses_midnight_def code_row_key_def)

lemma code_repair_identity:
  "2 \<le> length data \<Longrightarrow> rollover_repair code_row_key data = Inr data"
  by (simp add: rollover_repair_eq_move_block code_key_never_crosses)

lemma get_train_timetable_eq:
  "get_train_timetable m (Inr api) query t =
     (case query t of
        Inl e \<Rightarrow> Inl e
      | Inr data \<Rightarrow>
          (if length data < 2 then Inl TypeError
           else Inr (assemble m (speeds_by_line api) (is_northbound t) data)))"
  by (auto simp: get_train_timetable_def rollover_repair_short code_repair_identity
      split: sum.splits)

end
