(* ===== verification/Merge.thy ===== *)
theory Merge
  imports JsString
begin

text \<open>
  The feed merger of \<open>src/backend/src/index.ts\<close> (inside \<open>updateTimetable\<close>, lines
  71-118): every train of the detailed (official) timetable is joined with the first
  EDR (annotation) train of the same \<open>trainNoLocal\<close>, and every stop \<open>i\<close> of it with
  the first EDR stop whose \<open>indexOfPoint\<close> is \<open>i\<close>. Object spreads (\<open>...row\<close>,
  \<open>...entry\<close>) are record schemes: the fields the code does not name travel in the
  scheme's extension \<open>'x\<close> (stops) and \<open>'y\<close> (trains) unchanged. An optional chain
  that meets a missing object yields \<open>undefined\<close>, which is \<open>None\<close> here; so every
  annotation field of a merged stop is an option, \<open>None\<close> exactly when no annotation
  was found, never a default value.
\<close>

section \<open>Feed records\<close>

text \<open>A stop of the detailed feed (\<open>IAllServerTrain.timetable\<close>).\<close>

record official_row =
  stopType :: "string option"
  indexOfPoint :: int

text \<open>A stop of the EDR feed and an EDR train (\<open>IEdrServerTrain\<close>).\<close>

record edr_row =
  edr_indexOfPoint :: int
  edr_actualArrivalTime :: string
  edr_actualDepartureTime :: string
  edr_confirmedBy :: string
  edr_isActive :: bool
  edr_isConfirmed :: bool
  edr_isStoped :: bool
  edr_leftTrack :: bool
  edr_plannedStop :: bool
  edr_stopDuration :: int
  edr_timetableType :: string

record edr_train =
  edr_trainNoLocal :: string
  edr_usageNotes :: string
  edr_ownNotes :: string
  edr_isQualityTracked :: bool
  edr_isOverGauge :: bool
  edr_isOverWeight :: bool
  edr_isOtherExceptional :: bool
  edr_isHighRiskCargo :: bool
  edr_isDangerousCargo :: bool
  edr_carrierName :: string
  edr_timetable :: "edr_row list option"

text \<open>A train of the detailed feed, over its type of stops.\<close>

record 'r server_train =
  trainNoLocal :: string
  timetable :: "'r list"

text \<open>A merged stop (\<open>IFullTrainTimetable\<close>, the object literal of lines 100-114).\<close>

record full_row = official_row +
  actualArrivalTime :: "string option"
  actualDepartureTime :: "string option"
  confirmedBy :: "string option"
  isActive :: "bool option"
  isConfirmed :: "bool option"
  isStoped :: "bool option"
  leftTrack :: "bool option"
  plannedStop :: "bool option"
  stopDuration :: "int option"
  stopTypeNumber :: int
  timetableType :: "string option"

text \<open>A merged train (\<open>IFullServerTrain\<close>, the object literal of lines 77-116).\<close>

record 'r full_server_train = "'r server_train" +
  usageNotes :: "string option"
  ownNotes :: "string option"
  isQualityTracked :: "bool option"
  isOverGauge :: "bool option"
  isOverWeight :: "bool option"
  isOtherExceptional :: "bool option"
  isHighRiskCargo :: "bool option"
  isDangerousCargo :: "bool option"
  carrierName :: "string option"

section \<open>Operations\<close>

text \<open>Lines 92-98: the stop type, lower-cased, classified into 0, 1 or 2.\<close>

definition stop_type_number :: "string option \<Rightarrow> int" where
  "stop_type_number st =
     (case map_option js_toLowerCase st of
        None \<Rightarrow> 0
      | Some s \<Rightarrow> (if s = ''commercialstop'' then 1
                   else if s = ''noncommercialstop'' then 2 else 0))"

text \<open>Lines 73-75: the EDR train of the same number, the first one in feed order.\<close>

definition find_edr_train :: "edr_train list \<Rightarrow> string \<Rightarrow> edr_train option" where
  "find_edr_train edrs no = find (\<lambda>e. edr_trainNoLocal e = no) edrs"

text \<open>Lines 89-91: \<open>edrEntry?.timetable?.find(edrRow => edrRow.indexOfPoint === i)\<close>.\<close>

definition find_edr_row :: "edr_train option \<Rightarrow> nat \<Rightarrow> edr_row option" where
  "find_edr_row e i =
     (case e of
        None \<Rightarrow> None
      | Some t \<Rightarrow> (case edr_timetable t of
                    None \<Rightarrow> None
                  | Some rows \<Rightarrow> find (\<lambda>r. edr_indexOfPoint r = int i) rows))"

text \<open>Lines 88-115: one merged stop, the \<open>i\<close>-th of the train.\<close>

definition merge_row :: "edr_train option \<Rightarrow> nat \<Rightarrow> 'x official_row_scheme \<Rightarrow> 'x full_row_scheme" where
  "merge_row e i row =
     (let a = find_edr_row e i in
      \<lparr>stopType = stopType row,
       indexOfPoint = int i,
       actualArrivalTime = map_option edr_actualArrivalTime a,
       actualDepartureTime = map_option edr_actualDepartureTime a,
       confirmedBy = map_option edr_confirmedBy a,
       isActive = map_option edr_isActive a,
       isConfirmed = map_option edr_isConfirmed a,
       isStoped = map_option edr_isStoped a,
       leftTrack = map_option edr_leftTrack a,
       plannedStop = map_option edr_plannedStop a,
       stopDuration = map_option edr_stopDuration a,
       stopTypeNumber = stop_type_number (stopType row),
       timetableType = map_option edr_timetableType a,
       \<dots> = official_row.more row\<rparr>)"

text \<open>Lines 72-117: one merged train.\<close>

definition merge_train ::
  "edr_train list \<Rightarrow> ('x official_row_scheme, 'y) server_train_scheme
   \<Rightarrow> ('x full_row_scheme, 'y) full_server_train_scheme" where
  "merge_train edrs entry =
     (let e = find_edr_train edrs (trainNoLocal entry) in
      \<lparr>trainNoLocal = trainNoLocal entry,
       timetable = map (\<lambda>(i, row). merge_row e i row) (enumerate 0 (timetable entry)),
       usageNotes = map_option edr_usageNotes e,
       ownNotes = map_option edr_ownNotes e,
       isQualityTracked = map_option edr_isQualityTracked e,
       isOverGauge = map_option edr_isOverGauge e,
       isOverWeight = map_option edr_isOverWeight e,
       isOtherExceptional = map_option edr_isOtherExceptional e,
       isHighRiskCargo = map_option edr_isHighRiskCargo e,
       isDangerousCargo = map_option edr_isDangerousCargo e,
       carrierName = map_option edr_carrierName e,
       \<dots> = server_train.more entry\<rparr>)"

text \<open>Line 71: the whole merged timetable of one server.\<close>

definition merge_timetable ::
  "('x official_row_scheme, 'y) server_train_scheme list \<Rightarrow> edr_train list
   \<Rightarrow> ('x full_row_scheme, 'y) full_server_train_scheme list" where
  "merge_timetable detailed edrs = map (merge_train edrs) detailed"

lemmas merge_defs [js_simps] =
  merge_timetable_def merge_train_def merge_row_def find_edr_row_def find_edr_train_def
  stop_type_number_def

section \<open>Properties\<close>

lemma merge_train_simps [simp]:
  "trainNoLocal (merge_train edrs t) = trainNoLocal t"
  "length (timetable (merge_train edrs t)) = length (timetable t)"
  by (simp_all add: merge_train_def Let_def)

lemma merge_train_nth:
  "i < length (timetable t) \<Longrightarrow>
   timetable (merge_train edrs t) ! i =
     merge_row (find_edr_train edrs (trainNoLocal t)) i (timetable t ! i)"
  by (simp add: merge_train_def Let_def nth_enumerate_eq)

lemma merge_row_simps [simp]:
  "indexOfPoint (merge_row e i row) = int i"
  "stopType (merge_row e i row) = stopType row"
  "full_row.more (merge_row e i row) = official_row.more row"
  "stopTypeNumber (merge_row e i row) = stop_type_number (stopType row)"
  by (simp_all add: merge_row_def Let_def)

lemma merge_rows_fields:
  "map indexOfPoint (map (\<lambda>(i, row). merge_row e i row) (enumerate n rows)) =
     map (int \<circ> fst) (enumerate n rows) \<and>
   map stopType (map (\<lambda>(i, row). merge_row e i row) (enumerate n rows)) = map stopType rows \<and>
   map full_row.more (map (\<lambda>(i, row). merge_row e i row) (enumerate n rows)) =
     map official_row.more rows \<and>
   map stopTypeNumber (map (\<lambda>(i, row). merge_row e i row) (enumerate n rows)) =
     map (\<lambda>row. stop_type_number (stopType row)) rows"
  by (induction rows arbitrary: n) simp_all

lemma merge_train_index_dense:
  "map indexOfPoint (timetable (merge_train edrs t)) = map int [0..<length (timetable t)]"
proof -
  have "map (int \<circ> fst) (enumerate 0 (timetable t)) = map int [0..<length (timetable t)]"
    by (simp flip: map_map)
  then show ?thesis
    using merge_rows_fields [of _ 0 "timetable t"] by (simp add: merge_train_def Let_def)
qed

lemma stop_type_number_range: "stop_type_number st \<in> {0, 1, 2}"
  by (simp add: stop_type_number_def split: option.splits)

lemma merge_train_stop_classes:
  "r \<in> set (timetable (merge_train edrs t)) \<Longrightarrow> stopTypeNumber r \<in> {0, 1, 2}"
  using stop_type_number_range by (fastforce simp: merge_train_def Let_def)

text \<open>C1: merging keeps one stop per official stop, numbers the stops densely 0..N-1, keeps
  every official field, and derives the stop-type number from the official stop type alone.\<close>

theorem merge_train_rows:
  "map indexOfPoint (timetable (merge_train edrs t)) = map int [0..<length (timetable t)] \<and>
   map stopType (timetable (merge_train edrs t)) = map stopType (timetable t) \<and>
   map full_row.more (timetable (merge_train edrs t)) = map official_row.more (timetable t) \<and>
   map stopTypeNumber (timetable (merge_train edrs t)) =
     map (\<lambda>row. stop_type_number (stopType row)) (timetable t)"
  using merge_train_index_dense [of edrs t] merge_rows_fields [of _ 0 "timetable t"]
  by (simp add: merge_train_def Let_def)

text \<open>Merging keeps the trains of the detailed feed, in order, each with its number of stops.\<close>

theorem merge_timetable_trains:
  "map trainNoLocal (merge_timetable detailed edrs) = map trainNoLocal detailed \<and>
   map (\<lambda>t. length (timetable t)) (merge_timetable detailed edrs) =
     map (\<lambda>t. length (timetable t)) detailed"
  by (simp add: merge_timetable_def comp_def)

text \<open>C4: the stop-type number is 0, 1 or 2; it ignores ASCII case; it is 1 exactly for
  commercialstop and 2 exactly for noncommercialstop.\<close>

theorem stop_type_number_classes:
  "stop_type_number st \<in> {0, 1, 2} \<and>
   stop_type_number (map_option js_toLowerCase st) = stop_type_number st \<and>
   (stop_type_number st = 1 \<longleftrightarrow> map_option js_toLowerCase st = Some ''commercialstop'') \<and>
   (stop_type_number st = 2 \<longleftrightarrow> map_option js_toLowerCase st = Some ''noncommercialstop'')"
  by (cases st) (simp_all add: stop_type_number_def option.map_comp comp_def)

text \<open>C3: a train without an EDR record gets every annotation field unset, on the train and on
  every stop.\<close>

theorem merge_no_annotation:
  assumes "find_edr_train edrs (trainNoLocal t) = None"
  shows "usageNotes (merge_train edrs t) = None \<and> ownNotes (merge_train edrs t) = None \<and>
    isQualityTracked (merge_train edrs t) = None \<and> isOverGauge (merge_train edrs t) = None \<and>
    isOverWeight (merge_train edrs t) = None \<and> isOtherExceptional (merge_train edrs t) = None \<and>
    isHighRiskCargo (merge_train edrs t) = None \<and> isDangerousCargo (merge_train edrs t) = None \<and>
    carrierName (merge_train edrs t) = None \<and>
    (\<forall>m\<in>set (timetable (merge_train edrs t)).
       actualArrivalTime m = None \<and> actualDepartureTime m = None \<and> confirmedBy m = None \<and>
       isActive m = None \<and> isConfirmed m = None \<and> isStoped m = None \<and> leftTrack m = None \<and>
       plannedStop m = None \<and> stopDuration m = None \<and> timetableType m = None)"
  using assms by (auto simp: merge_train_def merge_row_def find_edr_row_def Let_def)

text \<open>C2: stop i is joined with the first EDR stop whose indexOfPoint is i, and takes every
  annotation field from that EDR stop.\<close>

theorem merge_join_by_index:
  assumes "i < length (timetable t)"
    and "find_edr_train edrs (trainNoLocal t) = Some e"
    and "edr_timetable e = Some rows"
    and "find (\<lambda>r. edr_indexOfPoint r = int i) rows = Some a"
  shows "indexOfPoint (timetable (merge_train edrs t) ! i) = edr_indexOfPoint a \<and>
    actualArrivalTime (timetable (merge_train edrs t) ! i) = Some (edr_actualArrivalTime a) \<and>
    actualDepartureTime (timetable (merge_train edrs t) ! i) = Some (edr_actualDepartureTime a) \<and>
    confirmedBy (timetable (merge_train edrs t) ! i) = Some (edr_confirmedBy a) \<and>
    isActive (timetable (merge_train edrs t) ! i) = Some (edr_isActive a) \<and>
    isConfirmed (timetable (merge_train edrs t) ! i) = Some (edr_isConfirmed a) \<and>
    isStoped (timetable (merge_train edrs t) ! i) = Some (edr_isStoped a) \<and>
    leftTrack (timetable (merge_train edrs t) ! i) = Some (edr_leftTrack a) \<and>
    plannedStop (timetable (merge_train edrs t) ! i) = Some (edr_plannedStop a) \<and>
    stopDuration (timetable (merge_train edrs t) ! i) = Some (edr_stopDuration a) \<and>
    timetableType (timetable (merge_train edrs t) ! i) = Some (edr_timetableType a)"
proof -
  have "edr_indexOfPoint a = int i"
    using assms(4) by (auto simp: find_Some_iff)
  with assms show ?thesis
    by (simp add: merge_train_nth merge_row_def find_edr_row_def)
qed

text \<open>C14: a train with an EDR record takes the train-level notes, flags and carrier of the first
  EDR train of the same number.\<close>

theorem merge_train_level_annotation:
  assumes "find_edr_train edrs (trainNoLocal t) = Some e"
  shows "edr_trainNoLocal e = trainNoLocal t \<and>
    usageNotes (merge_train edrs t) = Some (edr_usageNotes e) \<and>
    ownNotes (merge_train edrs t) = Some (edr_ownNotes e) \<and>
    isQualityTracked (merge_train edrs t) = Some (edr_isQualityTracked e) \<and>
    isOverGauge (merge_train edrs t) = Some (edr_isOverGauge e) \<and>
    isOverWeight (merge_train edrs t) = Some (edr_isOverWeight e) \<and>
    isOtherExceptional (merge_train edrs t) = Some (edr_isOtherExceptional e) \<and>
    isHighRiskCargo (merge_train edrs t) = Some (edr_isHighRiskCargo e) \<and>
    isDangerousCargo (merge_train edrs t) = Some (edr_isDangerousCargo e) \<and>
    carrierName (merge_train edrs t) = Some (edr_carrierName e)"
  using assms by (auto simp: merge_train_def find_edr_train_def find_Some_iff Let_def)

end
