(* ===== verification/Refresh.thy ===== *)
theory Refresh
  imports Merge Overlay
begin

text \<open>
  The process-wide state of \<open>src/backend/src/index.ts\<close> and the two jobs that write it.
  \<open>completeTrainList\<close> (line 37) maps a server code to the merged timetable of that
  server; \<open>speeds\<close> (line 38) is the converted speed-limit list, \<open>undefined\<close> until
  the first load. \<open>updateTimetable\<close> (lines 55-122) fetches the server list, then, server
  by server, the detailed and the EDR timetable concurrently (\<open>Promise.all\<close>), merges
  them (\<open>Merge\<close>) and stores the result under the server code; \<open>updateSpeedLimits\<close>
  (lines 124-136) loads the limits from the web or, on failure, from the bundled file. The
  responses of the upstream services are inputs (\<open>feeds\<close>): a value or the rejection.

  Both jobs are started at module load (lines 160-161) and by cron (lines 138-159) without
  waiting for a previous run, and the HTTP handlers read the state between any two
  \<open>await\<close>s. \<open>backend_step\<close> is this interleaving: a running timetable job is the list
  of servers it has still to process, one step per server; a speed-limit job writes once,
  after its last \<open>await\<close>, so it is one step.
\<close>

section \<open>Data\<close>

text \<open>The merged timetables by server code (\<open>ICompleteTrainList\<close>).\<close>

type_synonym train_store = "string \<rightharpoonup> full_row full_server_train list"

record backend_state =
  completeTrainList :: train_store
  speeds :: "speed_limit list option"

text \<open>The responses of \<open>getServerCodeList\<close>, \<open>getFullTimetable\<close>, \<open>getEdrTimetable\<close>.\<close>

record feeds =
  getServerCodeList :: "js_error + string list"
  getFullTimetable :: "string \<Rightarrow> js_error + official_row server_train list"
  getEdrTimetable :: "string \<Rightarrow> js_error + edr_train list"

section \<open>Operations\<close>

text \<open>Lines 37-38.\<close>

definition initial_state :: backend_state where
  "initial_state = \<lparr>completeTrainList = Map.empty, speeds = None\<rparr>"

text \<open>\<open>helper/speedLimitHelper.js\<close>: positions from metres to kilometres (design, section 4.3).\<close>

definition ConvertSpeedsApiToInternal :: "speed_api list \<Rightarrow> speed_limit list" where
  "ConvertSpeedsApiToInternal api = map convert_speed api"

text \<open>Lines 40-53: the request; a rejection is logged and rethrown.\<close>

definition do_request_on_server :: "(string \<Rightarrow> js_error + 'a) \<Rightarrow> string \<Rightarrow> js_error + 'a" where
  "do_request_on_server requestFunction serverCode =
     (case requestFunction serverCode of Inl e \<Rightarrow> Inl e | Inr v \<Rightarrow> Inr v)"

text \<open>
  Lines 64-120, one server: both requests under \<open>Promise.all\<close> (which rejects as soon as
  one of them does; the model reports the first of the array), the merge, the store.
\<close>

definition refresh_server :: "feeds \<Rightarrow> train_store \<Rightarrow> string \<Rightarrow> js_error + train_store" where
  "refresh_server fd store serverCode =
     (case do_request_on_server (getFullTimetable fd) serverCode of
        Inl e \<Rightarrow> Inl e
      | Inr detailedTimetable \<Rightarrow>
          (case do_request_on_server (getEdrTimetable fd) serverCode of
             Inl e \<Rightarrow> Inl e
           | Inr edrTimetable \<Rightarrow>
               Inr (store(serverCode \<mapsto> merge_timetable detailedTimetable edrTimetable))))"

text \<open>
  Lines 63-121: the loop over the servers. A rejection leaves the loop and rejects the
  promise of \<open>updateTimetable\<close>; the servers stored before it keep their new timetables.
\<close>

fun refresh_servers ::
  "feeds \<Rightarrow> train_store \<Rightarrow> string list \<Rightarrow> train_store \<times> (js_error + unit)" where
  "refresh_servers fd store [] = (store, Inr ())"
| "refresh_servers fd store (serverCode # rest) =
     (case refresh_server fd store serverCode of
        Inl e \<Rightarrow> (store, Inl e)
      | Inr store' \<Rightarrow> refresh_servers fd store' rest)"

text \<open>Lines 55-122: a failed server list is caught, logged, and ends the job.\<close>

definition update_timetable :: "feeds \<Rightarrow> backend_state \<Rightarrow> backend_state \<times> (js_error + unit)" where
  "update_timetable fd s =
     (case getServerCodeList fd of
        Inl _ \<Rightarrow> (s, Inr ())
      | Inr serverList \<Rightarrow>
          (let (store', r) = refresh_servers fd (completeTrainList s) serverList
           in (s\<lparr>completeTrainList := store'\<rparr>, r)))"

text \<open>
  Lines 124-136: the web feed, else the bundled file (whose read or parse may throw too,
  and then the promise rejects with \<open>speeds\<close> unchanged).
\<close>

definition update_speed_limits ::
  "js_error + speed_api list \<Rightarrow> js_error + speed_api list \<Rightarrow> backend_state
   \<Rightarrow> backend_state \<times> (js_error + unit)" where
  "update_speed_limits fetched bundled s =
     (case fetched of
        Inr result \<Rightarrow> (s\<lparr>speeds := Some (ConvertSpeedsApiToInternal result)\<rparr>, Inr ())
      | Inl _ \<Rightarrow>
          (case bundled of
             Inr fallback \<Rightarrow> (s\<lparr>speeds := Some (ConvertSpeedsApiToInternal fallback)\<rparr>, Inr ())
           | Inl e \<Rightarrow> (s, Inl e)))"

section \<open>Interleaving\<close>

text \<open>
  The state of the process between two \<open>await\<close>s: the backend state and, for every
  running \<open>updateTimetable\<close>, the servers it has still to process (in start order).
\<close>

record refresh_sys =
  backend :: backend_state
  jobs :: "string list list"

definition initial_sys :: refresh_sys where
  "initial_sys = \<lparr>backend = initial_state, jobs = []\<rparr>"

text \<open>The job list without its \<open>i\<close>-th job.\<close>

definition drop_job :: "nat \<Rightarrow> 'a list \<Rightarrow> 'a list" where
  "drop_job i js = take i js @ drop (Suc i) js"

text \<open>
  One step of a running timetable job (lines 64-121) when the feeds answer as \<open>fd\<close>:
  it processes the next server of its list, leaves its loop on a rejection (lines 65-67),
  or ends after the last server (line 121). Every server is requested once per job, so
  one \<open>fd\<close> describes the answers a job receives.
\<close>

inductive job_step :: "feeds \<Rightarrow> refresh_sys \<Rightarrow> refresh_sys \<Rightarrow> bool" for fd :: feeds where
  timetable_server:
    "i < length (jobs s) \<Longrightarrow> jobs s ! i = serverCode # rest \<Longrightarrow>
     refresh_server fd (completeTrainList (backend s)) serverCode = Inr store' \<Longrightarrow>
     job_step fd s (s\<lparr>backend := (backend s)\<lparr>completeTrainList := store'\<rparr>,
                        jobs := (jobs s)[i := rest]\<rparr>)"
| timetable_abort:
    "i < length (jobs s) \<Longrightarrow> jobs s ! i = serverCode # rest \<Longrightarrow>
     refresh_server fd (completeTrainList (backend s)) serverCode = Inl e \<Longrightarrow>
     job_step fd s (s\<lparr>jobs := drop_job i (jobs s)\<rparr>)"
| timetable_done:
    "i < length (jobs s) \<Longrightarrow> jobs s ! i = [] \<Longrightarrow>
     job_step fd s (s\<lparr>jobs := drop_job i (jobs s)\<rparr>)"

text \<open>
  One step of the process: a timetable job starts with the server list it fetched (lines
  56-63; a failed list ends the job at once and changes nothing), a running job makes a
  step with whatever its feeds answer, or a speed-limit job runs (lines 124-136).
\<close>

inductive backend_step :: "refresh_sys \<Rightarrow> refresh_sys \<Rightarrow> bool" where
  timetable_start:
    "getServerCodeList (fd :: feeds) = Inr serverList \<Longrightarrow>
     backend_step s (s\<lparr>jobs := jobs s @ [serverList]\<rparr>)"
| timetable_job: "job_step fd s s' \<Longrightarrow> backend_step s s'"
| speed_refresh:
    "update_speed_limits fetched bundled (backend s) = (b', r) \<Longrightarrow>
     backend_step s (s\<lparr>backend := b'\<rparr>)"

text \<open>The store after the running jobs complete one after the other, in start order.\<close>

fun run_jobs :: "feeds \<Rightarrow> train_store \<Rightarrow> string list list \<Rightarrow> train_store" where
  "run_jobs fd st [] = st"
| "run_jobs fd st (j # js) = run_jobs fd (fst (refresh_servers fd st j)) js"

text \<open>Both feeds of a server are available.\<close>

abbreviation feeds_ok :: "feeds \<Rightarrow> string \<Rightarrow> bool" where
  "feeds_ok fd c \<equiv> \<not> isl (getFullTimetable fd c) \<and> \<not> isl (getEdrTimetable fd c)"

text \<open>What a job writes for a server, and the servers it writes: those before the first
  whose feeds fail.\<close>

definition merged_feed :: "feeds \<Rightarrow> string \<Rightarrow> full_row full_server_train list" where
  "merged_feed fd c = merge_timetable (projr (getFullTimetable fd c)) (projr (getEdrTimetable fd c))"

definition job_writes :: "feeds \<Rightarrow> string list \<Rightarrow> string list" where
  "job_writes fd cs = takeWhile (\<lambda>c. feeds_ok fd c) cs"

lemmas refresh_defs [js_simps] =
  update_timetable_def update_speed_limits_def refresh_server_def do_request_on_server_def
  ConvertSpeedsApiToInternal_def initial_state_def

inductive_cases job_stepE: "job_step fd s s'"

section \<open>Properties\<close>

lemma refresh_server_Inr_iff:
  "refresh_server fd st c = Inr st' \<longleftrightarrow>
     (\<exists>d e. getFullTimetable fd c = Inr d \<and> getEdrTimetable fd c = Inr e \<and>
            st' = st(c \<mapsto> merge_timetable d e))"
  by (auto simp: refresh_server_def do_request_on_server_def split: sum.splits)

lemma refresh_server_Inl_iff:
  "(\<exists>e. refresh_server fd st c = Inl e) \<longleftrightarrow>
     isl (getFullTimetable fd c) \<or> isl (getEdrTimetable fd c)"
  by (auto simp: refresh_server_def do_request_on_server_def split: sum.splits)

lemma refresh_server_cases:
  obtains (fail) e where "refresh_server fd st c = Inl e"
    | (ok) st' where "refresh_server fd st c = Inr st'"
  by (cases "refresh_server fd st c") auto

lemma refresh_servers_snapshot:
  "fst (refresh_servers fd st cs) x = st x \<or>
   (\<exists>d e. getFullTimetable fd x = Inr d \<and> getEdrTimetable fd x = Inr e \<and>
          fst (refresh_servers fd st cs) x = Some (merge_timetable d e))"
proof (induction cs arbitrary: st)
  case (Cons c cs)
  show ?case
  proof (cases rule: refresh_server_cases [of fd st c])
    case (ok st')
    then obtain d e where "getFullTimetable fd c = Inr d" "getEdrTimetable fd c = Inr e"
      "st' = st(c \<mapsto> merge_timetable d e)"
      by (auto simp: refresh_server_Inr_iff)
    then have "st' x = st x \<or>
      (getFullTimetable fd x = Inr d \<and> getEdrTimetable fd x = Inr e \<and>
       st' x = Some (merge_timetable d e))"
      by auto
    moreover have "fst (refresh_servers fd st (c # cs)) = fst (refresh_servers fd st' cs)"
      using ok by simp
    ultimately show ?thesis
      using Cons.IH [of st'] by metis
  qed simp
qed simp

lemma refresh_servers_outside:
  "x \<notin> set cs \<Longrightarrow> fst (refresh_servers fd st cs) x = st x"
proof (induction cs arbitrary: st)
  case (Cons c cs)
  show ?case
  proof (cases rule: refresh_server_cases [of fd st c])
    case (ok st')
    then have "st' x = st x"
      using Cons.prems by (auto simp: refresh_server_Inr_iff)
    with ok Cons show ?thesis
      by simp
  qed simp
qed simp

lemma refresh_server_ok:
  "\<not> isl (getFullTimetable fd c) \<Longrightarrow> \<not> isl (getEdrTimetable fd c) \<Longrightarrow>
   refresh_server fd st c =
     Inr (st(c \<mapsto> merge_timetable (projr (getFullTimetable fd c)) (projr (getEdrTimetable fd c))))"
  by (auto simp: refresh_server_def do_request_on_server_def split: sum.splits)

lemma refresh_servers_all_ok:
  "\<forall>y\<in>set cs. feeds_ok fd y \<Longrightarrow>
   refresh_servers fd st cs =
     (\<lambda>x. if x \<in> set cs
          then Some (merge_timetable (projr (getFullTimetable fd x)) (projr (getEdrTimetable fd x)))
          else st x, Inr ())"
  by (induction cs arbitrary: st) (auto simp: refresh_server_ok fun_eq_iff)

lemma refresh_servers_append_ok:
  "\<forall>y\<in>set cs1. feeds_ok fd y \<Longrightarrow>
   refresh_servers fd st (cs1 @ rest) = refresh_servers fd (fst (refresh_servers fd st cs1)) rest"
  by (induction cs1 arbitrary: st) (auto simp: refresh_server_ok)

lemma refresh_servers_fail:
  "isl (getFullTimetable fd c) \<or> isl (getEdrTimetable fd c) \<Longrightarrow>
   fst (refresh_servers fd st (c # rest)) = st \<and> isl (snd (refresh_servers fd st (c # rest)))"
  using refresh_server_Inl_iff [of fd st c] by auto

lemma update_timetable_eq:
  "getServerCodeList fd = Inl e \<Longrightarrow> update_timetable fd s = (s, Inr ())"
  "getServerCodeList fd = Inr cs \<Longrightarrow>
   update_timetable fd s =
     (s\<lparr>completeTrainList := fst (refresh_servers fd (completeTrainList s) cs)\<rparr>,
      snd (refresh_servers fd (completeTrainList s) cs))"
  by (simp_all add: update_timetable_def case_prod_beta)

lemma update_timetable_speeds:
  "speeds (fst (update_timetable fd s)) = speeds s"
  "update_timetable fd (s\<lparr>speeds := x\<rparr>) =
     ((fst (update_timetable fd s))\<lparr>speeds := x\<rparr>, snd (update_timetable fd s))"
  by (simp_all add: update_timetable_def split: sum.splits prod.splits)

lemma update_speed_limits_store:
  "completeTrainList (fst (update_speed_limits f b s)) = completeTrainList s"
  "update_speed_limits f b (s\<lparr>completeTrainList := x\<rparr>) =
     ((fst (update_speed_limits f b s))\<lparr>completeTrainList := x\<rparr>, snd (update_speed_limits f b s))"
  by (simp_all add: update_speed_limits_def split: sum.splits)

text \<open>C16: after a timetable refresh every server holds its previous timetable or the complete
  merge of both of its current feeds, never a partial one; the speed limits are untouched.\<close>

theorem update_timetable_snapshot:
  "(completeTrainList (fst (update_timetable fd s)) x = completeTrainList s x \<or>
    (\<exists>d e. getFullTimetable fd x = Inr d \<and> getEdrTimetable fd x = Inr e \<and>
           completeTrainList (fst (update_timetable fd s)) x = Some (merge_timetable d e))) \<and>
   speeds (fst (update_timetable fd s)) = speeds s"
  using refresh_servers_snapshot [of fd "completeTrainList s" _ x]
  by (cases "getServerCodeList fd") (simp_all add: update_timetable_eq)

text \<open>C17: when a server's feed fails, the refresh rejects and every server not processed before
  it keeps its previous timetable, also the later servers whose feeds are available.\<close>

theorem update_timetable_abort_rest:
  assumes "getServerCodeList fd = Inr (before @ failed # rest)"
    and "\<forall>y\<in>set before. feeds_ok fd y"
    and "isl (getFullTimetable fd failed) \<or> isl (getEdrTimetable fd failed)"
  shows "isl (snd (update_timetable fd s)) \<and>
    (\<forall>x. x \<notin> set before \<longrightarrow>
         completeTrainList (fst (update_timetable fd s)) x = completeTrainList s x)"
proof -
  let ?st = "fst (refresh_servers fd (completeTrainList s) before)"
  have run: "refresh_servers fd (completeTrainList s) (before @ failed # rest) =
      refresh_servers fd ?st (failed # rest)"
    using assms(2) by (rule refresh_servers_append_ok)
  have "\<forall>x. x \<notin> set before \<longrightarrow> ?st x = completeTrainList s x"
    by (simp add: refresh_servers_outside)
  with run refresh_servers_fail [OF assms(3), of ?st rest] assms(1) show ?thesis
    by (simp add: update_timetable_eq)
qed

text \<open>C18: when the server list and every server's feeds are available, the refresh resolves and
  stores for each listed server the merge of its two feeds, leaving the other servers alone.\<close>

theorem update_timetable_success:
  assumes "getServerCodeList fd = Inr serverList"
    and "\<forall>c\<in>set serverList. feeds_ok fd c"
  shows "snd (update_timetable fd s) = Inr () \<and>
    completeTrainList (fst (update_timetable fd s)) c =
      (if c \<in> set serverList
       then Some (merge_timetable (projr (getFullTimetable fd c)) (projr (getEdrTimetable fd c)))
       else completeTrainList s c)"
  using assms by (simp add: update_timetable_eq refresh_servers_all_ok)

text \<open>C19: the speed limits come from the web feed when it loads, else from the bundled file;
  only when both fail does the job reject, leaving the previous limits; the timetables are
  untouched.\<close>

theorem update_speed_limits_fallback:
  "speeds (fst (update_speed_limits fetched bundled s)) =
     (case fetched of
        Inr d \<Rightarrow> Some (map convert_speed d)
      | Inl _ \<Rightarrow> (case bundled of Inr b \<Rightarrow> Some (map convert_speed b) | Inl _ \<Rightarrow> speeds s)) \<and>
   (isl (snd (update_speed_limits fetched bundled s)) \<longleftrightarrow> isl fetched \<and> isl bundled) \<and>
   completeTrainList (fst (update_speed_limits fetched bundled s)) = completeTrainList s"
  by (simp add: update_speed_limits_def ConvertSpeedsApiToInternal_def split: sum.splits)

text \<open>C20: the two jobs write disjoint parts of the state: running them in either order gives
  the same state and the same outcomes.\<close>

theorem jobs_commute:
  "fst (update_speed_limits f b (fst (update_timetable fd s))) =
     fst (update_timetable fd (fst (update_speed_limits f b s))) \<and>
   snd (update_speed_limits f b (fst (update_timetable fd s))) = snd (update_speed_limits f b s) \<and>
   snd (update_timetable fd (fst (update_speed_limits f b s))) = snd (update_timetable fd s)"
  by (simp add: update_speed_limits_def update_timetable_speeds split: sum.splits)

lemma drop_job_update [simp]: "drop_job i (js[i := x]) = drop_job i js"
  by (simp add: drop_job_def)

lemma job_run_steps:
  "i < length (jobs s) \<Longrightarrow> jobs s ! i = cs \<Longrightarrow>
   (job_step fd)\<^sup>*\<^sup>* s
     (s\<lparr>backend := (backend s)\<lparr>completeTrainList :=
                      fst (refresh_servers fd (completeTrainList (backend s)) cs)\<rparr>,
        jobs := drop_job i (jobs s)\<rparr>)"
proof (induction cs arbitrary: s)
  case Nil
  then have "job_step fd s (s\<lparr>jobs := drop_job i (jobs s)\<rparr>)"
    by (rule timetable_done)
  then show ?case
    by simp
next
  case (Cons c cs)
  show ?case
  proof (cases rule: refresh_server_cases [of fd "completeTrainList (backend s)" c])
    case (fail e)
    with Cons.prems have "job_step fd s (s\<lparr>jobs := drop_job i (jobs s)\<rparr>)"
      by (blast intro: timetable_abort)
    with fail show ?thesis
      by simp
  next
    case (ok st')
    let ?s1 = "s\<lparr>backend := (backend s)\<lparr>completeTrainList := st'\<rparr>, jobs := (jobs s)[i := cs]\<rparr>"
    have "job_step fd s ?s1"
      using Cons.prems ok by (blast intro: timetable_server)
    moreover have "(job_step fd)\<^sup>*\<^sup>* ?s1
        (?s1\<lparr>backend := (backend ?s1)\<lparr>completeTrainList :=
                      fst (refresh_servers fd (completeTrainList (backend ?s1)) cs)\<rparr>,
        jobs := drop_job i (jobs ?s1)\<rparr>)"
      using Cons.prems by (intro Cons.IH) simp_all
    ultimately show ?thesis
      using ok by (simp add: converse_rtranclp_into_rtranclp)
  qed
qed

text \<open>A job writes, for each server before the first failing one, the merge of its feeds.\<close>

lemma refresh_servers_writes:
  "fst (refresh_servers fd st cs) =
     (\<lambda>x. if x \<in> set (job_writes fd cs) then Some (merged_feed fd x) else st x)"
proof (induction cs arbitrary: st)
  case (Cons c cs)
  show ?case
  proof (cases "feeds_ok fd c")
    case True
    then show ?thesis
      using Cons.IH by (auto simp: refresh_server_ok job_writes_def merged_feed_def fun_eq_iff)
  next
    case False
    then show ?thesis
      using refresh_servers_fail [of fd c st cs] by (auto simp: job_writes_def fun_eq_iff)
  qed
qed (simp add: job_writes_def fun_eq_iff)

lemma run_jobs_writes:
  "run_jobs fd st js =
     (\<lambda>x. if x \<in> set (concat (map (job_writes fd) js)) then Some (merged_feed fd x) else st x)"
  by (induction js arbitrary: st) (auto simp: refresh_servers_writes fun_eq_iff)

lemma job_writes_Cons:
  "refresh_server fd st c = Inr st' \<Longrightarrow>
   job_writes fd (c # cs) = c # job_writes fd cs \<and> st' = st(c \<mapsto> merged_feed fd c)"
  by (auto simp: refresh_server_Inr_iff job_writes_def merged_feed_def)

lemma job_writes_fail: "refresh_server fd st c = Inl e \<Longrightarrow> job_writes fd (c # cs) = []"
  using refresh_server_Inl_iff [of fd st c] by (auto simp: job_writes_def)

lemma set_concat_split:
  "i < length js \<Longrightarrow>
   set (concat (map f js)) =
     set (concat (map f (take i js))) \<union> set (f (js ! i)) \<union> set (concat (map f (drop (Suc i) js)))"
  by (subst id_take_nth_drop [of i js]) (simp_all add: Un_assoc del: set_concat)

lemma set_concat_update:
  "i < length js \<Longrightarrow>
   set (concat (map f (js[i := x]))) =
     set (concat (map f (take i js))) \<union> set (f x) \<union> set (concat (map f (drop (Suc i) js)))"
  by (simp add: upd_conv_take_nth_drop Un_assoc del: set_concat)

lemma set_concat_drop_job:
  "set (concat (map f (drop_job i js))) =
     set (concat (map f (take i js))) \<union> set (concat (map f (drop (Suc i) js)))"
  by (simp add: drop_job_def del: set_concat)

text \<open>A job step keeps what the running jobs will have written when they complete.\<close>

lemma job_step_run_jobs:
  assumes "job_step fd s s'"
  shows "run_jobs fd (completeTrainList (backend s')) (jobs s') =
           run_jobs fd (completeTrainList (backend s)) (jobs s) \<and>
         speeds (backend s') = speeds (backend s)"
  using assms
proof cases
  case (timetable_server i serverCode rest store')
  have "set (concat (map (job_writes fd) (jobs s))) =
      insert serverCode (set (concat (map (job_writes fd) ((jobs s)[i := rest]))))"
    using timetable_server job_writes_Cons [OF timetable_server(4), of rest]
    by (auto simp: set_concat_update set_concat_split [of i "jobs s"] simp del: set_concat)
  then show ?thesis
    using timetable_server job_writes_Cons [OF timetable_server(4), of rest]
    by (auto simp: run_jobs_writes fun_eq_iff simp del: set_concat)
next
  case (timetable_abort i serverCode rest e)
  have "set (concat (map (job_writes fd) (jobs s))) =
      set (concat (map (job_writes fd) (drop_job i (jobs s))))"
    using timetable_abort job_writes_fail [OF timetable_abort(4), of rest]
    by (simp add: set_concat_drop_job set_concat_split [of i "jobs s"] del: set_concat)
  then show ?thesis
    using timetable_abort by (simp add: run_jobs_writes del: set_concat)
next
  case (timetable_done i)
  have "set (concat (map (job_writes fd) (jobs s))) =
      set (concat (map (job_writes fd) (drop_job i (jobs s))))"
    using timetable_done
    by (simp add: set_concat_drop_job set_concat_split [of i "jobs s"] job_writes_def
        del: set_concat)
  then show ?thesis
    using timetable_done by (simp add: run_jobs_writes del: set_concat)
qed

lemma job_steps_run_jobs:
  "(job_step fd)\<^sup>*\<^sup>* s s' \<Longrightarrow>
   run_jobs fd (completeTrainList (backend s')) (jobs s') =
     run_jobs fd (completeTrainList (backend s)) (jobs s) \<and>
   speeds (backend s') = speeds (backend s)"
  by (induction rule: rtranclp_induct) (auto dest: job_step_run_jobs)

text \<open>Between any two job steps each server holds its timetable from before or the complete
  merge of its feeds.\<close>

lemma job_steps_snapshot:
  "(job_step fd)\<^sup>*\<^sup>* s s' \<Longrightarrow>
   (completeTrainList (backend s') x = completeTrainList (backend s) x \<or>
    completeTrainList (backend s') x = Some (merged_feed fd x)) \<and>
   speeds (backend s') = speeds (backend s)"
proof (induction rule: rtranclp_induct)
  case (step y z)
  from step.hyps(2) show ?case
  proof cases
    case (timetable_server i serverCode rest store')
    then show ?thesis
      using step.IH job_writes_Cons [OF timetable_server(4), of rest] by auto
  qed (use step.IH in simp_all)
qed simp

text \<open>Running the jobs one after the other is a run of job steps.\<close>

lemma jobs_run_all:
  "(job_step fd)\<^sup>*\<^sup>* s
     (s\<lparr>backend := (backend s)\<lparr>completeTrainList :=
                      run_jobs fd (completeTrainList (backend s)) (jobs s)\<rparr>,
        jobs := []\<rparr>)"
proof (induction "jobs s" arbitrary: s)
  case Nil
  then have "s\<lparr>backend := (backend s)\<lparr>completeTrainList :=
                      run_jobs fd (completeTrainList (backend s)) (jobs s)\<rparr>, jobs := []\<rparr> = s"
    by (cases s) simp
  then show ?case
    by simp
next
  case (Cons j js)
  let ?s1 = "s\<lparr>backend := (backend s)\<lparr>completeTrainList :=
                      fst (refresh_servers fd (completeTrainList (backend s)) j)\<rparr>,
        jobs := js\<rparr>"
  have "(job_step fd)\<^sup>*\<^sup>* s ?s1"
    using job_run_steps [of 0 s j fd] Cons.hyps(2) [symmetric] by (simp add: drop_job_def)
  moreover have "(job_step fd)\<^sup>*\<^sup>* ?s1
     (?s1\<lparr>backend := (backend ?s1)\<lparr>completeTrainList :=
                      run_jobs fd (completeTrainList (backend ?s1)) (jobs ?s1)\<rparr>,
        jobs := []\<rparr>)"
    by (rule Cons.hyps(1)) simp
  ultimately show ?case
    using Cons.hyps(2) [symmetric] by simp
qed

lemma sys_eqI:
  "completeTrainList (backend (s' :: refresh_sys)) = st \<Longrightarrow> speeds (backend s') = speeds (backend s) \<Longrightarrow>
   jobs s' = [] \<Longrightarrow>
   s' = s\<lparr>backend := (backend s)\<lparr>completeTrainList := st\<rparr>, jobs := []\<rparr>"
  by (cases s', cases s) (auto intro: backend_state.equality)


end
