(* ===== verification/UriCodec.thy ===== *)
theory UriCodec
  imports JsString
begin

text \<open>
  ECMAScript \<open>decodeURIComponent\<close> (ECMA-262, the abstract operation \<open>Decode\<close> with an
  empty reserved set), which Express applies to every route parameter it binds, and its
  inverse \<open>encodeURIComponent\<close>. Strings are byte strings: a decoded code point outside
  ASCII is kept as its UTF-8 bytes, so a decoded string is the UTF-8 encoding of the
  string JavaScript builds. The decoder fails (\<open>None\<close>, a \<open>URIError\<close>) on a \<open>%\<close> not
  followed by two hexadecimal digits, on a lead byte that starts no sequence, on a missing
  continuation escape and on a byte sequence that is no valid UTF-8 (Unicode Table 3-7:
  no overlong form, no surrogate, nothing above U+10FFFF).
\<close>

section \<open>Bytes\<close>

definition hex_value :: "char \<Rightarrow> nat option" where
  "hex_value c = (let n = (of_char c :: nat) in
     if 48 \<le> n \<and> n \<le> 57 then Some (n - 48)
     else if 65 \<le> n \<and> n \<le> 70 then Some (n - 55)
     else if 97 \<le> n \<and> n \<le> 102 then Some (n - 87) else None)"

definition hex_byte :: "char \<Rightarrow> char \<Rightarrow> nat option" where
  "hex_byte h l =
     (case (hex_value h, hex_value l) of (Some a, Some b) \<Rightarrow> Some (16 * a + b) | _ \<Rightarrow> None)"

text \<open>The length of the UTF-8 sequence a lead byte starts (its leading one bits);
  0 for a continuation byte or a byte with more than four leading ones.\<close>

definition utf8_len :: "nat \<Rightarrow> nat" where
  "utf8_len b =
     (if b < 0x80 then 1 else if b < 0xC0 then 0 else if b < 0xE0 then 2
      else if b < 0xF0 then 3 else if b < 0xF8 then 4 else 0)"

definition utf8_cont :: "nat \<Rightarrow> bool" where
  "utf8_cont b \<longleftrightarrow> 0x80 \<le> b \<and> b \<le> 0xBF"

text \<open>The well-formed multi-byte sequences of Unicode Table 3-7.\<close>

fun utf8_valid_seq :: "nat list \<Rightarrow> bool" where
  "utf8_valid_seq [b1, b2] = (0xC2 \<le> b1 \<and> b1 \<le> 0xDF \<and> utf8_cont b2)"
| "utf8_valid_seq [b1, b2, b3] =
     (utf8_cont b3 \<and>
      (if b1 = 0xE0 then 0xA0 \<le> b2 \<and> b2 \<le> 0xBF
       else if b1 = 0xED then 0x80 \<le> b2 \<and> b2 \<le> 0x9F
       else 0xE1 \<le> b1 \<and> b1 \<le> 0xEF \<and> utf8_cont b2))"
| "utf8_valid_seq [b1, b2, b3, b4] =
     (utf8_cont b3 \<and> utf8_cont b4 \<and>
      (if b1 = 0xF0 then 0x90 \<le> b2 \<and> b2 \<le> 0xBF
       else if b1 = 0xF4 then 0x80 \<le> b2 \<and> b2 \<le> 0x8F
       else 0xF1 \<le> b1 \<and> b1 \<le> 0xF3 \<and> utf8_cont b2))"
| "utf8_valid_seq _ = False"

text \<open>A byte string that is well-formed UTF-8.\<close>

fun utf8_ok :: "string \<Rightarrow> bool" where
  "utf8_ok [] = True"
| "utf8_ok (c # cs) =
     (let b = (of_char c :: nat); n = utf8_len b in
      if b < 0x80 then utf8_ok cs
      else 2 \<le> n \<and> n - 1 \<le> length cs \<and> utf8_valid_seq (b # map of_char (take (n - 1) cs))
           \<and> utf8_ok (drop (n - 1) cs))"

section \<open>decodeURIComponent\<close>

text \<open>The bytes of \<open>k\<close> consecutive escapes \<open>%XY\<close> at the front of a string.\<close>

fun escape_bytes :: "nat \<Rightarrow> string \<Rightarrow> nat list option" where
  "escape_bytes 0 s = Some []"
| "escape_bytes (Suc k) (p # h # l # r) =
     (if p = CHR ''%'' then
        (case hex_byte h l of None \<Rightarrow> None | Some b \<Rightarrow> map_option (Cons b) (escape_bytes k r))
      else None)"
| "escape_bytes (Suc k) _ = None"

text \<open>
  \<open>Decode(string, "")\<close>: a character other than \<open>%\<close> is copied; an escape of a byte below
  \<open>0x80\<close> is that character; a lead byte of \<open>n\<close> bytes takes the next \<open>n - 1\<close> escapes,
  which must complete a valid UTF-8 sequence. Every other case throws \<open>URIError\<close>.
\<close>

fun uri_decode :: "string \<Rightarrow> string option" where
  "uri_decode [] = Some []"
| "uri_decode (c # cs) =
     (if c \<noteq> CHR ''%'' then map_option (Cons c) (uri_decode cs)
      else (case cs of
              h # l # r \<Rightarrow>
                (case hex_byte h l of
                   None \<Rightarrow> None
                 | Some b \<Rightarrow>
                     if b < 0x80 then map_option (Cons (char_of b)) (uri_decode r)
                     else if utf8_len b < 2 then None
                     else (case escape_bytes (utf8_len b - 1) r of
                             None \<Rightarrow> None
                           | Some bs \<Rightarrow>
                               if utf8_valid_seq (b # bs)
                               then map_option (append (map char_of (b # bs)))
                                      (uri_decode (drop (3 * (utf8_len b - 1)) r))
                               else None))
            | _ \<Rightarrow> None))"

section \<open>encodeURIComponent\<close>

text \<open>The characters \<open>encodeURIComponent\<close> leaves alone: ASCII letters, digits and
  \<open>- _ . ! ~ * ' ( )\<close>.\<close>

definition uri_unreserved :: "char \<Rightarrow> bool" where
  "uri_unreserved c \<longleftrightarrow>
     (let n = (of_char c :: nat) in
      48 \<le> n \<and> n \<le> 57 \<or> 65 \<le> n \<and> n \<le> 90 \<or> 97 \<le> n \<and> n \<le> 122 \<or>
      c \<in> set [CHR ''-'', CHR ''_'', CHR ''.'', CHR ''!'', CHR ''~'', CHR ''*'', CHR 0x27,
               CHR ''('', CHR '')''])"

definition hex_digit :: "nat \<Rightarrow> char" where
  "hex_digit d = ''0123456789ABCDEF'' ! d"

definition percent_escape :: "char \<Rightarrow> string" where
  "percent_escape c =
     [CHR ''%'', hex_digit (of_char c div 16), hex_digit (of_char c mod 16)]"

text \<open>Every byte of the UTF-8 encoding that is not unreserved becomes \<open>%XY\<close>.\<close>

definition uri_encode :: "string \<Rightarrow> string" where
  "uri_encode s = concat (map (\<lambda>c. if uri_unreserved c then [c] else percent_escape c) s)"

section \<open>Properties\<close>

lemma hex_value_digit: "d < 16 \<Longrightarrow> hex_value (hex_digit d) = Some d"
  by (auto simp: less_Suc_eq numeral_eq_Suc hex_value_def hex_digit_def)

lemma byte_div16: "(of_char c :: nat) div 16 < 16"
  using nat_of_char_less_256 [of c] by (simp add: less_mult_imp_div_less)

lemma hex_byte_escape: "hex_byte (hex_digit (of_char c div 16)) (hex_digit (of_char c mod 16)) = Some (of_char c)"
  using byte_div16 [of c] by (simp add: hex_byte_def hex_value_digit)

lemma uri_unreserved_ascii: "uri_unreserved c \<Longrightarrow> (of_char c :: nat) < 0x80"
  by (auto simp: uri_unreserved_def Let_def)

lemma uri_unreserved_not_percent: "uri_unreserved c \<Longrightarrow> c \<noteq> CHR ''%''"
  by (auto simp: uri_unreserved_def)

lemma uri_unreserved_not_slash: "uri_unreserved c \<Longrightarrow> c \<noteq> CHR ''/''"
  by (auto simp: uri_unreserved_def)

lemma hex_digit_not_slash: "d < 16 \<Longrightarrow> hex_digit d \<noteq> CHR ''/''"
  using hex_value_digit [of d] by (auto simp: hex_value_def)

lemma slash_not_in_percent_escape: "CHR ''/'' \<notin> set (percent_escape c)"
  using hex_digit_not_slash [of "of_char c div 16"] hex_digit_not_slash [of "of_char c mod 16"]
    byte_div16 [of c]
  by (auto simp: percent_escape_def)

lemma uri_encode_Nil [simp]: "uri_encode [] = []"
  by (simp add: uri_encode_def)

lemma uri_encode_append [simp]: "uri_encode (xs @ ys) = uri_encode xs @ uri_encode ys"
  by (simp add: uri_encode_def)

lemma uri_encode_Cons:
  "uri_encode (c # cs) = (if uri_unreserved c then [c] else percent_escape c) @ uri_encode cs"
  by (simp add: uri_encode_def)

lemma slash_not_in_uri_encode: "CHR ''/'' \<notin> set (uri_encode s)"
  by (induction s) (auto simp: uri_encode_Cons slash_not_in_percent_escape
      dest: uri_unreserved_not_slash)

lemma uri_encode_not_Nil: "s \<noteq> [] \<Longrightarrow> uri_encode s \<noteq> []"
  by (cases s) (simp_all add: uri_encode_Cons percent_escape_def)

text \<open>Decoding an escape of a byte that starts no ASCII character.\<close>

lemma escape_bytes_percent:
  assumes "\<forall>x\<in>set xs. 0x80 \<le> (of_char x :: nat)"
  shows "escape_bytes (length xs) (uri_encode xs @ r) = Some (map of_char xs)"
  using assms
  by (induction xs) (auto simp: uri_encode_Cons percent_escape_def hex_byte_escape
      dest: uri_unreserved_ascii)

lemma length_uri_encode_high:
  assumes "\<forall>x\<in>set xs. 0x80 \<le> (of_char x :: nat)"
  shows "length (uri_encode xs) = 3 * length xs"
  using assms
  by (induction xs) (auto simp: uri_encode_Cons percent_escape_def dest: uri_unreserved_ascii)

lemma utf8_valid_seq_cont: "utf8_valid_seq (b # bs) \<Longrightarrow> x \<in> set bs \<Longrightarrow> 0x80 \<le> x"
  by (induction "b # bs" rule: utf8_valid_seq.induct) (auto simp: utf8_cont_def split: if_splits)

lemma map_char_of_bytes: "map char_of (map (of_char :: char \<Rightarrow> nat) xs) = xs"
  by (induction xs) simp_all

lemma uri_decode_encode_append:
  "utf8_ok s \<Longrightarrow> uri_decode (uri_encode s @ r) = map_option (append s) (uri_decode r)"
proof (induction s arbitrary: r rule: utf8_ok.induct)
  case 1
  then show ?case by (simp add: option.map_ident)
next
  case (2 c cs)
  define b where "b = (of_char c :: nat)"
  have hb: "hex_byte (hex_digit (b div 16)) (hex_digit (b mod 16)) = Some b"
    unfolding b_def by (rule hex_byte_escape)
  have enc: "percent_escape c = [CHR ''%'', hex_digit (b div 16), hex_digit (b mod 16)]"
    by (simp add: percent_escape_def b_def)
  have cb: "char_of b = c"
    by (simp add: b_def)
  show ?case
  proof (cases "b < 0x80")
    case True
    then have ok: "utf8_ok cs" using "2.prems" by (simp add: b_def)
    have IH: "uri_decode (uri_encode cs @ r) = map_option (append cs) (uri_decode r)"
      using "2.IH"(1) [OF b_def refl True ok] .
    show ?thesis
    proof (cases "uri_unreserved c")
      case True
      then show ?thesis
        by (simp add: uri_encode_Cons IH uri_unreserved_not_percent option.map_comp comp_def)
    next
      case False
      with \<open>b < 0x80\<close> cb show ?thesis
        by (simp add: uri_encode_Cons enc hb IH option.map_comp comp_def)
    qed
  next
    case False
    define n where "n = utf8_len b"
    define xs where "xs = take (n - 1) cs"
    define ys where "ys = drop (n - 1) cs"
    have n2: "2 \<le> n" and len: "n - 1 \<le> length cs"
      and valid: "utf8_valid_seq (b # map of_char xs)" and ok: "utf8_ok ys"
      using "2.prems" False by (simp_all add: b_def n_def xs_def ys_def Let_def)
    have IH: "uri_decode (uri_encode ys @ r) = map_option (append ys) (uri_decode r)"
      using "2.IH"(2) [OF b_def n_def False ok [unfolded ys_def]]
      unfolding ys_def .
    have high: "\<forall>x\<in>set xs. 0x80 \<le> (of_char x :: nat)"
      using utf8_valid_seq_cont [OF valid] by auto
    have lxs: "length xs = n - 1"
      using len by (simp add: xs_def)
    have res: "\<not> uri_unreserved c"
      using False uri_unreserved_ascii by (auto simp: b_def)
    have cs: "cs = xs @ ys"
      by (simp add: xs_def ys_def)
    have "uri_encode (c # cs) @ r =
        CHR ''%'' # hex_digit (b div 16) # hex_digit (b mod 16) # uri_encode xs @ uri_encode ys @ r"
      by (simp add: cs uri_encode_Cons res enc)
    moreover have "escape_bytes (n - 1) (uri_encode xs @ uri_encode ys @ r) = Some (map of_char xs)"
      using escape_bytes_percent [OF high] lxs by simp
    moreover have "drop (3 * (n - 1)) (uri_encode xs @ uri_encode ys @ r) = uri_encode ys @ r"
      using length_uri_encode_high [OF high] lxs by simp
    ultimately show ?thesis
      using False n2 valid hb cb
      by (simp add: IH n_def map_char_of_bytes option.map_comp comp_def cs)
  qed
qed

lemma uri_decode_encode: "utf8_ok s \<Longrightarrow> uri_decode (uri_encode s) = Some s"
  using uri_decode_encode_append [of s "[]"] by simp

lemma uri_decode_plain_append:
  "CHR ''%'' \<notin> set p \<Longrightarrow> uri_decode (p @ s) = map_option (append p) (uri_decode s)"
proof (induction p)
  case Nil
  show ?case by (cases "uri_decode s") simp_all
next
  case (Cons a p)
  then show ?case by (auto simp: option.map_comp comp_def)
qed

text \<open>A slash is no hexadecimal digit: an escape never spans it, so decoding splits at it.\<close>

lemma hex_byte_slash [simp]: "hex_byte (CHR ''/'') l = None" "hex_byte h (CHR ''/'') = None"
  by (simp_all add: hex_byte_def hex_value_def split: option.splits)

lemma escape_bytes_slash:
  "escape_bytes k (r @ CHR ''/'' # ys) = Some bs \<Longrightarrow> 3 * k \<le> length r \<and> escape_bytes k r = Some bs"
proof (induction k arbitrary: r bs)
  case (Suc k)
  show ?case
  proof (cases r rule: remdups_adj.cases)
    case 1
    with Suc.prems show ?thesis by (cases ys rule: remdups_adj.cases) auto
  next
    case (2 a)
    with Suc.prems show ?thesis by (cases ys) (auto split: if_splits)
  next
    case (3 a b r')
    show ?thesis
    proof (cases r')
      case Nil
      with 3 Suc.prems show ?thesis by (simp split: if_splits)
    next
      case (Cons c r'')
      with 3 Suc.prems Suc.IH [of r''] show ?thesis
        by (auto split: if_splits option.splits)
    qed
  qed
qed simp

lemma uri_decode_split_slash:
  "uri_decode (xs @ CHR ''/'' # ys) = Some d \<Longrightarrow>
   \<exists>d1 d2. uri_decode xs = Some d1 \<and> uri_decode ys = Some d2 \<and> d = d1 @ CHR ''/'' # d2"
proof (induction xs arbitrary: d rule: uri_decode.induct)
  case 1
  then show ?case by auto
next
  case (2 c cs)
  show ?case
  proof (cases "c = CHR ''%''")
    case False
    with "2.prems" "2.IH"(1) [OF False] show ?thesis by auto
  next
    case True
    obtain h l r where cs: "cs = h # l # r"
      using "2.prems" True by (cases cs rule: remdups_adj.cases) (auto split: list.splits)
    obtain b where hb: "hex_byte h l = Some b"
      using "2.prems" True cs by (auto split: option.splits)
    show ?thesis
    proof (cases "b < 0x80")
      case True
      with "2.prems" \<open>c = CHR ''%''\<close> cs hb "2.IH"(2) [of h "l # r" l r b] show ?thesis
        by auto
    next
      case False
      obtain bs where eb: "escape_bytes (utf8_len b - 1) (r @ CHR ''/'' # ys) = Some bs"
        and n: "\<not> utf8_len b < 2" and v: "utf8_valid_seq (b # bs)"
        using "2.prems" \<open>c = CHR ''%''\<close> cs hb False by (auto split: if_splits option.splits)
      have eb': "escape_bytes (utf8_len b - 1) r = Some bs" and le: "3 * (utf8_len b - 1) \<le> length r"
        using escape_bytes_slash [OF eb] by simp_all
      have "drop (3 * (utf8_len b - 1)) (r @ CHR ''/'' # ys) = drop (3 * (utf8_len b - 1)) r @ CHR ''/'' # ys"
        using le by simp
      then obtain z where dec: "uri_decode (drop (3 * (utf8_len b - 1)) r @ CHR ''/'' # ys) = Some z"
        and d: "d = map char_of (b # bs) @ z"
        using "2.prems" \<open>c = CHR ''%''\<close> cs hb False n eb v by (auto split: if_splits option.splits)
      obtain d1 d2 where "uri_decode (drop (3 * (utf8_len b - 1)) r) = Some d1"
        "uri_decode ys = Some d2" "z = d1 @ CHR ''/'' # d2"
        using "2.IH"(3) [OF _ cs refl hb False n eb' v dec] \<open>c = CHR ''%''\<close> by blast
      with \<open>c = CHR ''%''\<close> cs hb False n eb' v d show ?thesis
        by auto
    qed
  qed
qed

lemma js_split_Cons_split:
  "js_split c xs = p # ps \<Longrightarrow>
   (ps = [] \<and> xs = p) \<or> (\<exists>rest. xs = p @ c # rest \<and> js_split c rest = ps)"
proof (induction xs arbitrary: p ps)
  case (Cons x xs)
  obtain q qs where q: "js_split c xs = q # qs"
    by (cases "js_split c xs") simp_all
  show ?case
  proof (cases "x = c")
    case True
    with Cons.prems q show ?thesis by auto
  next
    case False
    with Cons.prems q have "p = x # q" "ps = qs" by simp_all
    with Cons.IH [OF q] show ?thesis by auto
  qed
qed simp

text \<open>Every piece of a path that decodes decodes on its own.\<close>

lemma uri_decode_pieces:
  "uri_decode s \<noteq> None \<Longrightarrow> \<forall>x\<in>set (js_split CHR ''/'' s). uri_decode x \<noteq> None"
proof (induction "length s" arbitrary: s rule: less_induct)
  case less
  obtain p ps where sp: "js_split CHR ''/'' s = p # ps"
    by (cases "js_split CHR ''/'' s") simp_all
  from js_split_Cons_split [OF sp] show ?case
  proof
    assume "ps = [] \<and> s = p"
    with sp less.prems show ?thesis by simp
  next
    assume "\<exists>rest. s = p @ CHR ''/'' # rest \<and> js_split CHR ''/'' rest = ps"
    then obtain rest where s: "s = p @ CHR ''/'' # rest" and r: "js_split CHR ''/'' rest = ps"
      by blast
    obtain d where "uri_decode s = Some d"
      using less.prems by blast
    then obtain d1 d2 where "uri_decode p = Some d1" "uri_decode rest = Some d2"
      using uri_decode_split_slash s by blast
    moreover have "\<forall>x\<in>set ps. uri_decode x \<noteq> None"
      using less.hyps [of rest] s r \<open>uri_decode rest = Some d2\<close> by simp
    ultimately show ?thesis
      using sp by simp
  qed
qed

end
