(* ===== verification/Routing.thy ===== *)
theory Routing
  imports Refresh UriCodec
begin

text \<open>
  The HTTP routes of \<open>src/backend/src/index.ts\<close> (lines 174-206). Express keeps the
  routes in registration order and calls the handler of the first one whose pattern
  matches the request path. A pattern is a sequence of segments: a literal, matched
  without regard to ASCII case, or a parameter \<open>:name\<close>, matching one non-empty segment
  and binding it in \<open>req.params\<close>; a single trailing slash is ignored (non-strict routing).
  Patterns are matched against the raw (percent-encoded) path; a parameter is then
  decoded with \<open>decodeURIComponent\<close> (Express's \<open>decode_param\<close>), and a \<open>URIError\<close>
  there ends the request with status 400. The \<open>OPTIONS *\<close> route of line 177 is tried
  first for every request, whatever its method, and decodes the whole path as its
  parameter \<open>0\<close>: a path with a malformed escape is answered 400 before any GET route.
  Three handlers receive the process state: \<open>completeTrainList[req.params.serverCode]\<close>
  (and \<open>speeds\<close> for the train route), a property read on a plain object, so a server
  code such as \<open>constructor\<close> reads a member of \<open>Object.prototype\<close>. The controllers themselves are not under \<open>src\<close>:
  a route resolves to the controller call it makes, with the data it passes.
\<close>

section \<open>Data\<close>

datatype segment = Lit string | Param string

text \<open>The handlers registered at lines 178-206, in order.\<close>

datatype endpoint =
  EpRoot | EpServers | EpServerTime | EpServerTz | EpStations | EpTrains | EpTrainsForPost
  | EpDispatch | EpTrain | EpSteam

type_synonym params = "(string \<times> string) list"

text \<open>A controller call with the state it is handed.\<close>

datatype handler_call =
  SendText string
  | GetServerList
  | GetServerTime params
  | GetServerTz params
  | GetStationsList params
  | GetTrainsList params
  | GetTrainsListForPost params "full_row full_server_train list js_prop"
  | DispatchController params "full_row full_server_train list js_prop"
  | TrainTimetableController params "full_row full_server_train list js_prop"
      "speed_limit list option"
  | GetPlayer params

text \<open>How the router ends a GET request: no route (404), a parameter that does not decode
  (400), or the call of the first route that matches.\<close>

datatype route_outcome = NotFound | BadRequest | Routed handler_call

section \<open>Operations\<close>

text \<open>Lines 178-206: the route table.\<close>

definition route_table :: "(segment list \<times> endpoint) list" where
  "route_table =
     [([], EpRoot),
      ([Lit ''servers''], EpServers),
      ([Lit ''server'', Lit ''time'', Param ''serverCode''], EpServerTime),
      ([Lit ''server'', Lit ''tz'', Param ''serverCode''], EpServerTz),
      ([Lit ''stations'', Param ''serverCode''], EpStations),
      ([Lit ''trains'', Param ''serverCode''], EpTrains),
      ([Lit ''trains'', Param ''serverCode'', Param ''post''], EpTrainsForPost),
      ([Lit ''dispatch'', Param ''serverCode'', Param ''post''], EpDispatch),
      ([Lit ''train'', Param ''serverCode'', Param ''trainNo''], EpTrain),
      ([Lit ''steam'', Param ''steamId''], EpSteam)]"

text \<open>The segments of a path: split at \<open>/\<close>, without the leading and one trailing slash.\<close>

definition path_segments :: "string \<Rightarrow> string list" where
  "path_segments path =
     (let segs = tl (js_split CHR ''/'' path)
      in if segs \<noteq> [] \<and> last segs = [] then butlast segs else segs)"

text \<open>Matching one pattern, binding the parameters in order.\<close>

fun match_path :: "segment list \<Rightarrow> string list \<Rightarrow> params option" where
  "match_path [] [] = Some []"
| "match_path (Lit l # ps) (x # xs) =
     (if js_toLowerCase x = l then match_path ps xs else None)"
| "match_path (Param n # ps) (x # xs) =
     (if x = [] then None else map_option (\<lambda>b. (n, x) # b) (match_path ps xs))"
| "match_path _ _ = None"

text \<open>The first route that matches, as Express's router tries them.\<close>

fun first_route :: "(segment list \<times> endpoint) list \<Rightarrow> string list \<Rightarrow> (endpoint \<times> params) option" where
  "first_route [] p = None"
| "first_route ((pat, ep) # rs) p =
     (case match_path pat p of
        Some b \<Rightarrow> Some (ep, b)
      | None \<Rightarrow> first_route rs p)"

text \<open>Express's \<open>decode_param\<close> on every bound parameter; one failure fails the match.\<close>

definition decode_params :: "params \<Rightarrow> params option" where
  "decode_params b = those (map (\<lambda>(n, v). map_option (Pair n) (uri_decode v)) b)"

text \<open>\<open>req.params.serverCode\<close>; \<open>undefined\<close> reads the key \<open>"undefined"\<close>.\<close>

definition server_param :: "params \<Rightarrow> string" where
  "server_param b = (case map_of b ''serverCode'' of Some c \<Rightarrow> c | None \<Rightarrow> ''undefined'')"

text \<open>Lines 178-206: the handler of each endpoint and what it is passed.\<close>

fun handle :: "backend_state \<Rightarrow> endpoint \<Rightarrow> params \<Rightarrow> handler_call" where
  "handle s EpRoot b = SendText ''Simrail Community EDR''"
| "handle s EpServers b = GetServerList"
| "handle s EpServerTime b = GetServerTime b"
| "handle s EpServerTz b = GetServerTz b"
| "handle s EpStations b = GetStationsList b"
| "handle s EpTrains b = GetTrainsList b"
| "handle s EpTrainsForPost b =
     GetTrainsListForPost b (js_obj_get (completeTrainList s) (server_param b))"
| "handle s EpDispatch b = DispatchController b (js_obj_get (completeTrainList s) (server_param b))"
| "handle s EpTrain b =
     TrainTimetableController b (js_obj_get (completeTrainList s) (server_param b)) (speeds s)"
| "handle s EpSteam b = GetPlayer b"

text \<open>Lines 177-206 for a GET request: the \<open>OPTIONS *\<close> route decodes the whole path, then
  the first GET route whose pattern matches the raw path decides, with its decoded parameters.\<close>

definition route_get :: "backend_state \<Rightarrow> string \<Rightarrow> route_outcome" where
  "route_get s path =
     (if uri_decode path = None then BadRequest
      else (case first_route route_table (path_segments path) of
              None \<Rightarrow> NotFound
            | Some (ep, b) \<Rightarrow>
                (case decode_params b of
                   None \<Rightarrow> BadRequest
                 | Some b' \<Rightarrow> Routed (handle s ep b'))))"

text \<open>Two patterns that some path matches both: same length, equal literals where both have one.\<close>

fun seg_compatible :: "segment \<Rightarrow> segment \<Rightarrow> bool" where
  "seg_compatible (Lit a) (Lit b) = (a = b)"
| "seg_compatible _ _ = True"

definition patterns_compatible :: "segment list \<Rightarrow> segment list \<Rightarrow> bool" where
  "patterns_compatible p q \<longleftrightarrow> list_all2 seg_compatible p q"

lemmas routing_defs [js_simps] =
  route_get_def route_table_def path_segments_def server_param_def decode_params_def

section \<open>Properties\<close>

lemma match_path_segs:
  "match_path pat p = Some b \<Longrightarrow>
   list_all2 (\<lambda>sg x. case sg of Lit l \<Rightarrow> js_toLowerCase x = l | Param n \<Rightarrow> x \<noteq> []) pat p"
  by (induction pat p arbitrary: b rule: match_path.induct) (auto split: if_splits)

lemma match_path_both_compatible:
  assumes "match_path p xs = Some b" "match_path q xs = Some b'"
  shows "patterns_compatible p q"
proof -
  have P: "list_all2 (\<lambda>sg x. case sg of Lit l \<Rightarrow> js_toLowerCase x = l | Param n \<Rightarrow> x \<noteq> []) p xs"
    and Q: "list_all2 (\<lambda>sg x. case sg of Lit l \<Rightarrow> js_toLowerCase x = l | Param n \<Rightarrow> x \<noteq> []) q xs"
    using assms by (simp_all add: match_path_segs)
  have "seg_compatible (p ! i) (q ! i)" if "i < length p" for i
    using that list_all2_nthD [OF P, of i] list_all2_nthD [OF Q, of i] list_all2_lengthD [OF P]
      list_all2_lengthD [OF Q]
    by (cases "p ! i"; cases "q ! i") auto
  moreover have "length p = length q"
    using P Q by (simp add: list_all2_lengthD)
  ultimately show ?thesis
    by (simp add: patterns_compatible_def list_all2_conv_all_nth)
qed

lemma route_table_pairwise:
  "\<forall>i<length route_table. \<forall>j<length route_table.
     patterns_compatible (fst (route_table ! i)) (fst (route_table ! j)) \<longrightarrow> i = j"
  by (simp add: route_table_def patterns_compatible_def less_Suc_eq all_conj_distrib
      numeral_eq_Suc)

lemma path_segments_three:
  assumes "CHR ''/'' \<notin> set a" "CHR ''/'' \<notin> set c" "CHR ''/'' \<notin> set t" "t \<noteq> []"
  shows "path_segments (''/'' @ a @ ''/'' @ c @ ''/'' @ t) = [a, c, t]"
proof -
  have "js_split CHR ''/'' (''/'' @ a @ ''/'' @ c @ ''/'' @ t) = [[], a, c, t]"
    using assms js_split_sep [of "CHR ''/''" "[]"] js_split_sep [of "CHR ''/''" a]
      js_split_sep [of "CHR ''/''" c] js_split_no_sep [of "CHR ''/''" t]
    by simp
  with assms show ?thesis
    by (simp add: path_segments_def)
qed

lemma match_path_values:
  "match_path pat segs = Some b \<Longrightarrow> (n, v) \<in> set b \<Longrightarrow> v \<in> set segs"
  by (induction pat segs arbitrary: b rule: match_path.induct) (auto split: if_splits)

lemma first_route_match: "first_route rs segs = Some (ep, b) \<Longrightarrow> \<exists>pat. match_path pat segs = Some b"
  by (induction rs) (auto split: option.splits)

lemma decode_params_Some: "\<forall>(n, v)\<in>set b. uri_decode v \<noteq> None \<Longrightarrow> decode_params b \<noteq> None"
  by (induction b) (auto simp: decode_params_def)

lemma path_segments_pieces: "set (path_segments path) \<subseteq> set (js_split CHR ''/'' path)"
  by (auto simp: path_segments_def Let_def list.set_sel(2) dest: in_set_butlastD)

text \<open>A server code that names a member of \<open>Object.prototype\<close> and is not stored reaches
  the controller as that inherited member, not as \<open>undefined\<close>.\<close>

lemma route_train_constructor:
  "route_get initial_state ''/train/constructor/1'' =
     Routed (TrainTimetableController [(''serverCode'', ''constructor''), (''trainNo'', ''1'')]
               (Inherited ''constructor'') None)"
  by (simp add: routing_defs initial_state_def js_toLowerCase_def js_obj_get_def
      object_prototype_keys_def)

text \<open>C22: no path matches two registered routes, so the order of registration never decides
  which handler runs.\<close>

theorem routes_disjoint:
  assumes "i < length route_table" "j < length route_table"
    and "match_path (fst (route_table ! i)) p \<noteq> None"
    and "match_path (fst (route_table ! j)) p \<noteq> None"
  shows "i = j"
  using assms route_table_pairwise match_path_both_compatible by blast

text \<open>C23: \<open>GET /train/:serverCode/:trainNo\<close>, with both parameters percent-encoded as a
  client's \<open>encodeURIComponent\<close> writes them, calls the train controller with the decoded
  parameters, the stored timetable of the decoded server code and the speed limits.\<close>

theorem route_train:
  assumes "c \<noteq> []" "t \<noteq> []" "utf8_ok c" "utf8_ok t"
  shows "route_get s (''/train/'' @ uri_encode c @ ''/'' @ uri_encode t) =
    Routed (TrainTimetableController [(''serverCode'', c), (''trainNo'', t)]
              (js_obj_get (completeTrainList s) c) (speeds s))"
proof -
  have "path_segments (''/'' @ ''train'' @ ''/'' @ uri_encode c @ ''/'' @ uri_encode t) =
      [''train'', uri_encode c, uri_encode t]"
    using assms by (intro path_segments_three) (simp_all add: slash_not_in_uri_encode uri_encode_not_Nil)
  with assms show ?thesis
    by (simp add: route_get_def route_table_def server_param_def js_toLowerCase_def
        uri_encode_not_Nil decode_params_def uri_decode_encode uri_decode_encode_append)
qed

text \<open>What a train route hands its controller: the server's entry read as a property, and
  the speed limits.\<close>

lemma route_train_reads:
  "route_get s path = Routed (TrainTimetableController b v sp) \<Longrightarrow>
   v = js_obj_get (completeTrainList s) (server_param b) \<and> sp = speeds s"
  unfolding route_get_def
  by (auto split: if_splits option.splits elim: handle.elims)

text \<open>C28: a GET request is answered 400 exactly when its path does not percent-decode: the
  \<open>OPTIONS *\<close> route decodes it first, and once the whole path decodes the parameters a
  GET route binds, pieces of it between slashes, always decode.\<close>

theorem route_bad_request_iff:
  "route_get s path = BadRequest \<longleftrightarrow> uri_decode path = None"
proof
  assume "route_get s path = BadRequest"
  show "uri_decode path = None"
  proof (rule ccontr)
    assume dec: "uri_decode path \<noteq> None"
    then obtain ep b where fr: "first_route route_table (path_segments path) = Some (ep, b)"
      and dp: "decode_params b = None"
      using \<open>route_get s path = BadRequest\<close>
      by (auto simp: route_get_def split: option.splits)
    obtain pat where m: "match_path pat (path_segments path) = Some b"
      using first_route_match [OF fr] by blast
    have "uri_decode v \<noteq> None" if "(n, v) \<in> set b" for n v
    proof -
      have "v \<in> set (js_split CHR ''/'' path)"
        using match_path_values [OF m that] path_segments_pieces by blast
      then show ?thesis
        using uri_decode_pieces [OF dec] by blast
    qed
    then have "\<forall>(n, v)\<in>set b. uri_decode v \<noteq> None"
      by blast
    with dp show False
      using decode_params_Some by blast
  qed
next
  assume "uri_decode path = None"
  then show "route_get s path = BadRequest"
    by (simp add: route_get_def)
qed

end
