(* ===== verification/HttpApp.thy ===== *)
theory HttpApp
  imports Routing
begin

text \<open>
  The Express application of \<open>src/backend/src/index.ts\<close> (lines 163-177): the CORS
  options (lines 163-166), the application-wide middleware chain \<open>cors\<close>, \<open>morgan\<close>,
  \<open>helmet\<close>, \<open>express.json\<close>, \<open>compression\<close> in registration order (lines 168-173),
  an \<open>OPTIONS *\<close> route (line 177) and the GET routes of \<open>Routing\<close>. Express runs the
  middlewares in order; each one either ends the response or passes it to the next, and a
  request that passes all of them is routed. A request that no route takes gets 404.

  The middlewares are library code; the model keeps of each what decides the response:
  \<open>cors\<close> answers every \<open>OPTIONS\<close> request itself (status 204, \<open>preflightContinue\<close>
  unset) and adds \<open>Access-Control-Allow-Origin: *\<close> to the others; \<open>morgan\<close> logs the
  requests that reach it; \<open>helmet\<close> sets its security headers (\<open>secured\<close>);
  \<open>express.json\<close> rejects a malformed JSON body with 400; \<open>compression\<close> encodes the
  responses of the requests that reach it.
\<close>

section \<open>Data\<close>

datatype http_method = GET | HEAD | POST | PUT | PATCH | DELETE | OPTIONS

text \<open>The body of a request as \<open>express.json\<close> sees it: JSON (well-formed or not) or other.\<close>

datatype request_body = NoBody | JsonBody bool | OtherBody

record http_request =
  req_method :: http_method
  req_path :: string
  req_body :: request_body

text \<open>Lines 163-166: the \<open>CorsOptions\<close> the code sets.\<close>

record cors_options =
  allowedHeaders :: string
  maxAge :: int

datatype response_payload = EmptyBody | Call handler_call | NotFoundPage | BadRequestPage

record http_response =
  status :: nat
  payload :: response_payload
  resp_headers :: "(string \<times> string) list"
  logged :: bool
  secured :: bool
  compressed :: bool

text \<open>What a middleware does with a request: end the response, or pass it on.\<close>

datatype mw_outcome = Next http_response | Finish http_response

type_synonym middleware = "http_request \<Rightarrow> http_response \<Rightarrow> mw_outcome"

section \<open>Operations\<close>

definition corsConfig :: cors_options where
  "corsConfig = \<lparr>allowedHeaders = ''content-type'', maxAge = 3600\<rparr>"

text \<open>The headers of a CORS preflight answer with these options.\<close>

definition preflight_headers :: "cors_options \<Rightarrow> (string \<times> string) list" where
  "preflight_headers opts =
     [(''Access-Control-Allow-Origin'', ''*''),
      (''Access-Control-Allow-Methods'', ''GET,HEAD,PUT,PATCH,POST,DELETE''),
      (''Access-Control-Allow-Headers'', allowedHeaders opts),
      (''Access-Control-Max-Age'', js_int_to_string (maxAge opts))]"

text \<open>\<open>cors(corsConfig)\<close>.\<close>

definition cors_mw :: "cors_options \<Rightarrow> middleware" where
  "cors_mw opts req resp =
     (if req_method req = OPTIONS
      then Finish (resp\<lparr>status := 204, payload := EmptyBody,
                        resp_headers := resp_headers resp @ preflight_headers opts\<rparr>)
      else Next (resp\<lparr>resp_headers := resp_headers resp @ [(''Access-Control-Allow-Origin'', ''*'')]\<rparr>))"

text \<open>\<open>Logger = morgan("tiny")\<close> (line 8).\<close>

definition morgan_mw :: middleware where
  "morgan_mw req resp = Next (resp\<lparr>logged := True\<rparr>)"

definition helmet_mw :: middleware where
  "helmet_mw req resp = Next (resp\<lparr>secured := True\<rparr>)"

text \<open>\<open>express.json()\<close>: a malformed JSON body goes to the error handler (400).\<close>

definition json_mw :: middleware where
  "json_mw req resp =
     (if req_body req = JsonBody False
      then Finish (resp\<lparr>status := 400, payload := BadRequestPage\<rparr>)
      else Next resp)"

definition compression_mw :: middleware where
  "compression_mw req resp = Next (resp\<lparr>compressed := True\<rparr>)"

text \<open>Lines 168-173, in registration order.\<close>

definition app_middlewares :: "middleware list" where
  "app_middlewares = [cors_mw corsConfig, morgan_mw, helmet_mw, json_mw, compression_mw]"

fun run_middlewares :: "middleware list \<Rightarrow> http_request \<Rightarrow> http_response \<Rightarrow> mw_outcome" where
  "run_middlewares [] req resp = Next resp"
| "run_middlewares (m # ms) req resp =
     (case m req resp of Finish r \<Rightarrow> Finish r | Next r \<Rightarrow> run_middlewares ms req r)"

text \<open>
  Lines 174-206: the routes. A HEAD request is served by the GET routes; \<open>OPTIONS *\<close>
  runs \<open>cors(corsConfig)\<close> again (line 177); anything else is not found. A route
  parameter that does not decode is an error with status 400, which the final handler
  answers with its error page; for every method, since the \<open>OPTIONS *\<close> route decodes
  the whole path before its method is compared.
\<close>

definition route_request :: "backend_state \<Rightarrow> http_request \<Rightarrow> http_response \<Rightarrow> http_response" where
  "route_request s req resp =
     (if req_method req = GET \<or> req_method req = HEAD then
        (case route_get s (req_path req) of
           Routed c \<Rightarrow> resp\<lparr>payload := Call c\<rparr>
         | BadRequest \<Rightarrow> resp\<lparr>status := 400, payload := BadRequestPage\<rparr>
         | NotFound \<Rightarrow> resp\<lparr>status := 404, payload := NotFoundPage\<rparr>)
      else if req_method req = OPTIONS then
        (case cors_mw corsConfig req resp of Finish r \<Rightarrow> r | Next r \<Rightarrow> r)
      else if uri_decode (req_path req) = None then resp\<lparr>status := 400, payload := BadRequestPage\<rparr>
      else resp\<lparr>status := 404, payload := NotFoundPage\<rparr>)"

definition initial_response :: http_response where
  "initial_response =
     \<lparr>status = 200, payload = EmptyBody, resp_headers = [], logged = False, secured = False,
      compressed = False\<rparr>"

text \<open>Lines 163-206: one request through the application.\<close>

definition app_handle :: "backend_state \<Rightarrow> http_request \<Rightarrow> http_response" where
  "app_handle s req =
     (case run_middlewares app_middlewares req initial_response of
        Finish r \<Rightarrow> r
      | Next r \<Rightarrow> route_request s req r)"

section \<open>Properties\<close>

lemma run_app_middlewares:
  "run_middlewares app_middlewares req initial_response =
     (if req_method req = OPTIONS
      then Finish (initial_response\<lparr>status := 204, resp_headers := preflight_headers corsConfig\<rparr>)
      else if req_body req = JsonBody False
      then Finish (initial_response\<lparr>status := 400, payload := BadRequestPage,
                     resp_headers := [(''Access-Control-Allow-Origin'', ''*'')],
                     logged := True, secured := True\<rparr>)
      else Next (initial_response\<lparr>resp_headers := [(''Access-Control-Allow-Origin'', ''*'')],
                     logged := True, secured := True, compressed := True\<rparr>))"
  by (simp add: app_middlewares_def cors_mw_def morgan_mw_def helmet_mw_def json_mw_def
      compression_mw_def initial_response_def)

lemma corsConfig_preflight_headers:
  "preflight_headers corsConfig =
     [(''Access-Control-Allow-Origin'', ''*''),
      (''Access-Control-Allow-Methods'', ''GET,HEAD,PUT,PATCH,POST,DELETE''),
      (''Access-Control-Allow-Headers'', ''content-type''),
      (''Access-Control-Max-Age'', ''3600'')]"
  by (simp add: preflight_headers_def corsConfig_def js_int_to_string_def nat_digits.simps)

text \<open>C15: the application-wide CORS middleware answers every OPTIONS request itself, with
  status 204 and the preflight headers of corsConfig (headers content-type, max age 3600):
  the request reaches neither the logger, nor helmet, nor compression, nor the OPTIONS route.\<close>

theorem preflight_bypasses_chain:
  assumes "req_method req = OPTIONS"
  shows "app_handle s req =
    \<lparr>status = 204, payload = EmptyBody,
     resp_headers = [(''Access-Control-Allow-Origin'', ''*''),
                     (''Access-Control-Allow-Methods'', ''GET,HEAD,PUT,PATCH,POST,DELETE''),
                     (''Access-Control-Allow-Headers'', ''content-type''),
                     (''Access-Control-Max-Age'', ''3600'')],
     logged = False, secured = False, compressed = False\<rparr>"
  using assms unfolding app_handle_def run_app_middlewares
  by (simp add: corsConfig_preflight_headers initial_response_def)

text \<open>C24: a GET or HEAD request passes the whole chain: a malformed JSON body is answered
  400, logged and secured; otherwise the request is routed, 404 when no route takes it, 400
  when the path or a parameter does not decode, and the response is logged, secured,
  compressed and carries the CORS origin header.\<close>

theorem get_request_pipeline:
  assumes "req_method req = GET \<or> req_method req = HEAD"
  shows "app_handle s req =
    (if req_body req = JsonBody False
     then \<lparr>status = 400, payload = BadRequestPage,
           resp_headers = [(''Access-Control-Allow-Origin'', ''*'')],
           logged = True, secured = True, compressed = False\<rparr>
     else \<lparr>status = (case route_get s (req_path req) of
                        NotFound \<Rightarrow> 404 | BadRequest \<Rightarrow> 400 | Routed c \<Rightarrow> 200),
           payload = (case route_get s (req_path req) of
                        NotFound \<Rightarrow> NotFoundPage | BadRequest \<Rightarrow> BadRequestPage
                      | Routed c \<Rightarrow> Call c),
           resp_headers = [(''Access-Control-Allow-Origin'', ''*'')],
           logged = True, secured = True, compressed = True\<rparr>)"
  using assms unfolding app_handle_def run_app_middlewares
  by (auto simp: route_request_def initial_response_def split: route_outcome.splits)

text \<open>C29: a request of any other method (POST, PUT, PATCH, DELETE) passes the whole chain
  and no route takes it: it is answered 400 when its body is malformed JSON or its path does
  not percent-decode (the \<open>OPTIONS *\<close> route decodes the path before it compares the
  method), and 404 otherwise.\<close>

theorem other_method_pipeline:
  assumes "req_method req \<notin> {GET, HEAD, OPTIONS}"
  shows "app_handle s req =
    (if req_body req = JsonBody False
     then \<lparr>status = 400, payload = BadRequestPage,
           resp_headers = [(''Access-Control-Allow-Origin'', ''*'')],
           logged = True, secured = True, compressed = False\<rparr>
     else \<lparr>status = (if uri_decode (req_path req) = None then 400 else 404),
           payload = (if uri_decode (req_path req) = None then BadRequestPage else NotFoundPage),
           resp_headers = [(''Access-Control-Allow-Origin'', ''*'')],
           logged = True, secured = True, compressed = True\<rparr>)"
  using assms unfolding app_handle_def run_app_middlewares
  by (auto simp: route_request_def initial_response_def)

text \<open>A GET of a path that no route takes is answered 400, not 404, when the path has a
  malformed escape: the \<open>OPTIONS *\<close> route decodes the path before any GET route runs.\<close>

lemma malformed_escape_bad_request:
  "status (app_handle s \<lparr>req_method = GET, req_path = ''/nope%zz'', req_body = NoBody\<rparr>) = 400"
  unfolding app_handle_def run_app_middlewares
  by (simp add: route_request_def route_get_def hex_byte_def hex_value_def initial_response_def)

end
