(* ===== verification/Config.thy ===== *)
theory Config
  imports JsString
begin

text \<open>
  The constants of \<open>src/backend/src/config.js\<close> that are plain ASCII data: the server
  codes (line 13), the maximal speed per train category (lines 27-37) and the translation
  of the column labels of the dispatch panel into row keys (lines 38-58), and the
  dispatch posts with the stations each controls (lines 14-26), whose Polish names are
  written as their UTF-8 bytes, as the file holds them; the base URLs of the upstream
  panel and the request headers sent to it (lines 2-12, the commented-out header of line
  11 omitted).
\<close>

section \<open>Data\<close>

text \<open>Lines 2-3.\<close>

definition BASE_SIMRAIL_DISPATCH_API :: string where
  "BASE_SIMRAIL_DISPATCH_API = ''https://panel.simrail.eu:8091/''"

definition BASE_SIMRAIL_API :: string where
  "BASE_SIMRAIL_API = ''https://panel.simrail.eu:8084/''"

text \<open>Lines 4-12.\<close>

definition srHeaders :: "(string \<times> string) list" where
  "srHeaders =
     [(''User-Agent'', ''Custom EDR vDEV''),
      (''xx-client'', ''Custom EDR''),
      (''xx-maintainer'', ''DeadlyKungFu.Ninja''),
      (''xx-contact'', ''DeadlyKungFu.Ninja#8294''),
      (''xx-executor'', ''outbound.gcp.infra.deadlykungfu.ninja''),
      (''xx-message'',
       ''Beta access only for you, that monitor this network : https://edr.deadlykungfu.ninja/?betaToken=unjN6'')]"

text \<open>Line 13.\<close>

definition SERVERS :: "string list" where
  "SERVERS = [''fr1'', ''fr2'', ''cn1'']"

text \<open>UTF-8 encodings of the Polish letters of the station names.\<close>

abbreviation o_acute :: string where "o_acute \<equiv> [CHR 0xC3, CHR 0xB3]"
abbreviation l_stroke :: string where "l_stroke \<equiv> [CHR 0xC5, CHR 0x82]"
abbreviation L_stroke :: string where "L_stroke \<equiv> [CHR 0xC5, CHR 0x81]"
abbreviation a_ogonek :: string where "a_ogonek \<equiv> [CHR 0xC4, CHR 0x85]"
abbreviation e_ogonek :: string where "e_ogonek \<equiv> [CHR 0xC4, CHR 0x99]"

text \<open>Lines 14-26: each dispatch post and the stations it controls.\<close>

definition POSTS :: "(string \<times> string list) list" where
  "POSTS =
     [(''G'' @ o_acute @ ''ra W'' @ l_stroke @ ''odowska'', [''G'' @ o_acute @ ''ra W'' @ l_stroke @ ''odowska'']),
      (''Psary'', [''Psary'']),
      (''Knap'' @ o_acute @ ''wka'', [''Knap'' @ o_acute @ ''wka'']),
      (''W'' @ l_stroke @ ''oszczowa P'' @ o_acute @ l_stroke @ ''noc'',
       [''W'' @ l_stroke @ ''oszczowa P'' @ o_acute @ l_stroke @ ''noc'']),
      (''Olszamowice'', [''Olszamowice'']),
      (''Pilichowice'', [''Pilichowice'']),
      (''Katowice_Zawodzie'', [''Katowice_Zawodzie'']),
      (''Sosnowiec_G'' @ l_stroke @ o_acute @ ''wny'',
       [''Sosnowiec_G'' @ l_stroke @ o_acute @ ''wny'', ''Sosnowiec_G'' @ l_stroke @ ''._pzs_R52'']),
      (''D'' @ a_ogonek @ ''browa G'' @ o_acute @ ''rnicza'', [''D'' @ a_ogonek @ ''browa G'' @ o_acute @ ''rnicza'']),
      (''B'' @ e_ogonek @ ''dzin'', [''B'' @ e_ogonek @ ''dzin'']),
      (L_stroke @ ''azy '' @ L_stroke @ ''c'', [L_stroke @ ''azy '' @ L_stroke @ ''c''])]"

text \<open>Lines 27-37.\<close>

definition vmax_by_type :: "(string \<times> int) list" where
  "vmax_by_type =
     [(''EIJ'', 200), (''ECE'', 125), (''MPE'', 125), (''RPJ'', 120), (''ROJ'', 120),
      (''LTE'', 125), (''TME'', 80), (''TLE'', 80), (''TCE'', 85)]"

text \<open>Lines 38-58.\<close>

definition translate_fields :: "(string \<times> string) list" where
  "translate_fields =
     [(''K'', ''k''), (''NK'', ''nk''), (''Scheduled arrival'', ''scheduled_arrival''),
      (''+/-'', ''offset''), (''Real arrival'', ''real_arrival''), (''Type'', ''type''),
      (''Train no.'', ''train_number''), (''From post'', ''from''), (''To post'', ''to''),
      (''Track'', ''track''), (''Line no.'', ''line''), (''Layover'', ''layover''),
      (''Stop type'', ''stop_type''), (''P T'', ''platform''),
      (''Scheduled departure'', ''scheduled_departure''), (''Real departure'', ''real_departure''),
      (''Start station'', ''start_station''), (''Terminus station'', ''terminus_station''),
      (''Carrier'', ''carrier'')]"

section \<open>Operations\<close>

text \<open>\<open>translate_fields[label]\<close> and \<open>vmax_by_type[type]\<close>: \<open>undefined\<close> off the table.\<close>

definition translate_field :: "string \<Rightarrow> string option" where
  "translate_field label = map_of translate_fields label"

definition vmax_of :: "string \<Rightarrow> int option" where
  "vmax_of t = map_of vmax_by_type t"

text \<open>The label a row key came from: the inverse table.\<close>

section \<open>Properties\<close>

text \<open>HTTP header names are case-insensitive: no two headers sent upstream collide, and both
  base URLs end with a slash, so a path appended to them stays under the panel's host.\<close>

lemma srHeaders_distinct_names: "distinct (map (js_toLowerCase \<circ> fst) srHeaders)"
  by (simp add: srHeaders_def js_toLowerCase_def)

lemma base_urls_slash: "last BASE_SIMRAIL_DISPATCH_API = CHR ''/''" "last BASE_SIMRAIL_API = CHR ''/''"
  by (simp_all add: BASE_SIMRAIL_DISPATCH_API_def BASE_SIMRAIL_API_def)

text \<open>Every train category of the table has a maximal speed between 80 and 200 km/h.\<close>

theorem vmax_bounds:
  "vmax_of t = Some v \<Longrightarrow> 80 \<le> v \<and> v \<le> 200"
  by (auto simp: vmax_of_def vmax_by_type_def split: if_splits)

end
