(* ===== verification/Refresh_Progress.thy ===== *)
theory Refresh_Progress
  imports Refresh
begin

text \<open>
  Progress and outcome of the running timetable jobs of \<open>src/backend/src/index.ts\<close>
  (lines 63-121) in the interleaving semantics: a job makes one step per server of its
  list and then ends, so job steps cannot go on forever whatever the feeds answer; and
  when the feeds answer as one \<open>fd\<close>, every way of interleaving the running jobs to
  completion ends in the same state, the one of running them one after the other.
\<close>

section \<open>Definitions\<close>

text \<open>What is left to do: one step per remaining server and one to leave each loop.\<close>

definition job_measure :: "refresh_sys \<Rightarrow> nat" where
  "job_measure s = sum_list (map (\<lambda>j. Suc (length j)) (jobs s))"

section \<open>Properties\<close>

lemma sum_list_drop_job:
  "i < length js \<Longrightarrow>
   sum_list (map (f :: 'a \<Rightarrow> nat) (drop_job i js)) + f (js ! i) = sum_list (map f js)"
proof -
  assume i: "i < length js"
  then have "js = take i js @ js ! i # drop (Suc i) js"
    by (simp add: id_take_nth_drop)
  then have "sum_list (map f js) = sum_list (map f (take i js)) + f (js ! i) +
      sum_list (map f (drop (Suc i) js))"
    by (metis add.assoc list.simps(9) map_append sum_list.Cons sum_list_append)
  then show ?thesis
    by (simp add: drop_job_def)
qed

lemma sum_list_update:
  "i < length js \<Longrightarrow>
   sum_list (map (f :: 'a \<Rightarrow> nat) (js[i := x])) + f (js ! i) = sum_list (map f js) + f x"
  by (induction js arbitrary: i) (auto simp: nth_Cons split: nat.splits)

text \<open>C25: the steps of running timetable jobs terminate: whatever the feeds answer at each
  step, there is no infinite sequence of job steps.\<close>

theorem job_steps_terminate: "wfp (\<lambda>s' s. \<exists>fd. job_step fd s s')"
proof (rule wfp_if_convertible_to_nat [of _ job_measure])
  fix s' s
  assume "\<exists>fd. job_step fd s s'"
  then obtain fd where "job_step fd s s'"
    by blast
  then show "job_measure s' < job_measure s"
  proof cases
    case (timetable_server i serverCode rest store')
    then show ?thesis
      using sum_list_update [of i "jobs s" "\<lambda>j. Suc (length j)" rest]
      by (simp add: job_measure_def)
  next
    case (timetable_abort i serverCode rest e)
    then show ?thesis
      using sum_list_drop_job [of i "jobs s" "\<lambda>j. Suc (length j)"]
      by (simp add: job_measure_def)
  next
    case (timetable_done i)
    then show ?thesis
      using sum_list_drop_job [of i "jobs s" "\<lambda>j. Suc (length j)"]
      by (simp add: job_measure_def)
  qed
qed

text \<open>C26: when the feeds answer as \<open>fd\<close>, the interleaving of the running timetable jobs
  does not matter: every run of job steps that completes them all ends in the one state of
  running them one after the other in start order, and that state is reached.\<close>

theorem jobs_interleaving_exact:
  "(job_step fd)\<^sup>*\<^sup>* s s' \<and> jobs s' = [] \<longleftrightarrow>
   s' = s\<lparr>backend := (backend s)\<lparr>completeTrainList :=
                      run_jobs fd (completeTrainList (backend s)) (jobs s)\<rparr>,
          jobs := []\<rparr>"
proof
  assume "(job_step fd)\<^sup>*\<^sup>* s s' \<and> jobs s' = []"
  with job_steps_run_jobs [of fd s s'] show "s' = s\<lparr>backend := (backend s)\<lparr>completeTrainList :=
                      run_jobs fd (completeTrainList (backend s)) (jobs s)\<rparr>, jobs := []\<rparr>"
    by (intro sys_eqI) simp_all
next
  assume "s' = s\<lparr>backend := (backend s)\<lparr>completeTrainList :=
                      run_jobs fd (completeTrainList (backend s)) (jobs s)\<rparr>, jobs := []\<rparr>"
  then show "(job_step fd)\<^sup>*\<^sup>* s s' \<and> jobs s' = []"
    using jobs_run_all [of fd s] by simp
qed

end
