(* ===== verification/SteamUser.thy ===== *)
theory SteamUser
  imports Prelude
begin

text \<open>
  \<open>src/backend/src/interfaces/ISteamUser.ts\<close> declares the shape of the player record of
  the Steam API that the \<open>/steam/:steamId\<close> route returns. A TypeScript interface has no
  code at run time: its meaning is the set of JSON values of that shape. This theory gives
  JSON values (\<open>json\<close>, objects as key/value lists in which, as with \<open>JSON.parse\<close>, the
  last of duplicate keys wins), the interface as a type guard (\<open>conforms_ISteamUser\<close>:
  required members present with their type, optional members absent or of their type,
  other members allowed), and the record the interface describes (\<open>steam_user\<close>).
\<close>

section \<open>Data\<close>

datatype json =
  JsonObject "(string \<times> json) list"
  | JsonArray "json list"
  | JsonNumber int
  | JsonString string
  | JsonBool bool
  | JsonNull

text \<open>Lines 1-22; \<open>?:\<close> members are options.\<close>

record steam_user =
  steamid :: string
  communityvisibilitystate :: int
  profilestate :: int
  personaname :: string
  commentpermission :: "int option"
  profileurl :: string
  avatar :: string
  avatarmedium :: string
  avatarfull :: string
  avatarhash :: "string option"
  personastate :: "int option"
  primaryclanid :: "string option"
  timecreated :: "int option"
  personastateflags :: "int option"
  gameserverip :: "string option"
  gameserversteamid :: "string option"
  gameextrainfo :: "string option"
  gameid :: "string option"
  loccountrycode :: "string option"
  locstatecode :: "string option"

section \<open>Operations\<close>

text \<open>A member of a parsed object: the last one of that key.\<close>

definition json_get :: "(string \<times> json) list \<Rightarrow> string \<Rightarrow> json option" where
  "json_get kvs k = map_of (rev kvs) k"

fun as_str :: "json \<Rightarrow> string option" where
  "as_str (JsonString s) = Some s"
| "as_str _ = None"

fun as_num :: "json \<Rightarrow> int option" where
  "as_num (JsonNumber n) = Some n"
| "as_num _ = None"

text \<open>A required member and an optional one (\<open>Some None\<close>: absent).\<close>

definition req_field :: "(json \<Rightarrow> 'a option) \<Rightarrow> (string \<times> json) list \<Rightarrow> string \<Rightarrow> 'a option" where
  "req_field f kvs k = Option.bind (json_get kvs k) f"

definition opt_field ::
  "(json \<Rightarrow> 'a option) \<Rightarrow> (string \<times> json) list \<Rightarrow> string \<Rightarrow> 'a option option" where
  "opt_field f kvs k = (case json_get kvs k of None \<Rightarrow> Some None | Some v \<Rightarrow> map_option Some (f v))"

text \<open>Lines 1-22 as a type guard.\<close>

definition conforms_ISteamUser :: "json \<Rightarrow> bool" where
  "conforms_ISteamUser j =
     (case j of
        JsonObject kvs \<Rightarrow>
          req_field as_str kvs ''steamid'' \<noteq> None \<and>
          req_field as_num kvs ''communityvisibilitystate'' \<noteq> None \<and>
          req_field as_num kvs ''profilestate'' \<noteq> None \<and>
          req_field as_str kvs ''personaname'' \<noteq> None \<and>
          opt_field as_num kvs ''commentpermission'' \<noteq> None \<and>
          req_field as_str kvs ''profileurl'' \<noteq> None \<and>
          req_field as_str kvs ''avatar'' \<noteq> None \<and>
          req_field as_str kvs ''avatarmedium'' \<noteq> None \<and>
          req_field as_str kvs ''avatarfull'' \<noteq> None \<and>
          opt_field as_str kvs ''avatarhash'' \<noteq> None \<and>
          opt_field as_num kvs ''personastate'' \<noteq> None \<and>
          opt_field as_str kvs ''primaryclanid'' \<noteq> None \<and>
          opt_field as_num kvs ''timecreated'' \<noteq> None \<and>
          opt_field as_num kvs ''personastateflags'' \<noteq> None \<and>
          opt_field as_str kvs ''gameserverip'' \<noteq> None \<and>
          opt_field as_str kvs ''gameserversteamid'' \<noteq> None \<and>
          opt_field as_str kvs ''gameextrainfo'' \<noteq> None \<and>
          opt_field as_str kvs ''gameid'' \<noteq> None \<and>
          opt_field as_str kvs ''loccountrycode'' \<noteq> None \<and>
          opt_field as_str kvs ''locstatecode'' \<noteq> None
      | _ \<Rightarrow> False)"

end
