(* ===== verification/Spec2Isabelle.thy ===== *)
theory Spec2Isabelle
  imports Assembler HttpApp Config Refresh_Progress SteamUser
begin

text \<open>
  \<^bold>\<open>A verification library for the Simrail Community EDR backend\<close>
  (\<open>src/backend/src\<close>): the timetable-enrichment core and the refresh loop around it.

  \<^bold>\<open>The program.\<close> \<open>index.ts\<close> keeps a process-wide map \<open>completeTrainList\<close> from
  server code to merged timetable and a speed-limit list \<open>speeds\<close>. A cron job
  (\<open>updateTimetable\<close>) fetches, for every server in turn, the detailed timetable and the
  EDR timetable concurrently and merges them train by train and stop by stop (lines
  55-122); another (\<open>updateSpeedLimits\<close>) reloads the speed limits, falling back to a
  bundled file (lines 124-136). \<open>sql/train.ts\<close> (\<open>getTrainTimetable\<close>) reads the rows
  of one train from the database, tries to repair the order of rows after midnight,
  attaches the sort key \<open>hourSort\<close>, the kilometre position of the station and the
  speed limits up to the next station, and sorts by the key. \<open>config.js\<close> holds
  constants (read by controllers outside \<open>src\<close>); \<open>interfaces/ISteamUser.ts\<close> is the type
  of the player record the \<open>/steam\<close> route returns.

  \<^bold>\<open>The theories.\<close>
  \<^item> \<open>Prelude\<close>: the JavaScript values the code depends on: property reads on a plain
    object (\<open>js_obj_get\<close>), numbers with \<open>NaN\<close>
    (\<open>'a jsnum\<close>) and their relational operators (\<open>js_lt\<close>, \<open>js_le\<close>: false on \<open>NaN\<close>),
    \<open>%\<close> (\<open>js_rem\<close>, truncating), ToNumber of JSON \<open>null\<close>/\<open>undefined\<close>,
    array reads out of range (\<open>js_at\<close>), \<open>findIndex\<close>, \<open>slice\<close>, \<open>splice\<close>,
    and the error type (\<open>TypeError\<close>, rejected promises). The \<open>linorder\<close> instance of
    \<open>jsnum\<close> is lodash's sort order (\<open>NaN\<close> last).
  \<^item> \<open>JsString\<close>: \<open>Number.parseInt\<close>, \<open>split\<close>, \<open>toLowerCase\<close>, template literals.
  \<^item> \<open>UriCodec\<close>: \<open>decodeURIComponent\<close> (\<open>uri_decode\<close>, ECMAScript's \<open>Decode\<close>
    with UTF-8 validation; a \<open>URIError\<close> is \<open>None\<close>) and \<open>encodeURIComponent\<close>
    (\<open>uri_encode\<close>), with the round trip \<open>uri_decode_encode\<close> on well-formed UTF-8 and
    the split of a decoding at a slash.
  \<^item> \<open>Lodash\<close>: \<open>_.groupBy\<close> (a fold into a map, \<open>groupBy_lookup\<close>) and
    \<open>_.sortBy\<close> (decorate with criterion and position, merge sort, undecorate), proved
    equal to HOL's stable \<open>sort_key\<close> (\<open>sortBy_eq_sort_key\<close>).
  \<^item> \<open>Merge\<close>: the feed merger of \<open>index.ts\<close> lines 71-118 (\<open>merge_timetable\<close>,
    \<open>merge_train\<close>, \<open>merge_row\<close>, \<open>stop_type_number\<close>); object spreads are record
    schemes, a missing annotation is \<open>None\<close>.
  \<^item> \<open>Chronology\<close>: the sort key \<open>hour_sort\<close> (\<open>train.ts\<close> line 69) and the rollover
    repair \<open>rollover_repair\<close> (lines 41-53) over any key, with its abstract
    specification \<open>move_block\<close> and the refinement \<open>rollover_repair_refines\<close>.
  \<^item> \<open>Overlay\<close>: speed-limit records (lines 7-13), grouping (line 15), the direction from
    the train number's parity (\<open>is_northbound\<close>, line 55), and the per-row selection
    \<open>speed_limits_to_next\<close> (lines 59-66).
  \<^item> \<open>Assembler\<close>: \<open>get_train_timetable\<close>, the whole of \<open>getTrainTimetable\<close>: the
    speed feed and the query are inputs (a value or a rejection), the repair reads the
    key the code reads (\<open>code_row_key\<close>), then \<open>enrich_row\<close> and \<open>_.sortBy\<close>.
  \<^item> \<open>Refresh\<close>: the state of \<open>index.ts\<close> (\<open>backend_state\<close>: \<open>completeTrainList\<close>,
    \<open>speeds\<close>), \<open>updateTimetable\<close> (\<open>update_timetable\<close>, with its loop \<open>refresh_servers\<close>
    and one server \<open>refresh_server\<close>), \<open>updateSpeedLimits\<close> (\<open>update_speed_limits\<close>),
    the upstream responses as an input record \<open>feeds\<close>, and the interleaving of running
    jobs at their \<open>await\<close>s: \<open>job_step fd\<close> is one step of a running timetable job whose
    feeds answer as \<open>fd\<close> (a server processed, the loop left on a rejection, the job
    ended), \<open>backend_step\<close> a step of the process (a job started, a job step with any
    answers, a speed-limit job). \<open>run_jobs\<close> runs the jobs one after the other; the
    refinement \<open>update_timetable_refines_steps\<close> relates the function to the steps.
  \<^item> \<open>Refresh_Progress\<close>: a measure (\<open>job_measure\<close>, one unit per remaining server and
    per loop to leave) that every job step decreases, and the outcome of every complete
    interleaving of the running jobs.
  \<^item> \<open>Routing\<close>: the GET routes of \<open>index.ts\<close> (lines 174-206) as a table of
    patterns (\<open>route_table\<close>), Express's matching (\<open>match_path\<close>: literals without
    regard to ASCII case, non-empty parameters, one optional trailing slash) and first-match
    dispatch (\<open>route_get\<close>), each route resolving to the controller call it makes
    (\<open>handle\<close>) with the state it passes; \<open>completeTrainList[code]\<close> is a property read
    on a plain object (\<open>js_obj_get\<close>: own property, member of \<open>Object.prototype\<close>, or
    \<open>undefined\<close>). Matching reads the raw path; the parameters are then percent-decoded
    (\<open>decode_params\<close>), and the \<open>OPTIONS *\<close> route of line 177, tried first for every
    request, decodes the whole path: a path or parameter that does not decode ends the
    request with 400 (\<open>route_outcome\<close>).
  \<^item> \<open>HttpApp\<close>: the Express application around the routes (lines 163-177): the CORS
    options \<open>corsConfig\<close>, the middleware chain \<open>app_middlewares\<close> in registration
    order, each middleware ending the response or passing it on (\<open>run_middlewares\<close>,
    first-match like a firewall chain), the \<open>OPTIONS *\<close> route and the GET routes
    (\<open>route_request\<close>), and one request end to end (\<open>app_handle\<close>). Of the library
    middlewares the model keeps what decides the response: status, payload, CORS headers,
    and whether the request was logged, secured by \<open>helmet\<close> and compressed.
  \<^item> \<open>Config\<close>: the data of \<open>config.js\<close> (server codes, maximal speed per train
    category, translation of the panel's column labels into row keys, dispatch posts and
    their stations as UTF-8 bytes, base URLs and request headers of the upstream panel).
    No code under \<open>src\<close> reads these tables, so no property of the development is about
    them beyond the bounds of the speed table.
  \<^item> \<open>SteamUser\<close>: \<open>ISteamUser.ts\<close> read as what a TypeScript interface means at
    run time, a set of JSON values: JSON values (\<open>json\<close>), the interface as a type guard
    (\<open>conforms_ISteamUser\<close>) and the record it describes (\<open>steam_user\<close>). The file has
    no run-time code, so nothing is proved about it.
  \<^item> this theory: the end-to-end properties of \<open>getTrainTimetable\<close>, the reader of the
    store while the refresh jobs run, and the witnesses.

  \<^bold>\<open>What the lemmas show.\<close> The merger keeps one stop per official stop, numbers
  them \<open>0..N-1\<close>, keeps the official fields, joins annotations by index and leaves them
  unset when absent; the stop-type number is a case-insensitive three-way class. The
  repair is a permutation that keeps the first row, is idempotent on non-negative keys, and
  moves exactly the block before the first jump of more than 1000 (the identity without a
  midnight crossing). The overlay attaches nothing when a position is unknown and otherwise
  exactly the limits of the line and track whose start lies strictly inside the segment
  in the direction of travel. \<open>getTrainTimetable\<close> returns the rows, enriched, in the
  stable order of their keys, and rejects exactly on a failed feed, a failed query or
  fewer than two rows. A timetable refresh leaves each server at its old timetable or at
  the complete merge of its current feeds; with all feeds available it stores exactly
  those merges; one failing server leaves every later one stale; the speed-limit job falls
  back to the bundled file; the two jobs commute. In the interleaving semantics, with the
  feeds answering as \<open>fd\<close>, the completed runs of one \<open>updateTimetable\<close> job end in
  exactly the state the function computes (\<open>update_timetable_refines_steps\<close>), the
  completed interleavings of any running jobs end in the state of running them in start
  order (\<open>jobs_interleaving_exact\<close>, by the invariant that each step keeps
  \<open>run_jobs\<close> of what remains), every sequence of job steps is finite whatever the
  feeds answer (\<open>job_steps_terminate\<close>), and a reader of the train route sees for
  its server the value from before the jobs or the complete merge of its feeds, never
  anything in between (\<open>readers_see_snapshots\<close>). No path matches two routes
  (\<open>routes_disjoint\<close>). A train route whose parameters a client encoded with
  \<open>encodeURIComponent\<close> reaches the controller with the decoded parameters and the
  entry of the decoded server code (\<open>route_train\<close>); the router answers 400 exactly
  when the path does not decode (\<open>route_bad_request_iff\<close>). A GET request passes the
  whole middleware chain to its route (\<open>get_request_pipeline\<close>), other methods get
  400 or 404 (\<open>other_method_pipeline\<close>), and every OPTIONS request is answered by the
  first middleware (\<open>preflight_bypasses_chain\<close>).

  \<^bold>\<open>What the modelling showed.\<close> In \<open>getTrainTimetable\<close> the rows carry no
  \<open>hourSort\<close> when the repair runs, so its guard compares \<open>NaN\<close> and is always false:
  the repair is dead code (\<open>get_train_timetable_functional\<close>), and the final sort by
  \<open>HHMM\<close> puts post-midnight stops first (\<open>scenario_A_code\<close>, against the design's
  scenario A). A train with fewer than two rows raises a \<open>TypeError\<close> instead of skipping
  the repair, and the speed limits of \<open>train.ts\<close> are loaded once, without the bundled
  fallback (\<open>get_train_timetable_errors\<close>). In \<open>index.ts\<close>, one server whose feed
  fails ends the whole refresh cycle: later servers keep stale timetables although their
  feeds answer (\<open>update_timetable_abort_rest\<close>, against the design's failure
  isolation), and the rejected promise is not handled. The application-wide \<open>cors\<close>
  middleware, registered first, ends every OPTIONS request: preflights are neither logged
  nor given helmet's headers, and the \<open>OPTIONS *\<close> route of line 177 never runs; yet its
  pattern is matched, and its parameter decoded, for every other request, so a path with
  a malformed escape is answered 400 even where no route would take it
  (\<open>malformed_escape_bad_request\<close>). \<open>completeTrainList\<close> is a plain object: a server
  code such as \<open>constructor\<close> hands the controller a member of \<open>Object.prototype\<close>
  instead of \<open>undefined\<close> (\<open>route_train_constructor\<close>).

  \<^bold>\<open>Bounds and idealisations.\<close> No loop of the modelled code can fail to end (every
  recursion is structural or by a measure), so no fuel is needed. Numbers are exact
  integers and reals: the values involved (four-digit keys, metre positions, train
  numbers) are far inside the range where doubles are exact, except that kilometre
  positions are compared as exact quotients by 1000. Strings are byte strings; only ASCII
  white space and letters are special to \<open>parseInt\<close> and \<open>toLowerCase\<close>, which is
  exact for the stop types and times compared. A decoded route parameter outside ASCII
  is kept as its UTF-8 bytes, the form in which the posts of \<open>config.js\<close> are kept.
  Lodash's comparator orders two \<open>NaN\<close> keys inconsistently; the model keeps them in input
  order, one of the orders a sort may produce. Server codes written into the store come
  from the upstream list and are assumed not to be \<open>__proto__\<close>, whose assignment would
  replace the prototype of \<open>completeTrainList\<close>.

  The responses of the upstream services are arbitrary inputs of each step of
  \<open>backend_step\<close>; the properties of complete runs fix them as one \<open>fd\<close>, which loses
  nothing for one job (it requests each server once) and for several jobs means the
  upstream answers the same while they overlap. When both requests of \<open>Promise.all\<close>
  reject, the model reports the first one, which only changes an error value nothing
  reads. A failed server list is a job that ends without a step. The job steps terminate
  because \<open>job_measure\<close> decreases on each of them; this is the only unbounded behaviour
  of the model, so no fuel appears anywhere.

  \<^bold>\<open>Not modelled.\<close> The inner workings of the HTTP middlewares (which headers helmet sets, the log format, the encoding) and \<open>app.listen\<close>
  (line 207), the query string (the router sees the path only), the cron schedules as clock
  times (any order of job events is allowed instead), the fetchers, the database pool and
  the controllers (not under \<open>src\<close>; their results are inputs), \<open>console\<close> output,
  and the process exit an unhandled rejection may cause.
\<close>

section \<open>Scenario data\<close>

text \<open>A row of the query with only a station and a scheduled arrival \<open>HH:MM\<close>.\<close>

definition sa_row :: "string \<Rightarrow> nat \<Rightarrow> nat \<Rightarrow> timetable_row" where
  "sa_row st h m =
     \<lparr>train_number = ''1234'', scheduled_arrival_hour = Some (hhmm_text h m), station = st,
      layover = None, scheduled_departure_hour = None, train_type = None, line = ''1'',
      cacheDate = None, stop_type = None, scheduled_arrival = None, real_arrival = None,
      real_arrival_hour = None, real_departure = None, real_departure_hour = None\<rparr>"

text \<open>Scenario A of the design: arrivals 08:00, 00:10, 23:50 in this order.\<close>

definition scenario_a_rows :: "timetable_row list" where
  "scenario_a_rows = [sa_row ''A'' 8 0, sa_row ''B'' 0 10, sa_row ''C'' 23 50]"

text \<open>Scenario B: line 1 from \<open>X\<close> (km 50) to \<open>Y\<close> (km 40); two limits on track \<open>N\<close>.\<close>

definition scenario_b_mileage :: mileage_table where
  "scenario_b_mileage = [''1'' \<mapsto> [''X'' \<mapsto> JVal 50, ''Y'' \<mapsto> JVal 40]]"

definition scenario_b_limit :: "string \<Rightarrow> speed_api" where
  "scenario_b_limit start =
     \<lparr>api_lineNo = ''1'', api_track = ''N'', api_axisStart = start, api_axisEnd = ''60000'',
      api_speed = 80\<rparr>"

definition scenario_b_rows :: "timetable_row list" where
  "scenario_b_rows = [sa_row ''X'' 8 0, sa_row ''Y'' 8 10]"

text \<open>A detailed train and an EDR train for the merger.\<close>

definition ex_official :: "official_row server_train" where
  "ex_official =
     \<lparr>trainNoLocal = ''1234'',
      timetable = [\<lparr>stopType = Some ''CommercialStop'', indexOfPoint = 7\<rparr>,
                   \<lparr>stopType = None, indexOfPoint = 8\<rparr>]\<rparr>"

definition ex_edr_row :: edr_row where
  "ex_edr_row =
     \<lparr>edr_indexOfPoint = 1, edr_actualArrivalTime = ''08:01'', edr_actualDepartureTime = ''08:02'',
      edr_confirmedBy = ''dispatcher'', edr_isActive = True, edr_isConfirmed = True,
      edr_isStoped = False, edr_leftTrack = False, edr_plannedStop = True, edr_stopDuration = 1,
      edr_timetableType = ''real''\<rparr>"

definition ex_edr :: edr_train where
  "ex_edr =
     \<lparr>edr_trainNoLocal = ''1234'', edr_usageNotes = ''u'', edr_ownNotes = ''o'',
      edr_isQualityTracked = False, edr_isOverGauge = False, edr_isOverWeight = True,
      edr_isOtherExceptional = False, edr_isHighRiskCargo = False, edr_isDangerousCargo = False,
      edr_carrierName = ''PKP'', edr_timetable = Some [ex_edr_row]\<rparr>"

text \<open>Feeds of two servers: \<open>pl1\<close> rejects its detailed timetable, \<open>pl2\<close> answers.\<close>

definition abort_feeds :: feeds where
  "abort_feeds =
     \<lparr>getServerCodeList = Inr [''pl1'', ''pl2''],
      getFullTimetable = (\<lambda>c. if c = ''pl1'' then Inl (Rejected ''503'') else Inr [ex_official]),
      getEdrTimetable = (\<lambda>c. Inr [ex_edr])\<rparr>"

text \<open>Feeds of one server \<open>pl1\<close> where everything answers.\<close>

definition ok_feeds :: feeds where
  "ok_feeds =
     \<lparr>getServerCodeList = Inr [''pl1''], getFullTimetable = (\<lambda>c. Inr [ex_official]),
      getEdrTimetable = (\<lambda>c. Inr [ex_edr])\<rparr>"

text \<open>The process after one complete refresh of \<open>pl1\<close> from its initial state.\<close>

definition refreshed_sys :: refresh_sys where
  "refreshed_sys =
     initial_sys\<lparr>backend := initial_state\<lparr>completeTrainList :=
       [''pl1'' \<mapsto> merge_timetable [ex_official] [ex_edr]]\<rparr>\<rparr>"

section \<open>Helpers\<close>

lemma sa_row_simps [simp]:
  "h < 100 \<Longrightarrow> m < 100 \<Longrightarrow>
   hour_sort (scheduled_arrival_hour (sa_row st h m)) = JNum (int (100 * h + m))"
  "station (sa_row st h m) = st"
  "line (sa_row st h m) = ''1''"
  by (simp_all add: sa_row_def hour_sort_hhmm_value)

lemmas repair_eval =
  rollover_repair_eq_move_block crosses_midnight_def first_boundary_def is_rollover_boundary_def
  move_block_def upt_rec

section \<open>getTrainTimetable end to end\<close>

text \<open>
  C6: on a query result of two rows or more, \<open>getTrainTimetable\<close> returns the enriched
  rows in the stable order of their sort key, in the order the query returned them: the
  rollover repair never changes anything.
\<close>

theorem get_train_timetable_functional:
  assumes "query t = Inr data" and "2 \<le> length data"
  shows "get_train_timetable m (Inr api) query t =
    Inr (sort_key hourSort
          (map (\<lambda>(i, row). enrich_row m (speeds_by_line api) (is_northbound t) data i row)
               (enumerate 0 data)))"
  using assms by (simp add: get_train_timetable_eq assemble_def sortBy_unfold del: decorate.simps)

text \<open>
  When the speed-limit feed of \<open>train.ts\<close> failed to load, every call of
  \<open>getTrainTimetable\<close> rejects with that error: there is no fallback.
\<close>

theorem get_train_timetable_no_fallback:
  "get_train_timetable m (Inl e) query t = Inl e"
  by (simp add: get_train_timetable_def)

text \<open>
  C7: \<open>getTrainTimetable\<close> rejects exactly when the speed-limit feed rejected (with its
  error: there is no fallback), or the query rejected (with its error), or the train has
  fewer than two rows (with a TypeError); it never rejects otherwise.
\<close>

theorem get_train_timetable_errors:
  "get_train_timetable m feed query t = Inl e \<longleftrightarrow>
     feed = Inl e \<or>
     (\<exists>api. feed = Inr api \<and> query t = Inl e) \<or>
     (\<exists>api data. feed = Inr api \<and> query t = Inr data \<and> length data < 2 \<and> e = TypeError)"
proof (cases feed)
  case (Inl err)
  then show ?thesis
    by (auto simp: get_train_timetable_def)
next
  case (Inr api)
  then show ?thesis
    by (auto simp: get_train_timetable_eq split: sum.splits)
qed

text \<open>
  Scenario A of the design through \<open>getTrainTimetable\<close> as written: the stations come
  out in the order of their \<open>HHMM\<close> keys, 00:10 first, where the design expects it last.
\<close>

lemma scenario_A_code:
  "map_sum id (map station)
     (get_train_timetable Map.empty (Inr []) (\<lambda>_. Inr scenario_a_rows) ''1234'') =
   Inr [''B'', ''A'', ''C'']"
  by (simp add: get_train_timetable_eq assemble_def sortBy_unfold scenario_a_rows_def
      del: decorate.simps)

section \<open>The refresh jobs and the HTTP readers together\<close>

text \<open>
  C27: while the timetable jobs run, with the feeds answering as \<open>fd\<close>, a train route
  hands its controller, for the server code it was asked for, either what
  \<open>completeTrainList[serverCode]\<close> read before the jobs ran (a timetable, a member
  inherited from \<open>Object.prototype\<close>, or \<open>undefined\<close>) or the complete merge of that
  server's current feeds, never a timetable in between; the speed limits are unchanged.
\<close>

theorem readers_see_snapshots:
  assumes "(job_step fd)\<^sup>*\<^sup>* s s'"
    and "route_get (backend s') path = Routed (TrainTimetableController b v sp)"
  shows "(v = js_obj_get (completeTrainList (backend s)) (server_param b) \<or>
          v = Own (merged_feed fd (server_param b))) \<and> sp = speeds (backend s)"
proof -
  have v: "v = js_obj_get (completeTrainList (backend s')) (server_param b)"
    and sp: "sp = speeds (backend s')"
    using route_train_reads [OF assms(2)] by simp_all
  have "completeTrainList (backend s') (server_param b) = completeTrainList (backend s) (server_param b) \<or>
      completeTrainList (backend s') (server_param b) = Some (merged_feed fd (server_param b))"
    and "speeds (backend s') = speeds (backend s)"
    using job_steps_snapshot [OF assms(1)] by simp_all
  with v sp show ?thesis
    by (auto simp: js_obj_get_def)
qed

section \<open>Witnesses\<close>

theorem get_train_timetable_functional_witness:
  "(\<lambda>_. Inr scenario_a_rows) ''1234'' = (Inr scenario_a_rows :: js_error + timetable_row list) \<and>
   2 \<le> length scenario_a_rows \<and>
   get_train_timetable Map.empty (Inr []) (\<lambda>_. Inr scenario_a_rows) ''1234'' =
     Inr (sort_key hourSort
          (map (\<lambda>(i, row). enrich_row Map.empty (speeds_by_line []) (is_northbound ''1234'')
                              scenario_a_rows i row)
               (enumerate 0 scenario_a_rows)))"
  using get_train_timetable_functional [of "\<lambda>_. Inr scenario_a_rows" "''1234''" scenario_a_rows
      Map.empty "[]"]
  by (simp add: scenario_a_rows_def)

theorem merge_join_by_index_witness:
  "1 < length (timetable ex_official) \<and>
   find_edr_train [ex_edr] (trainNoLocal ex_official) = Some ex_edr \<and>
   edr_timetable ex_edr = Some [ex_edr_row] \<and>
   find (\<lambda>r. edr_indexOfPoint r = int 1) [ex_edr_row] = Some ex_edr_row \<and>
   actualArrivalTime (timetable (merge_train [ex_edr] ex_official) ! 1) = Some ''08:01'' \<and>
   stopDuration (timetable (merge_train [ex_edr] ex_official) ! 1) = Some 1"
proof -
  have h: "1 < length (timetable ex_official)"
    "find_edr_train [ex_edr] (trainNoLocal ex_official) = Some ex_edr"
    "edr_timetable ex_edr = Some [ex_edr_row]"
    "find (\<lambda>r. edr_indexOfPoint r = int 1) [ex_edr_row] = Some ex_edr_row"
    by (simp_all add: ex_official_def ex_edr_def ex_edr_row_def find_edr_train_def)
  show ?thesis
    using h merge_join_by_index [OF h] by (simp add: ex_edr_row_def)
qed

theorem merge_no_annotation_witness:
  "find_edr_train [] (trainNoLocal ex_official) = None \<and>
   carrierName (merge_train [] ex_official) = None \<and>
   actualArrivalTime (hd (timetable (merge_train [] ex_official))) = None \<and>
   stopTypeNumber (hd (timetable (merge_train [] ex_official))) = 1"
proof -
  have h: "find_edr_train [] (trainNoLocal ex_official) = None"
    by (simp add: find_edr_train_def)
  have ne: "hd (timetable (merge_train [] ex_official)) \<in> set (timetable (merge_train [] ex_official))"
    by (simp add: ex_official_def merge_train_def Let_def)
  have st: "stopTypeNumber (hd (timetable (merge_train [] ex_official))) = 1"
    by (simp add: ex_official_def merge_train_def merge_row_def stop_type_number_def Let_def
        js_toLowerCase_def is_ascii_upper_def)
  show ?thesis
    using h st merge_no_annotation [OF h] ne by blast
qed

theorem merge_train_level_annotation_witness:
  "find_edr_train [ex_edr] (trainNoLocal ex_official) = Some ex_edr \<and>
   carrierName (merge_train [ex_edr] ex_official) = Some ''PKP''"
proof -
  have h: "find_edr_train [ex_edr] (trainNoLocal ex_official) = Some ex_edr"
    by (simp add: ex_official_def ex_edr_def find_edr_train_def)
  have c: "carrierName (merge_train [ex_edr] ex_official) = Some (edr_carrierName ex_edr)"
    using merge_train_level_annotation [OF h] by blast
  have "edr_carrierName ex_edr = ''PKP''"
    by (simp add: ex_edr_def)
  with h c show ?thesis by simp
qed

theorem overlay_selects_witness:
  "mileage_at scenario_b_mileage (line (hd scenario_b_rows)) (station (hd scenario_b_rows)) = Some (JVal 50) \<and>
   next_station_km scenario_b_mileage scenario_b_rows 0 (hd scenario_b_rows) = Some (JVal 40) \<and>
   speed_limits_to_next scenario_b_mileage
     (speeds_by_line [scenario_b_limit ''45000'', scenario_b_limit ''55000''])
     (is_northbound ''1234'') scenario_b_rows 0 (hd scenario_b_rows) =
   [convert_speed (scenario_b_limit ''45000'')]"
proof -
  have h: "mileage_at scenario_b_mileage (line (hd scenario_b_rows)) (station (hd scenario_b_rows)) = Some (JVal 50)"
    "next_station_km scenario_b_mileage scenario_b_rows 0 (hd scenario_b_rows) = Some (JVal 40)"
    by (simp_all add: scenario_b_mileage_def scenario_b_rows_def mileage_at_def next_station_km_def)
  have north: "is_northbound ''1234''"
    by (simp add: is_northbound_def js_string_defs Let_def)
  have p45: "js_parseInt ''45000'' = JNum 45000" and p55: "js_parseInt ''55000'' = JNum 55000"
    and p60: "js_parseInt ''60000'' = JNum 60000"
    by (simp_all add: js_string_defs Let_def)
  show ?thesis
    using h overlay_selects [OF h, of "[scenario_b_limit ''45000'', scenario_b_limit ''55000'']" "is_northbound ''1234''"]
      north p45 p55 p60
    by (simp add: scenario_b_limit_def convert_speed_def direction_track_def scenario_b_rows_def)
qed

theorem overlay_unknown_geometry_witness:
  "\<not> known_km (next_station_km Map.empty scenario_b_rows 0 (hd scenario_b_rows)) \<and>
   speed_limits_to_next Map.empty (speeds_by_line [scenario_b_limit ''45000'']) True
     scenario_b_rows 0 (hd scenario_b_rows) = []"
proof -
  have h: "\<not> known_km (next_station_km Map.empty scenario_b_rows 0 (hd scenario_b_rows))"
    by (simp add: known_km_def next_station_km_def mileage_at_def scenario_b_rows_def)
  then show ?thesis
    using overlay_unknown_geometry [of Map.empty "hd scenario_b_rows" scenario_b_rows 0] by blast
qed
theorem rollover_repair_perm_witness:
  "rollover_repair (\<lambda>r. hour_sort (scheduled_arrival_hour r)) scenario_a_rows =
     Inr [sa_row ''A'' 8 0, sa_row ''C'' 23 50, sa_row ''B'' 0 10] \<and>
   mset [sa_row ''A'' 8 0, sa_row ''C'' 23 50, sa_row ''B'' 0 10] = mset scenario_a_rows"
proof -
  have run: "rollover_repair (\<lambda>r. hour_sort (scheduled_arrival_hour r)) scenario_a_rows =
     Inr [sa_row ''A'' 8 0, sa_row ''C'' 23 50, sa_row ''B'' 0 10]"
    by (simp add: repair_eval scenario_a_rows_def)
  show ?thesis using run rollover_repair_perm [OF run] by simp
qed

theorem rollover_repair_idem_witness:
  "map (\<lambda>r. hour_sort (scheduled_arrival_hour r)) scenario_a_rows = [JNum 800, JNum 10, JNum 2350] \<and>
   rollover_repair (\<lambda>r. hour_sort (scheduled_arrival_hour r)) scenario_a_rows =
     Inr [sa_row ''A'' 8 0, sa_row ''C'' 23 50, sa_row ''B'' 0 10] \<and>
   rollover_repair (\<lambda>r. hour_sort (scheduled_arrival_hour r))
     [sa_row ''A'' 8 0, sa_row ''C'' 23 50, sa_row ''B'' 0 10] =
     Inr [sa_row ''A'' 8 0, sa_row ''C'' 23 50, sa_row ''B'' 0 10]"
proof -
  have nn: "\<forall>r\<in>set scenario_a_rows. \<forall>k. hour_sort (scheduled_arrival_hour r) = JNum k \<longrightarrow> 0 \<le> k"
    by (auto simp: scenario_a_rows_def)
  have run: "rollover_repair (\<lambda>r. hour_sort (scheduled_arrival_hour r)) scenario_a_rows =
     Inr [sa_row ''A'' 8 0, sa_row ''C'' 23 50, sa_row ''B'' 0 10]"
    by (simp add: repair_eval scenario_a_rows_def)
  show ?thesis
    using run rollover_repair_idem [OF nn run] by (simp add: scenario_a_rows_def)
qed

theorem hour_sort_hhmm_witness:
  "(23::nat) < 100 \<and> (50::nat) < 100 \<and> hour_sort (Some (hhmm_text 23 50)) = JNum 2350"
  using hour_sort_hhmm [of 23 50] by simp
theorem update_timetable_abort_rest_witness:
  "isl (snd (update_timetable abort_feeds initial_state)) \<and>
   completeTrainList (fst (update_timetable abort_feeds initial_state)) ''pl2'' = None \<and>
   getFullTimetable abort_feeds ''pl2'' = Inr [ex_official] \<and>
   getEdrTimetable abort_feeds ''pl2'' = Inr [ex_edr]"
proof -
  have h1: "getServerCodeList abort_feeds = Inr ([] @ ''pl1'' # [''pl2''])"
    by (simp add: abort_feeds_def)
  have h2: "\<forall>y\<in>set []. feeds_ok abort_feeds y"
    by simp
  have h3: "isl (getFullTimetable abort_feeds ''pl1'') \<or> isl (getEdrTimetable abort_feeds ''pl1'')"
    by (simp add: abort_feeds_def)
  show ?thesis
    using update_timetable_abort_rest [OF h1 h2 h3, of initial_state]
    by (simp add: initial_state_def abort_feeds_def)
qed

theorem update_timetable_success_witness:
  "snd (update_timetable ok_feeds initial_state) = Inr () \<and>
   completeTrainList (fst (update_timetable ok_feeds initial_state)) ''pl1'' =
     Some (merge_timetable [ex_official] [ex_edr])"
proof -
  have h1: "getServerCodeList ok_feeds = Inr [''pl1'']"
    by (simp add: ok_feeds_def)
  have h2: "\<forall>c\<in>set [''pl1'']. feeds_ok ok_feeds c"
    by (simp add: ok_feeds_def)
  show ?thesis
    using update_timetable_success [OF h1 h2, of initial_state "''pl1''"]
    by (simp add: ok_feeds_def)
qed


theorem routes_disjoint_witness:
  "(8::nat) < length route_table \<and>
   match_path (fst (route_table ! 8)) [''train'', ''pl1'', ''1234''] \<noteq> None \<and> (8::nat) = 8"
proof -
  have h: "(8::nat) < length route_table"
    "match_path (fst (route_table ! 8)) [''train'', ''pl1'', ''1234''] \<noteq> None"
    by (simp_all add: route_table_def js_toLowerCase_def)
  show ?thesis
    using h routes_disjoint [OF h(1) h(1) h(2) h(2)] by blast
qed

theorem route_train_witness:
  "route_get initial_state ''/train/G%C3%B3ra/1234'' =
     Routed (TrainTimetableController [(''serverCode'', ''G'' @ [CHR 0xC3, CHR 0xB3] @ ''ra''),
       (''trainNo'', ''1234'')] Undefined None)"
  using route_train [of "''G'' @ [CHR 0xC3, CHR 0xB3] @ ''ra''" "''1234''" initial_state]
  by (simp add: initial_state_def uri_encode_def uri_unreserved_def percent_escape_def
      hex_digit_def utf8_len_def utf8_cont_def js_obj_get_def object_prototype_keys_def)

theorem vmax_bounds_witness:
  "vmax_of ''TME'' = Some 80 \<and> 80 \<le> (80::int) \<and> (80::int) \<le> 200"
proof -
  have h: "vmax_of ''TME'' = Some 80"
    by (simp add: vmax_of_def vmax_by_type_def)
  show ?thesis
    using h vmax_bounds [OF h] by simp
qed

theorem readers_see_snapshots_witness:
  "(job_step ok_feeds)\<^sup>*\<^sup>* (initial_sys\<lparr>jobs := [[''pl1'']]\<rparr>) refreshed_sys \<and>
   route_get (backend refreshed_sys) ''/train/pl1/1234'' =
     Routed (TrainTimetableController [(''serverCode'', ''pl1''), (''trainNo'', ''1234'')]
            (Own (merge_timetable [ex_official] [ex_edr])) None) \<and>
   Own (merge_timetable [ex_official] [ex_edr]) = Own (merged_feed ok_feeds ''pl1'')"
proof -
  have run: "(job_step ok_feeds)\<^sup>*\<^sup>* (initial_sys\<lparr>jobs := [[''pl1'']]\<rparr>) refreshed_sys"
    using jobs_run_all [of ok_feeds "initial_sys\<lparr>jobs := [[''pl1'']]\<rparr>"]
    by (simp add: refreshed_sys_def initial_sys_def initial_state_def refresh_server_ok ok_feeds_def)
  have r: "route_get (backend refreshed_sys) ''/train/pl1/1234'' =
     Routed (TrainTimetableController [(''serverCode'', ''pl1''), (''trainNo'', ''1234'')]
            (Own (merge_timetable [ex_official] [ex_edr])) None)"
    by (simp add: refreshed_sys_def initial_sys_def initial_state_def route_get_def
        route_table_def path_segments_def js_toLowerCase_def server_param_def
        decode_params_def js_obj_get_def)
  show ?thesis
    using run r readers_see_snapshots [OF run r]
    by (auto simp: server_param_def refreshed_sys_def initial_sys_def initial_state_def
        merged_feed_def ok_feeds_def js_obj_get_def object_prototype_keys_def)
qed

theorem preflight_bypasses_chain_witness:
  "req_method \<lparr>req_method = OPTIONS, req_path = ''/train/pl1/1234'', req_body = NoBody\<rparr> = OPTIONS \<and>
   logged (app_handle initial_state
     \<lparr>req_method = OPTIONS, req_path = ''/train/pl1/1234'', req_body = NoBody\<rparr>) = False \<and>
   status (app_handle initial_state
     \<lparr>req_method = OPTIONS, req_path = ''/train/pl1/1234'', req_body = NoBody\<rparr>) = 204"
proof -
  have h: "req_method \<lparr>req_method = OPTIONS, req_path = ''/train/pl1/1234'', req_body = NoBody\<rparr> = OPTIONS"
    by simp
  show ?thesis
    using preflight_bypasses_chain [OF h, of initial_state] by simp
qed

theorem get_request_pipeline_witness:
  "req_method \<lparr>req_method = GET, req_path = ''/train/pl1/1234'', req_body = NoBody\<rparr> = GET \<and>
   app_handle initial_state \<lparr>req_method = GET, req_path = ''/train/pl1/1234'', req_body = NoBody\<rparr> =
     \<lparr>status = 200,
      payload = Call (TrainTimetableController [(''serverCode'', ''pl1''), (''trainNo'', ''1234'')] Undefined None),
      resp_headers = [(''Access-Control-Allow-Origin'', ''*'')],
      logged = True, secured = True, compressed = True\<rparr>"
proof -
  have h: "req_method \<lparr>req_method = GET, req_path = ''/train/pl1/1234'', req_body = NoBody\<rparr> = GET \<or>
      req_method \<lparr>req_method = GET, req_path = ''/train/pl1/1234'', req_body = NoBody\<rparr> = HEAD"
    by simp
  have r: "route_get initial_state ''/train/pl1/1234'' =
     Routed (TrainTimetableController [(''serverCode'', ''pl1''), (''trainNo'', ''1234'')] Undefined None)"
    by (simp add: initial_state_def route_get_def route_table_def path_segments_def
        js_toLowerCase_def server_param_def
        decode_params_def js_obj_get_def object_prototype_keys_def)
  show ?thesis
    using get_request_pipeline [OF h, of initial_state] r by simp
qed

theorem other_method_pipeline_witness:
  "req_method \<lparr>req_method = POST, req_path = ''/nope%zz'', req_body = NoBody\<rparr> \<notin> {GET, HEAD, OPTIONS} \<and>
   status (app_handle initial_state
     \<lparr>req_method = POST, req_path = ''/nope%zz'', req_body = NoBody\<rparr>) = 400 \<and>
   status (app_handle initial_state
     \<lparr>req_method = POST, req_path = ''/train/pl1/1234'', req_body = NoBody\<rparr>) = 404"
proof -
  have h: "req_method \<lparr>req_method = POST, req_path = ''/nope%zz'', req_body = NoBody\<rparr> \<notin> {GET, HEAD, OPTIONS}"
    "req_method \<lparr>req_method = POST, req_path = ''/train/pl1/1234'', req_body = NoBody\<rparr> \<notin> {GET, HEAD, OPTIONS}"
    by simp_all
  show ?thesis
    using h other_method_pipeline [OF h(1), of initial_state] other_method_pipeline [OF h(2), of initial_state]
    by (simp add: hex_byte_def hex_value_def)
qed

end
